theory Spec2Isabelle
  imports Main "HOL-Library.Multiset" "HOL-Library.Word"
begin

section \<open>Field elements\<close>

text \<open>
  \<^verbatim>\<open>fr_bn254.Element\<close> (package gnark-crypto, imported by every source file) is an
  element of the scalar field of the curve BN254: the integers modulo the prime
  \<open>fr_modulus\<close>.  The type \<open>fr\<close> holds the canonical representatives
  \<open>0 \<le> x < fr_modulus\<close>; \<open>Add\<close>, \<open>Sub\<close> and \<open>Mul\<close> reduce modulo
  \<open>fr_modulus\<close>.
\<close>

definition fr_modulus :: int where
  "fr_modulus = 21888242871839275222246405745257275088548364400416034343698204186575808495617"

lemma fr_modulus_gt_1: "1 < fr_modulus"
  by (simp add: fr_modulus_def)

typedef fr = "{0 ..< fr_modulus}"
  using fr_modulus_gt_1 by (intro exI[of _ 0]) simp

setup_lifting type_definition_fr

instantiation fr :: comm_ring_1
begin

lift_definition zero_fr :: fr is "0"
  using fr_modulus_gt_1 by simp

lift_definition one_fr :: fr is "1"
  using fr_modulus_gt_1 by simp

lift_definition plus_fr :: "fr \<Rightarrow> fr \<Rightarrow> fr" is "\<lambda>a b. (a + b) mod fr_modulus"
  using fr_modulus_gt_1 by simp

lift_definition minus_fr :: "fr \<Rightarrow> fr \<Rightarrow> fr" is "\<lambda>a b. (a - b) mod fr_modulus"
  using fr_modulus_gt_1 by simp

lift_definition uminus_fr :: "fr \<Rightarrow> fr" is "\<lambda>a. (- a) mod fr_modulus"
  using fr_modulus_gt_1 by simp

lift_definition times_fr :: "fr \<Rightarrow> fr \<Rightarrow> fr" is "\<lambda>a b. (a * b) mod fr_modulus"
  using fr_modulus_gt_1 by simp

instance
proof
  fix a b c :: fr
  show "a * b * c = a * (b * c)"
    by transfer (simp add: mod_simps mult.assoc)
  show "a * b = b * a"
    by transfer (simp add: mult.commute)
  show "1 * a = a"
    by transfer simp
  show "a + b + c = a + (b + c)"
    by transfer (simp add: mod_simps add.assoc)
  show "a + b = b + a"
    by transfer (simp add: add.commute)
  show "0 + a = a"
    by transfer simp
  show "- a + a = 0"
    by transfer (simp add: mod_simps)
  show "a - b = a + - b"
    by transfer (simp add: mod_simps)
  show "(a + b) * c = a * c + b * c"
    by transfer (simp add: mod_simps distrib_right)
  show "(0::fr) \<noteq> 1"
    by transfer simp
qed

end

text \<open>The canonical representative of an element, as \<^verbatim>\<open>Element.BigInt\<close> gives it.\<close>

lift_definition fr_val :: "fr \<Rightarrow> int" is "\<lambda>x. x" .

text \<open>
  \<^verbatim>\<open>fr_bn254.NewElement(v uint64)\<close> embeds a machine integer; \<^verbatim>\<open>Element.Uint64()\<close>
  returns the lowest 64 bits of the canonical representative.
\<close>

definition NewElement :: "64 word \<Rightarrow> 'a::comm_ring_1" where
  "NewElement v = of_nat (unat v)"

definition Uint64 :: "fr \<Rightarrow> 64 word" where
  "Uint64 x = word_of_int (fr_val x)"

subsection \<open>Primality\<close>

text \<open>
  The elements form a field because \<open>fr_modulus\<close> is prime.  This is proved further
  down, from a certificate, with the following notions.  \<open>is_prime p\<close>: \<open>p\<close> is
  greater than 1 and no number from 2 to \<open>p - 1\<close> divides it.
  \<open>pow_chain N g (e, x) steps\<close> follows a computation of powers of \<open>g\<close> modulo \<open>N\<close>
  by squaring and multiplying, starting from \<open>x\<close> as the value of \<open>g ^ e\<close>: a step
  \<open>Sq k y\<close> squares (\<open>x * x = k * N + y\<close>, the exponent doubles), a step
  \<open>SqMul k y k' y'\<close> squares and then multiplies by \<open>g\<close> (\<open>y * g = k' * N + y'\<close>).
  A step carries its quotients and remainders, so that following it takes
  multiplications only.  The result is the exponent reached with the power at it, or
  \<open>None\<close> when a step does not check.
\<close>

definition is_prime :: "nat \<Rightarrow> bool" where
  "is_prime p \<longleftrightarrow> 1 < p \<and> (\<forall>m\<in>{2 ..< p}. \<not> m dvd p)"

datatype chain_step = Sq nat nat | SqMul nat nat nat nat

fun pow_chain :: "nat \<Rightarrow> nat \<Rightarrow> nat \<times> nat \<Rightarrow> chain_step list \<Rightarrow> (nat \<times> nat) option" where
  "pow_chain N g (e, x) [] = Some (e, x)"
| "pow_chain N g (e, x) (Sq k y # cs) =
     (if x * x = k * N + y \<and> y < N then pow_chain N g (2 * e, y) cs else None)"
| "pow_chain N g (e, x) (SqMul k y k' y' # cs) =
     (if x * x = k * N + y \<and> y * g = k' * N + y' \<and> y' < N
      then pow_chain N g (2 * e + 1, y') cs else None)"

section \<open>The polynomial fingerprint\<close>

text \<open>
  \<^verbatim>\<open>PolyEval\<close> (the same text in \<^verbatim>\<open>example/sum_cmp.go\<close>, \<^verbatim>\<open>vote/vote.go\<close>,
  \<^verbatim>\<open>addr_val/addr_val_check.go\<close>): \<^verbatim>\<open>prod := vec[0]\<close> panics with an index out of
  range on an empty slice, which is the result \<open>None\<close>; otherwise the loop multiplies
  \<open>vec[i] + r\<close> into \<open>prod\<close> for \<open>i = 1 .. len(vec) - 1\<close>.  The function uses the
  ring operations of the element type only and is written over any commutative ring;
  the program uses it at type \<open>fr\<close>.
\<close>

fun PolyEval :: "'a::comm_ring_1 list \<Rightarrow> 'a \<Rightarrow> 'a option" where
  "PolyEval [] r = None"
| "PolyEval (v # vs) r = Some (fold (\<lambda>t prod. prod * (t + r)) vs (v + r))"

text \<open>
  \<^verbatim>\<open>PolyEvalInCircuit\<close>: the same loop over circuit variables, with \<^verbatim>\<open>api.Add\<close> and
  \<^verbatim>\<open>api.Mul\<close>, the field operations on the values assigned to the variables.
\<close>

fun PolyEvalInCircuit :: "'a::comm_ring_1 list \<Rightarrow> 'a \<Rightarrow> 'a option" where
  "PolyEvalInCircuit [] publicR = None"
| "PolyEvalInCircuit (v # vs) publicR =
     Some (fold (\<lambda>t prod. prod * (t + publicR)) vs (v + publicR))"

section \<open>The shuffler\<close>

text \<open>
  \<^verbatim>\<open>rand.Shuffle(n, swap)\<close> of Go's \<^verbatim>\<open>math/rand\<close> is the Fisher-Yates loop: for
  \<open>i = n - 1\<close> down to \<open>1\<close> it draws \<open>j\<close> in \<open>0 .. i\<close> and calls \<open>swap(i, j)\<close>.
  The draws are the function \<open>pick\<close> (the draw of step \<open>i\<close>, reduced to the range
  \<open>0 .. i\<close>); the callback acts on the state \<open>'s\<close> it closes over.  The callbacks of
  the source exchange two positions of one slice (\<open>swap\<close>) or of two slices at once
  (\<open>swap2\<close>).
\<close>

definition rand_Shuffle :: "(nat \<Rightarrow> nat) \<Rightarrow> nat \<Rightarrow> (nat \<Rightarrow> nat \<Rightarrow> 's \<Rightarrow> 's) \<Rightarrow> 's \<Rightarrow> 's" where
  "rand_Shuffle pick n sw st = fold (\<lambda>i. sw i (pick i mod (i + 1))) (rev [1 ..< n]) st"

definition swap :: "nat \<Rightarrow> nat \<Rightarrow> 'a list \<Rightarrow> 'a list" where
  "swap i j xs = (xs[i := xs ! j])[j := xs ! i]"

definition swap2 :: "nat \<Rightarrow> nat \<Rightarrow> 'a list \<times> 'b list \<Rightarrow> 'a list \<times> 'b list" where
  "swap2 i j st = (swap i j (fst st), swap i j (snd st))"

section \<open>The threshold-sum round (example/sum\_cmp.go)\<close>

subsection \<open>Client: splitting the secret, masking\<close>

text \<open>
  Step 1 of \<^verbatim>\<open>ShuffleZKGroth16\<close> and \<^verbatim>\<open>ShuffleZKPlonk\<close>: a slice of \<open>k\<close> shares
  (\<^verbatim>\<open>PrivateVecLength\<close> in the source) is allocated, share 0 is set to the secret, and
  for \<open>j = 1 .. k - 1\<close> share \<open>j\<close> is drawn (\<^verbatim>\<open>randomFr()\<close>, here \<open>rnd j\<close>) and
  subtracted from share 0.  Writing share 0 of an empty slice panics.
\<close>

definition split_step :: "(nat \<Rightarrow> 'a::comm_ring_1) \<Rightarrow> nat \<Rightarrow> 'a list \<Rightarrow> 'a list" where
  "split_step rnd j sh = (let sh' = sh[j := rnd j] in sh'[0 := sh' ! 0 - sh' ! j])"

definition SplitSecret :: "nat \<Rightarrow> 64 word \<Rightarrow> (nat \<Rightarrow> 'a::comm_ring_1) \<Rightarrow> 'a list option" where
  "SplitSecret k secret rnd =
     (if k = 0 then None
      else Some (fold (split_step rnd) [1 ..< k] ((replicate k 0)[0 := NewElement secret])))"

text \<open>
  The mask of a client is the product of its dummy values, accumulated from
  \<^verbatim>\<open>fr_bn254.One()\<close> (\<^verbatim>\<open>secretMask[i]\<close> in sum\_cmp.go, \<^verbatim>\<open>c.PrivateMask\<close> in vote.go).
\<close>

definition MaskOf :: "'a::comm_ring_1 list \<Rightarrow> 'a" where
  "MaskOf dummies = fold (\<lambda>y mask. mask * y) dummies 1"

text \<open>
  \<^verbatim>\<open>GenProofGroth16\<close> and \<^verbatim>\<open>GenProofPlonk\<close> compute the public product of a client:
  \<^verbatim>\<open>PolyEval(secretVal, publicRFr)\<close> times the mask.
\<close>

definition PublicProdOf :: "'a::comm_ring_1 list \<Rightarrow> 'a \<Rightarrow> 'a \<Rightarrow> 'a option" where
  "PublicProdOf secretVal publicR maskFr =
     (case PolyEval secretVal publicR of
        None \<Rightarrow> None
      | Some privateProd \<Rightarrow> Some (privateProd * maskFr))"

subsection \<open>Server: the consistency check and the sum\<close>

text \<open>
  Step 4: \<^verbatim>\<open>prodFromClients\<close> multiplies the public products of all clients;
  \<^verbatim>\<open>prodFromShuffler\<close> is \<^verbatim>\<open>PolyEval(allSecretVal, publicRFr)\<close> multiplied by every
  element of \<^verbatim>\<open>allMask\<close>; the check compares the two.
\<close>

definition ProdFromClients :: "'a::comm_ring_1 list \<Rightarrow> 'a" where
  "ProdFromClients publicProds = fold (\<lambda>p acc. acc * p) publicProds 1"

definition ProdFromShuffler :: "'a::comm_ring_1 list \<Rightarrow> 'a list \<Rightarrow> 'a \<Rightarrow> 'a option" where
  "ProdFromShuffler allSecretVal allMask publicR =
     (case PolyEval allSecretVal publicR of
        None \<Rightarrow> None
      | Some p \<Rightarrow> Some (fold (\<lambda>m acc. acc * m) allMask p))"

definition ServerCheck :: "'a::comm_ring_1 list \<Rightarrow> 'a list \<Rightarrow> 'a \<Rightarrow> 'a list \<Rightarrow> bool option" where
  "ServerCheck allSecretVal allMask publicR publicProds =
     (case ProdFromShuffler allSecretVal allMask publicR of
        None \<Rightarrow> None
      | Some prodFromShuffler \<Rightarrow> Some (prodFromShuffler = ProdFromClients publicProds))"

text \<open>The public products of all clients, from their share and dummy vectors.\<close>

definition ClientPublicProds :: "'a::comm_ring_1 list list \<Rightarrow> 'a list list \<Rightarrow> 'a \<Rightarrow> 'a list option" where
  "ClientPublicProds vals dummies publicR =
     those (map (\<lambda>(v, d). PublicProdOf v publicR (MaskOf d)) (zip vals dummies))"

text \<open>
  Steps 3 and 4 together: every client computes its public product at the challenge,
  then the server runs its check on what the shuffler delivered.
\<close>

definition ShuffleZK_check :: "'a::comm_ring_1 list list \<Rightarrow> 'a list list \<Rightarrow> 'a list \<Rightarrow> 'a list \<Rightarrow> 'a
    \<Rightarrow> bool option" where
  "ShuffleZK_check vals dummies allSecretVal allMask publicR =
     (case ClientPublicProds vals dummies publicR of
        None \<Rightarrow> None
      | Some publicProds \<Rightarrow> ServerCheck allSecretVal allMask publicR publicProds)"

text \<open>The sum the server prints: \<^verbatim>\<open>sum\<close> starts at 0 and adds every shuffled share.\<close>

definition ServerSum :: "'a::comm_ring_1 list \<Rightarrow> 'a" where
  "ServerSum allSecretVal = fold (\<lambda>x sum. sum + x) allSecretVal 0"

subsection \<open>The circuit of a client\<close>

text \<open>
  \<^verbatim>\<open>sumAndCmpCircuit\<close> and its \<^verbatim>\<open>Define\<close>.  \<^verbatim>\<open>api.AssertIsLessOrEqual(v, bound)\<close> of
  gnark holds when the canonical representative of \<open>v\<close> is at most that of \<open>bound\<close>;
  the MiMC hash of gnark is the parameter \<open>mimc\<close>.  \<open>Define\<close> gives, for each of its
  three assertions in order, whether the assignment satisfies it; reading
  \<^verbatim>\<open>PrivateVec[0]\<close> of an empty vector panics.
\<close>

record sumAndCmpCircuit =
  PrivateVec :: "fr list"
  PublicThreshold :: fr
  PrivateMask :: fr
  PublicR :: fr
  PublicProd :: fr
  PublicCommitment :: fr
  PrivateSalt :: fr

definition AssertIsLessOrEqual :: "fr \<Rightarrow> fr \<Rightarrow> bool" where
  "AssertIsLessOrEqual v bound = (fr_val v \<le> fr_val bound)"

fun SumInCircuit :: "'a::comm_ring_1 list \<Rightarrow> 'a option" where
  "SumInCircuit [] = None"
| "SumInCircuit (v # vs) = Some (fold (\<lambda>x sum. sum + x) vs v)"

definition sumAndCmp_Define :: "(fr list \<Rightarrow> fr) \<Rightarrow> sumAndCmpCircuit \<Rightarrow> (bool \<times> bool \<times> bool) option" where
  "sumAndCmp_Define mimc circuit =
     (case SumInCircuit (PrivateVec circuit) of
        None \<Rightarrow> None
      | Some sumVar \<Rightarrow>
          (case PolyEvalInCircuit (PrivateVec circuit) (PublicR circuit) of
             None \<Rightarrow> None
           | Some privateProd \<Rightarrow>
               Some (AssertIsLessOrEqual sumVar (PublicThreshold circuit),
                     privateProd * PrivateMask circuit = PublicProd circuit,
                     PublicCommitment circuit
                       = mimc (PrivateVec circuit @ [PrivateMask circuit, PrivateSalt circuit]))))"

text \<open>
  The assignment \<^verbatim>\<open>GenProofGroth16\<close> builds for a client; \<open>threshold\<close> is the constant
  \<^verbatim>\<open>PublicThreshold\<close> (2000 in the source).
\<close>

definition GenAssignment_sum :: "64 word \<Rightarrow> fr list \<Rightarrow> fr \<Rightarrow> fr \<Rightarrow> fr \<Rightarrow> fr \<Rightarrow> sumAndCmpCircuit option" where
  "GenAssignment_sum threshold secretVal publicRFr maskFr com salt =
     (case PublicProdOf secretVal publicRFr maskFr of
        None \<Rightarrow> None
      | Some publicProdFr \<Rightarrow>
          Some \<lparr>PrivateVec = secretVal, PublicThreshold = NewElement threshold,
                PrivateMask = maskFr, PublicR = publicRFr, PublicProd = publicProdFr,
                PublicCommitment = com, PrivateSalt = salt\<rparr>)"

text \<open>
  The path of one client through \<^verbatim>\<open>ShuffleZKGroth16\<close>: split the secret, multiply the
  dummies into the mask, commit, build the assignment at the challenge, and evaluate the
  circuit on it (the prover succeeds when all three assertions hold).  The native MiMC
  hash and the one of the circuit are the same function \<open>mimc\<close>.
\<close>

definition ClientRun :: "(fr list \<Rightarrow> fr) \<Rightarrow> 64 word \<Rightarrow> nat \<Rightarrow> 64 word \<Rightarrow> (nat \<Rightarrow> fr) \<Rightarrow> fr list \<Rightarrow> fr \<Rightarrow> fr
    \<Rightarrow> (bool \<times> bool \<times> bool) option" where
  "ClientRun mimc threshold k secretVal rnd dummies salt publicRFr =
     (case SplitSecret k secretVal rnd of
        None \<Rightarrow> None
      | Some splittedSecretVal \<Rightarrow>
          let secretMask = MaskOf dummies;
              commitment = mimc (splittedSecretVal @ [secretMask, salt])
          in case GenAssignment_sum threshold splittedSecretVal publicRFr secretMask commitment salt of
               None \<Rightarrow> None
             | Some assignment \<Rightarrow> sumAndCmp_Define mimc assignment)"

section \<open>The voting round (vote/vote.go)\<close>

subsection \<open>The client\<close>

record VoteCircuit =
  SortedCandidate :: "fr list"
  PairFirstVar :: "fr list"
  PairSecondVar :: "fr list"
  PrivateMask :: fr
  PublicR :: fr
  PublicProd :: fr
  PublicCommitment :: fr
  PrivateSalt :: fr

record ClientState =
  SortedCandidate :: "fr list"
  PairFirst :: "fr list"
  PairSecond :: "fr list"
  PrivateX :: "fr list"
  PrivateY :: "fr list"
  PublicCom :: fr
  PrivateMask :: fr
  PrivateSalt :: fr
  PublicProd :: fr
  PublicR :: fr

text \<open>
  The pair loop of \<^verbatim>\<open>ClientState.Init\<close>: for every rank position \<open>i\<close> and every
  \<open>j < C - i - 1\<close> the candidates \<open>sorted[i]\<close> and \<open>sorted[i+j+1]\<close> are written at
  position \<open>currentPair\<close> of the two preallocated slices, and \<open>currentPair\<close> is
  incremented.  An index out of range panics (\<open>None\<close>).  \<open>C\<close> is \<^verbatim>\<open>CandidateNum\<close>.
\<close>

definition pair_step :: "'a list \<Rightarrow> nat \<Rightarrow> nat \<Rightarrow> ('a list \<times> 'a list \<times> nat) option
    \<Rightarrow> ('a list \<times> 'a list \<times> nat) option" where
  "pair_step sortedCandidate i j st =
     (case st of
        None \<Rightarrow> None
      | Some (pairFirst, pairSecond, currentPair) \<Rightarrow>
          if i < length sortedCandidate \<and> i + j + 1 < length sortedCandidate
             \<and> currentPair < length pairFirst \<and> currentPair < length pairSecond
          then Some (pairFirst[currentPair := sortedCandidate ! i],
                     pairSecond[currentPair := sortedCandidate ! (i + j + 1)],
                     currentPair + 1)
          else None)"

definition InitPairs :: "nat \<Rightarrow> 'a::zero list \<Rightarrow> ('a list \<times> 'a list \<times> nat) option" where
  "InitPairs C sortedCandidate =
     fold (\<lambda>i st. fold (pair_step sortedCandidate i) [0 ..< C - i - 1] st) [0 ..< C]
       (Some (replicate (C * (C - 1) div 2) 0, replicate (C * (C - 1) div 2) 0, 0))"

text \<open>
  The rows of the pair list as the rule of the specification gives them: row \<open>i\<close>
  holds, for each later position \<open>i + j + 1\<close>, the pair
  \<open>(ranking[i], ranking[i+j+1])\<close>; \<open>rowFirst\<close> are the first components and
  \<open>rowSecond\<close> the second ones.
\<close>

definition rowFirst :: "nat \<Rightarrow> 'a list \<Rightarrow> nat \<Rightarrow> 'a list" where
  "rowFirst C s i = map (\<lambda>j. s ! i) [0 ..< C - i - 1]"

definition rowSecond :: "nat \<Rightarrow> 'a list \<Rightarrow> nat \<Rightarrow> 'a list" where
  "rowSecond C s i = map (\<lambda>j. s ! (i + j + 1)) [0 ..< C - i - 1]"

text \<open>The packed pairs: \<^verbatim>\<open>CandidateNum * PairFirst[i] + PairSecond[i]\<close>.\<close>

definition ProcessPairs :: "nat \<Rightarrow> 'a::comm_ring_1 list \<Rightarrow> 'a list \<Rightarrow> 'a list" where
  "ProcessPairs C pairFirst pairSecond =
     map (\<lambda>(p, q). NewElement (of_nat C) * p + q) (zip pairFirst pairSecond)"

text \<open>
  \<^verbatim>\<open>ClientState.Init\<close>.  Its random choices are parameters: \<open>pick\<close> drives the shuffle
  of the candidates \<open>0 .. C - 1\<close>, \<open>rnd\<close> gives the \<open>d\<close> dummies
  (\<open>d\<close> is \<^verbatim>\<open>DummyVecLength\<close>), \<open>salt\<close> is the salt; \<open>mimc\<close> is the MiMC hash of
  gnark-crypto.  \<^verbatim>\<open>PublicProd\<close> and \<^verbatim>\<open>PublicR\<close> keep Go's zero value.
  \<^verbatim>\<open>DummyVecLength\<close> is set once by \<^verbatim>\<open>ComputeDummyNum\<close>, a computation in \<^verbatim>\<open>float64\<close>
  (\<^verbatim>\<open>math.Log2\<close>, \<^verbatim>\<open>math.Ceil\<close>) that has no counterpart here; every statement below
  holds for every \<open>d\<close>.
\<close>

definition ClientState_Init :: "nat \<Rightarrow> nat \<Rightarrow> (nat \<Rightarrow> nat) \<Rightarrow> (nat \<Rightarrow> fr) \<Rightarrow> fr \<Rightarrow> (fr list \<Rightarrow> fr)
    \<Rightarrow> ClientState option" where
  "ClientState_Init C d pick rnd salt mimc =
     (let sortedCandidate = rand_Shuffle pick C swap (map (\<lambda>i. NewElement (of_nat i)) [0 ..< C]) in
      case InitPairs C sortedCandidate of
        None \<Rightarrow> None
      | Some (pairFirst, pairSecond, currentPair) \<Rightarrow>
          let privateX = ProcessPairs C pairFirst pairSecond;
              privateY = map rnd [0 ..< d];
              privateMask = MaskOf privateY
          in Some \<lparr>SortedCandidate = sortedCandidate, PairFirst = pairFirst, PairSecond = pairSecond,
                   PrivateX = privateX, PrivateY = privateY,
                   PublicCom = mimc (privateX @ [privateMask, salt]),
                   PrivateMask = privateMask, PrivateSalt = salt,
                   PublicProd = 0, PublicR = 0\<rparr>)"

definition ComputePolyEval :: "fr \<Rightarrow> ClientState \<Rightarrow> ClientState option" where
  "ComputePolyEval publicR c =
     (case PolyEval (PrivateX c) publicR of
        None \<Rightarrow> None
      | Some p \<Rightarrow> Some (c\<lparr>PublicProd := p * PrivateMask c\<rparr>))"

definition GenAssignment :: "fr \<Rightarrow> ClientState \<Rightarrow> (ClientState \<times> VoteCircuit) option" where
  "GenAssignment publicR c =
     (case ComputePolyEval publicR c of
        None \<Rightarrow> None
      | Some c' \<Rightarrow>
          Some (c', \<lparr>VoteCircuit.SortedCandidate = SortedCandidate c',
                     PairFirstVar = PairFirst c', PairSecondVar = PairSecond c',
                     PrivateMask = PrivateMask c', PublicR = publicR,
                     PublicProd = PublicProd c', PublicCommitment = PublicCom c',
                     PrivateSalt = PrivateSalt c'\<rparr>))"

subsection \<open>The circuit\<close>

text \<open>
  \<^verbatim>\<open>VoteCircuit.Define\<close>.  \<open>base C i\<close> is the value of the variable \<^verbatim>\<open>base\<close> when
  row \<open>i\<close> starts: the number of pairs of the earlier rows.  The loop asserts, for
  each position \<open>base + j\<close>, that the pair there is
  \<open>(SortedCandidate[i], SortedCandidate[i+j+1])\<close> and stores the packed pair; a slot of
  \<^verbatim>\<open>processedVec\<close> that is never stored stays \<^verbatim>\<open>nil\<close> (\<open>None\<close>), which the API calls
  that follow reject.  \<open>Define\<close> gives, for its four groups of assertions in order
  (permutation, pairs, product, commitment), whether the assignment satisfies them.
\<close>

definition base :: "nat \<Rightarrow> nat \<Rightarrow> nat" where
  "base C i = fold (\<lambda>i' b. b + (C - i' - 1)) [0 ..< i] 0"

definition define_step :: "nat \<Rightarrow> VoteCircuit \<Rightarrow> nat \<Rightarrow> nat \<Rightarrow> nat \<Rightarrow> (fr option list \<times> bool) option
    \<Rightarrow> (fr option list \<times> bool) option" where
  "define_step C circuit b i j st =
     (case st of
        None \<Rightarrow> None
      | Some (processedVec, ok) \<Rightarrow>
          if b + j < length (PairFirstVar circuit) \<and> b + j < length (PairSecondVar circuit)
             \<and> i < length (VoteCircuit.SortedCandidate circuit)
             \<and> i + j + 1 < length (VoteCircuit.SortedCandidate circuit)
             \<and> b + j < length processedVec
          then Some (processedVec[b + j :=
                       Some (PairFirstVar circuit ! (b + j) * of_nat C + PairSecondVar circuit ! (b + j))],
                     ok \<and> PairFirstVar circuit ! (b + j) = VoteCircuit.SortedCandidate circuit ! i
                        \<and> PairSecondVar circuit ! (b + j) = VoteCircuit.SortedCandidate circuit ! (i + j + 1))
          else None)"

definition define_pairs :: "nat \<Rightarrow> VoteCircuit \<Rightarrow> (fr option list \<times> bool) option" where
  "define_pairs C circuit =
     snd (fold (\<lambda>i (b, st). (b + (C - i - 1), fold (define_step C circuit b i) [0 ..< C - i - 1] st))
            [0 ..< C] (0, Some (replicate (length (PairFirstVar circuit)) None, True)))"

definition Vote_Define :: "nat \<Rightarrow> (fr list \<Rightarrow> fr) \<Rightarrow> VoteCircuit \<Rightarrow> (bool \<times> bool \<times> bool \<times> bool) option" where
  "Vote_Define C mimc circuit =
     (case PolyEvalInCircuit (map of_nat [0 ..< C]) (VoteCircuit.PublicR circuit) of
        None \<Rightarrow> None
      | Some unsortedProd \<Rightarrow>
     (case PolyEvalInCircuit (VoteCircuit.SortedCandidate circuit) (VoteCircuit.PublicR circuit) of
        None \<Rightarrow> None
      | Some sortedProd \<Rightarrow>
     (case define_pairs C circuit of
        None \<Rightarrow> None
      | Some (processedOpt, pairsOk) \<Rightarrow>
     (case those processedOpt of
        None \<Rightarrow> None
      | Some processedVec \<Rightarrow>
     (case PolyEvalInCircuit processedVec (VoteCircuit.PublicR circuit) of
        None \<Rightarrow> None
      | Some privateProd \<Rightarrow>
          Some (unsortedProd = sortedProd,
                pairsOk,
                privateProd * VoteCircuit.PrivateMask circuit = VoteCircuit.PublicProd circuit,
                VoteCircuit.PublicCommitment circuit
                  = mimc (processedVec @ [VoteCircuit.PrivateMask circuit,
                                          VoteCircuit.PrivateSalt circuit])))))))"

subsection \<open>Submissions and their verification\<close>

text \<open>
  \<^verbatim>\<open>ClientSubmissionToServer\<close>; its field \<^verbatim>\<open>proof\<close> is \<open>zkproof\<close> here.  A \<^verbatim>\<open>nil\<close>
  pointer is \<open>None\<close>.  \<^verbatim>\<open>GenProofGroth16\<close> and \<^verbatim>\<open>groth16.Verify\<close> belong to gnark: the
  parameters \<open>GenProof\<close> (assignment to proof and public witness) and \<open>Verify\<close>
  (\<open>True\<close> when it returns no error).  \<open>maxCheck\<close> is \<^verbatim>\<open>MaxNumOfCheckProof\<close>.
\<close>

record ('p, 'w) ClientSubmissionToServer =
  publicWitness :: "'w option"
  publicProd :: fr
  zkproof :: "'p option"

definition MakeSubmission :: "nat \<Rightarrow> (VoteCircuit \<Rightarrow> 'p \<times> 'w) \<Rightarrow> ClientState list \<Rightarrow> VoteCircuit list
    \<Rightarrow> nat \<Rightarrow> ('p, 'w) ClientSubmissionToServer" where
  "MakeSubmission maxCheck GenProof clients allAssignment i =
     (if i < maxCheck
      then \<lparr>publicWitness = Some (snd (GenProof (allAssignment ! i))),
            publicProd = PublicProd (clients ! i),
            zkproof = Some (fst (GenProof (allAssignment ! i)))\<rparr>
      else \<lparr>publicWitness = None, publicProd = PublicProd (clients ! i), zkproof = None\<rparr>)"

definition MakeSubmissions :: "nat \<Rightarrow> (VoteCircuit \<Rightarrow> 'p \<times> 'w) \<Rightarrow> ClientState list \<Rightarrow> VoteCircuit list
    \<Rightarrow> ('p, 'w) ClientSubmissionToServer list option" where
  "MakeSubmissions maxCheck GenProof clients allAssignment =
     (if length allAssignment < min maxCheck (length clients) then None
      else Some (map (MakeSubmission maxCheck GenProof clients allAssignment) [0 ..< length clients]))"

text \<open>
  The verification loop: the indices whose proof is verified, each with the verdict, in
  order; dereferencing a \<^verbatim>\<open>nil\<close> proof or witness panics.
\<close>

definition verify_step :: "nat \<Rightarrow> ('p \<Rightarrow> 'w \<Rightarrow> bool) \<Rightarrow> ('p, 'w) ClientSubmissionToServer list \<Rightarrow> nat
    \<Rightarrow> (nat \<times> bool) list option \<Rightarrow> (nat \<times> bool) list option" where
  "verify_step maxCheck Verify allSubmission i st =
     (case st of
        None \<Rightarrow> None
      | Some verified \<Rightarrow>
          if i < maxCheck then
            (case (zkproof (allSubmission ! i), publicWitness (allSubmission ! i)) of
               (Some p, Some w) \<Rightarrow> Some (verified @ [(i, Verify p w)])
             | _ \<Rightarrow> None)
          else Some verified)"

definition VerifyAll :: "nat \<Rightarrow> ('p \<Rightarrow> 'w \<Rightarrow> bool) \<Rightarrow> ('p, 'w) ClientSubmissionToServer list
    \<Rightarrow> (nat \<times> bool) list option" where
  "VerifyAll maxCheck Verify allSubmission =
     fold (verify_step maxCheck Verify allSubmission) [0 ..< length allSubmission] (Some [])"

text \<open>\<^verbatim>\<open>prodFromClient\<close>: the product of \<^verbatim>\<open>allSubmission[i].publicProd\<close> over all clients.\<close>

definition VoteProdFromClient :: "ClientState list \<Rightarrow> ('p, 'w) ClientSubmissionToServer list \<Rightarrow> fr" where
  "VoteProdFromClient clients allSubmission =
     fold (\<lambda>i acc. acc * publicProd (allSubmission ! i)) [0 ..< length clients] 1"

subsection \<open>The server: consistency check, tally and sole winner\<close>

text \<open>
  The server packs the shuffled pairs as the clients do, evaluates the fingerprint and
  multiplies it by every shuffled dummy; the result is compared with the product of the
  clients' public products.  The packing loop runs over the indices of
  \<^verbatim>\<open>shuffledPairFirst\<close> and reads \<^verbatim>\<open>shuffledPairSecond[i]\<close> at each: it panics when
  \<^verbatim>\<open>shuffledPairSecond\<close> is the shorter slice, and ignores what a longer one has beyond.
\<close>

definition VoteServerCheck :: "nat \<Rightarrow> 'a::comm_ring_1 list \<Rightarrow> 'a list \<Rightarrow> 'a list \<Rightarrow> 'a \<Rightarrow> 'a \<Rightarrow> bool option" where
  "VoteServerCheck C shuffledPairFirst shuffledPairSecond allDummies publicR prodFromClient =
     (if length shuffledPairSecond < length shuffledPairFirst then None
      else
        (case ProdFromShuffler (ProcessPairs C shuffledPairFirst shuffledPairSecond) allDummies publicR of
           None \<Rightarrow> None
         | Some prodFromShuffler \<Rightarrow> Some (prodFromShuffler = prodFromClient)))"

text \<open>
  Steps 3 and 4 of \<^verbatim>\<open>VoteGroth16\<close> together: every client builds its assignment at the
  challenge (which sets its \<^verbatim>\<open>PublicProd\<close>), the submissions are made, and the server
  compares the product over the shuffled pairs and dummies with \<^verbatim>\<open>prodFromClient\<close>.
\<close>

definition VoteGroth16_check :: "nat \<Rightarrow> nat \<Rightarrow> (VoteCircuit \<Rightarrow> 'p \<times> 'w) \<Rightarrow> ClientState list
    \<Rightarrow> fr list \<Rightarrow> fr list \<Rightarrow> fr list \<Rightarrow> fr \<Rightarrow> bool option" where
  "VoteGroth16_check C maxCheck GenProof clients shuffledPairFirst shuffledPairSecond allDummies publicR =
     (case those (map (GenAssignment publicR) clients) of
        None \<Rightarrow> None
      | Some assigned \<Rightarrow>
          (case MakeSubmissions maxCheck GenProof (map fst assigned) (map snd assigned) of
             None \<Rightarrow> None
           | Some allSubmission \<Rightarrow>
               VoteServerCheck C shuffledPairFirst shuffledPairSecond allDummies publicR
                 (VoteProdFromClient (map fst assigned) allSubmission)))"








section \<open>Facts about field elements\<close>

lemma fr_val_range: "0 \<le> fr_val x \<and> fr_val x < fr_modulus"
  by transfer simp

lemma fr_val_inject: "fr_val x = fr_val y \<longleftrightarrow> x = y"
  by transfer simp

lemma fr_val_zero [simp]: "fr_val 0 = 0"
  by transfer simp

lemma fr_val_one [simp]: "fr_val 1 = 1"
  by transfer simp

lemma fr_val_of_nat: "fr_val (of_nat n) = int n mod fr_modulus"
proof (induction n)
  case 0
  show ?case by simp
next
  case (Suc n)
  have "fr_val (of_nat (Suc n)) = (1 + fr_val (of_nat n)) mod fr_modulus"
    by (simp add: fr_val.rep_eq plus_fr.rep_eq one_fr.rep_eq)
  then show ?case by (simp add: Suc mod_simps)
qed

lemma fr_val_numeral: "fr_val (numeral n) = numeral n mod fr_modulus"
  using fr_val_of_nat[of "numeral n"] by simp

lemma fr_val_NewElement: "fr_val (NewElement v) = uint v"
proof -
  have "uint v < 2 ^ 64" using uint_bounded[of v] by simp
  also have "(2::int) ^ 64 < fr_modulus" by (simp add: fr_modulus_def)
  finally have "uint v < fr_modulus" .
  then have "int (unat v) mod fr_modulus = uint v" by simp
  then show ?thesis unfolding NewElement_def fr_val_of_nat .
qed

lemma Uint64_NewElement: "Uint64 (NewElement v) = v"
  by (simp add: Uint64_def fr_val_NewElement)


lemma fr_numeral_eq_iff:
  "(numeral m :: fr) = numeral n \<longleftrightarrow> (numeral m :: int) mod fr_modulus = numeral n mod fr_modulus"
  by (simp flip: fr_val_inject add: fr_val_numeral)

section \<open>The modulus is prime\<close>

subsection \<open>Primes, orders and Pocklington's criterion\<close>

text \<open>
  \<open>is_prime\<close> is primality; a prime that divides a product divides a factor; every
  number above 1 has a prime divisor; Fermat's little theorem; the least exponent
  \<open>d > 0\<close> with \<open>a ^ d mod p = 1\<close> divides every such exponent; what \<open>pow_chain\<close>
  returns is a power of \<open>g\<close> modulo \<open>N\<close>.
\<close>

lemma is_prime_iff: "is_prime p \<longleftrightarrow> 1 < p \<and> (\<forall>m. m dvd p \<longrightarrow> m = 1 \<or> m = p)"
proof
  assume p: "is_prime p"
  then have p1: "1 < p" by (simp add: is_prime_def)
  have "m = 1 \<or> m = p" if "m dvd p" for m
  proof (rule ccontr)
    assume n: "\<not> (m = 1 \<or> m = p)"
    from that p1 have "m \<le> p" by (simp add: dvd_imp_le)
    moreover from that p1 have "m \<noteq> 0" by (intro notI) simp
    ultimately have "m \<in> {2 ..< p}" using n by auto
    with p that show False by (auto simp: is_prime_def)
  qed
  with p1 show "1 < p \<and> (\<forall>m. m dvd p \<longrightarrow> m = 1 \<or> m = p)" by blast
next
  assume "1 < p \<and> (\<forall>m. m dvd p \<longrightarrow> m = 1 \<or> m = p)"
  then show "is_prime p" by (auto simp: is_prime_def)
qed

lemma is_prime_gt_1: "is_prime p \<Longrightarrow> 1 < p"
  by (simp add: is_prime_def)

lemma is_prime_coprime: "is_prime p \<Longrightarrow> \<not> p dvd a \<Longrightarrow> coprime p a"
proof -
  assume p: "is_prime p" and n: "\<not> p dvd a"
  have "gcd p a dvd p" by simp
  with p have "gcd p a = 1 \<or> gcd p a = p" by (simp add: is_prime_iff)
  moreover have "gcd p a \<noteq> p" using n by (metis gcd_dvd2)
  ultimately show ?thesis by (simp add: coprime_iff_gcd_eq_1)
qed

lemma is_prime_dvd_mult: "is_prime p \<Longrightarrow> p dvd a * b \<Longrightarrow> p dvd a \<or> p dvd b"
  using is_prime_coprime coprime_dvd_mult_right_iff by blast

lemma prime_factor: "1 < n \<Longrightarrow> \<exists>p. is_prime p \<and> p dvd n"
proof (induction n rule: less_induct)
  case (less n)
  show ?case
  proof (cases "is_prime n")
    case True
    then show ?thesis by auto
  next
    case False
    with less.prems obtain m where m: "m dvd n" "m \<noteq> 1" "m \<noteq> n"
      by (auto simp: is_prime_iff)
    with less.prems have "m \<le> n" "m \<noteq> 0" by (auto simp: dvd_imp_le)
    with m have "m < n" "1 < m" by auto
    with less.IH obtain p where "is_prime p" "p dvd m" by blast
    with m show ?thesis using dvd_trans by blast
  qed
qed

lemma is_prime_dvd_choose:
  assumes "is_prime p" "0 < k" "k < p"
  shows "p dvd (p choose k)"
proof -
  have "k * (p choose k) = p * ((p - 1) choose (k - 1))"
    using assms by (simp add: times_binomial_minus1_eq)
  then have "p dvd k * (p choose k)" by simp
  moreover have "\<not> p dvd k" using assms by (simp add: nat_dvd_not_less)
  ultimately show ?thesis using assms(1) is_prime_dvd_mult by blast
qed

lemma fermat_step:
  assumes "is_prime p"
  shows "(a + 1) ^ p mod p = (a ^ p + 1) mod p"
proof -
  have p0: "0 < p" using assms by (simp add: is_prime_def)
  have "(a + 1) ^ p = (\<Sum>k\<le>p. (p choose k) * a ^ k)"
    using binomial[of a 1 p] by simp
  also have "{..p} = insert 0 (insert p {1 ..< p})" using p0 by auto
  also have "(\<Sum>k\<in>insert 0 (insert p {1 ..< p}). (p choose k) * a ^ k)
      = 1 + (a ^ p + (\<Sum>k\<in>{1 ..< p}. (p choose k) * a ^ k))"
    using p0 by simp
  finally have e: "(a + 1) ^ p = (a ^ p + 1) + (\<Sum>k\<in>{1 ..< p}. (p choose k) * a ^ k)"
    by simp
  have "p dvd (\<Sum>k\<in>{1 ..< p}. (p choose k) * a ^ k)"
    by (rule dvd_sum) (simp add: is_prime_dvd_choose[OF assms])
  then show ?thesis unfolding e by (metis dvd_def mod_mult_self2)
qed

lemma fermat_little: "is_prime p \<Longrightarrow> a ^ p mod p = a mod p"
proof (induction a)
  case 0
  then show ?case by (simp add: is_prime_def power_0_left)
next
  case (Suc a)
  have "Suc a ^ p mod p = (a ^ p + 1) mod p"
    using fermat_step[OF Suc.prems, of a] by simp
  also have "\<dots> = (a ^ p mod p + 1) mod p" by (simp add: mod_simps)
  also have "\<dots> = (a mod p + 1) mod p" using Suc by simp
  also have "\<dots> = Suc a mod p" by (simp add: mod_simps)
  finally show ?case .
qed

lemma fermat:
  assumes "is_prime p" "\<not> p dvd a"
  shows "a ^ (p - 1) mod p = 1"
proof -
  have p1: "1 < p" using assms by (simp add: is_prime_def)
  have a0: "0 < a" using assms by (cases a) auto
  then have le: "1 \<le> a ^ (p - 1)" by simp
  have "a ^ p mod p = a mod p" using assms(1) by (rule fermat_little)
  moreover have "a ^ p = a * a ^ (p - 1)" using p1 by (cases p) auto
  ultimately have "(a * a ^ (p - 1)) mod p = (a * 1) mod p" by simp
  moreover have "a * 1 \<le> a * a ^ (p - 1)" using le by simp
  ultimately have "p dvd a * a ^ (p - 1) - a * 1" by (simp add: mod_eq_dvd_iff_nat)
  then have "p dvd a * (a ^ (p - 1) - 1)" by (simp add: diff_mult_distrib2)
  with assms have "p dvd a ^ (p - 1) - 1" using is_prime_dvd_mult by blast
  then have "a ^ (p - 1) mod p = 1 mod p" using mod_eq_dvd_iff_nat[OF le, of p] by blast
  then show ?thesis using p1 by simp
qed

lemma order_dvd:
  assumes "0 < n" "a ^ n mod p = (1::nat)"
  shows "\<exists>d. 0 < d \<and> a ^ d mod p = 1 \<and> (\<forall>e. a ^ e mod p = 1 \<longrightarrow> d dvd e)"
proof -
  define d where "d = (LEAST d. 0 < d \<and> a ^ d mod p = 1)"
  have d: "0 < d \<and> a ^ d mod p = 1"
    unfolding d_def using assms by (intro LeastI[of "\<lambda>d. 0 < d \<and> a ^ d mod p = 1" n]) simp
  have "d dvd e" if e: "a ^ e mod p = 1" for e
  proof -
    have "a ^ e = (a ^ d) ^ (e div d) * a ^ (e mod d)"
      by (simp add: power_mult[symmetric] power_add[symmetric])
    then have "a ^ e mod p = ((a ^ d mod p) ^ (e div d) mod p * (a ^ (e mod d) mod p)) mod p"
      by (simp add: mod_simps power_mod)
    also have "\<dots> = a ^ (e mod d) mod p" using d by (simp add: mod_simps)
    finally have r: "a ^ (e mod d) mod p = 1" using e by simp
    have "e mod d = 0"
    proof (rule ccontr)
      assume "e mod d \<noteq> 0"
      then have "0 < e mod d \<and> a ^ (e mod d) mod p = 1" using r by simp
      then have "d \<le> e mod d" unfolding d_def by (rule Least_le)
      moreover have "e mod d < d" using d by simp
      ultimately show False by simp
    qed
    then show ?thesis by auto
  qed
  with d show ?thesis by blast
qed

lemma prime_power_divisor:
  assumes "is_prime q" "0 < e" "d dvd q ^ e" "\<not> d dvd q ^ (e - 1)"
  shows "d = q ^ e"
proof -
  from assms(3) obtain c where c: "q ^ e = d * c" by (auto simp: dvd_def)
  have qe: "q ^ e = q * q ^ (e - 1)" using assms(2) by (cases e) auto
  have q0: "0 < q" using assms(1) by (simp add: is_prime_def)
  have "\<not> q dvd c"
  proof
    assume "q dvd c"
    then obtain c' where "c = q * c'" by (auto simp: dvd_def)
    then have "q * q ^ (e - 1) = q * (d * c')" by (metis c qe mult.left_commute)
    then have "q ^ (e - 1) = d * c'" using q0 by simp
    with assms(4) show False by simp
  qed
  then have "coprime q c" using assms(1) by (rule is_prime_coprime[rotated])
  then have "coprime (q ^ e) c" by simp
  moreover have "c dvd q ^ e" using c by simp
  ultimately have "c = 1" by (metis coprime_absorb_right is_unit_gcd nat_dvd_1_iff_1 coprime_iff_gcd_eq_1 gcd_nat.absorb_iff2 gcd.commute)
  with c show ?thesis by simp
qed

lemma pow_chain_sound:
  "pow_chain N g (e, x) cs = Some (e', x') \<Longrightarrow> g ^ e mod N = x mod N \<Longrightarrow> g ^ e' mod N = x' mod N"
proof (induction cs arbitrary: e x)
  case Nil
  then show ?case by simp
next
  case (Cons c cs)
  show ?case
  proof (cases c)
    case (Sq k y)
    with Cons.prems have a: "x * x = k * N + y" and r: "pow_chain N g (2 * e, y) cs = Some (e', x')"
      by (simp_all split: if_splits)
    have "g ^ (2 * e) mod N = (g ^ e mod N) * (g ^ e mod N) mod N"
      by (simp add: mult_2 power_add mod_simps)
    also have "\<dots> = (x * x) mod N" using Cons.prems(2) by (simp add: mod_simps)
    also have "\<dots> = y mod N" using a by simp
    finally show ?thesis using Cons.IH[OF r] by simp
  next
    case (SqMul k y k' y')
    with Cons.prems have a: "x * x = k * N + y" and b: "y * g = k' * N + y'"
      and r: "pow_chain N g (2 * e + 1, y') cs = Some (e', x')"
      by (simp_all split: if_splits)
    have e2: "g ^ (2 * e + 1) = g ^ e * g ^ e * g" by (simp add: mult_2 power_add)
    have "g ^ (2 * e + 1) mod N = ((g ^ e mod N) * (g ^ e mod N) mod N) * g mod N"
      unfolding e2 by (simp add: mod_simps)
    also have "(g ^ e mod N) * (g ^ e mod N) mod N = (x * x) mod N"
      using Cons.prems(2) by (simp add: mod_simps)
    also have "\<dots> = y mod N" using a by simp
    also have "(y mod N) * g mod N = (y * g) mod N" by (simp add: mod_simps)
    also have "\<dots> = y' mod N" using b by simp
    finally show ?thesis using Cons.IH[OF r] by simp
  qed
qed

lemma bezout_coprime:
  assumes "u * a = v * b + 1"
  shows "coprime a (b::nat)"
proof (rule coprimeI)
  fix c assume "c dvd a" "c dvd b"
  then have "c dvd u * a" "c dvd v * b" by simp_all
  then have "c dvd (u * a - v * b)" using dvd_diff_nat by blast
  moreover have "u * a - v * b = 1" using assms by simp
  ultimately show "is_unit c" by simp
qed

lemma pocklington_step:
  assumes q: "is_prime q" and e: "0 < e"
    and one: "g ^ (q ^ e) mod N = 1"
    and y: "g ^ (q ^ (e - 1)) mod N = y mod N"
    and co: "coprime (y - 1) N"
    and p: "is_prime p" and pN: "p dvd N"
  shows "q ^ e dvd p - 1"
proof -
  have p1: "1 < p" using p by (simp add: is_prime_def)
  have mp: "(z mod N) mod p = z mod p" for z using pN by (simp add: mod_mod_cancel)
  have one': "g ^ (q ^ e) mod p = 1" using mp[of "g ^ (q ^ e)"] one p1 by simp
  have y': "g ^ (q ^ (e - 1)) mod p = y mod p" using mp[of "g ^ (q ^ (e - 1))"] y mp[of y] by simp
  have ny: "y mod p \<noteq> 1"
  proof
    assume "y mod p = 1"
    then have "y mod p = 1 mod p" using p1 by simp
    moreover have "1 \<le> y" using \<open>y mod p = 1\<close> by (cases y) auto
    ultimately have "p dvd y - 1" using mod_eq_dvd_iff_nat[of 1 y p] by blast
    with pN co have "is_unit p" by (auto simp: coprime_def)
    with p1 show False by simp
  qed
  have ng: "\<not> p dvd g"
  proof
    assume "p dvd g"
    moreover have "0 < q ^ e" using q by (simp add: is_prime_def)
    ultimately have "p dvd g ^ (q ^ e)" using dvd_power[of "q ^ e" g] dvd_trans by blast
    with one' show False by (simp add: dvd_eq_mod_eq_0)
  qed
  have f: "g ^ (p - 1) mod p = 1" using p ng by (rule fermat)
  have "0 < q ^ e" using q by (simp add: is_prime_def)
  from order_dvd[OF this one'] obtain d where d: "0 < d" "g ^ d mod p = 1"
    and dd: "\<forall>e. g ^ e mod p = 1 \<longrightarrow> d dvd e" by blast
  have "\<not> d dvd q ^ (e - 1)"
  proof
    assume "d dvd q ^ (e - 1)"
    then obtain c where "q ^ (e - 1) = d * c" by (auto simp: dvd_def)
    then have "g ^ (q ^ (e - 1)) mod p = (g ^ d mod p) ^ c mod p"
      by (simp add: power_mult power_mod)
    with d y' ny p1 show False by simp
  qed
  moreover have "d dvd q ^ e" using dd one' by blast
  ultimately have "d = q ^ e" using q e prime_power_divisor by blast
  then show ?thesis using dd f by blast
qed

lemma pocklington:
  assumes N: "1 < N" and F: "\<forall>p. is_prime p \<and> p dvd N \<longrightarrow> F dvd p - 1" and b: "N \<le> F * F"
  shows "is_prime N"
proof -
  have big: "F < p" if "is_prime p" "p dvd N" for p
  proof -
    have "F dvd p - 1" using F that by blast
    moreover have "0 < p - 1" using that(1) by (simp add: is_prime_def)
    ultimately have "F \<le> p - 1" by (simp add: dvd_imp_le)
    then show ?thesis using \<open>0 < p - 1\<close> by simp
  qed
  have "m = 1 \<or> m = N" if m: "m dvd N" for m
  proof (rule ccontr)
    assume n: "\<not> (m = 1 \<or> m = N)"
    from m obtain c where c: "N = m * c" by (auto simp: dvd_def)
    with N n have "1 < m" "1 < c" by (cases m; cases c; auto)+
    then obtain p p' where p: "is_prime p" "p dvd m" and p': "is_prime p'" "p' dvd c"
      using prime_factor by blast
    have "p * p' dvd N" unfolding c using p p' by (simp add: mult_dvd_mono)
    then have le: "p * p' \<le> N" using N by (simp add: dvd_imp_le)
    have "p dvd N" "p' dvd N" using p p' c by (auto intro: dvd_trans)
    then have "F < p" "F < p'" using big p p' by blast+
    then have "F * F < p * p'" by (simp add: mult_strict_mono)
    with le b show False by simp
  qed
  with N show ?thesis by (simp add: is_prime_iff)
qed

lemma prime_power_cert:
  assumes q: "is_prime q" and Q': "Q' = q ^ e'" and Q: "Q = q * Q'"
    and y: "g ^ Q' mod N = y mod N" and yz: "y = z + 1"
    and one: "g ^ Q mod N = 1 mod N"
    and bz: "u * z = v * N + 1"
    and N: "1 < N"
  shows "\<forall>p. is_prime p \<and> p dvd N \<longrightarrow> Q dvd p - 1"
proof (intro allI impI)
  fix p assume p: "is_prime p \<and> p dvd N"
  have e: "Q = q ^ (e' + 1)" "Q' = q ^ (e' + 1 - 1)" using Q Q' by simp_all
  have co: "coprime (y - 1) N" using bz yz by (simp add: bezout_coprime)
  have "q ^ (e' + 1) dvd p - 1"
    using q _ _ _ co
  proof (rule pocklington_step)
    show "0 < e' + 1" by simp
    show "g ^ q ^ (e' + 1) mod N = 1" using one N e by simp
    show "g ^ q ^ (e' + 1 - 1) mod N = y mod N" using y e by simp
    show "is_prime p" "p dvd N" using p by simp_all
  qed
  then show "Q dvd p - 1" using e by simp
qed

lemma coprime_cert_dvd:
  assumes "\<forall>p. is_prime p \<and> p dvd N \<longrightarrow> a dvd p - 1"
    and "\<forall>p. is_prime p \<and> p dvd N \<longrightarrow> b dvd p - 1"
    and "u * a = v * b + 1" and "c = a * b"
  shows "\<forall>p. is_prime p \<and> p dvd N \<longrightarrow> c dvd p - (1::nat)"
  using assms bezout_coprime[of u a v b] by (simp add: divides_mult)

lemma is_prime_trial:
  assumes "1 < p" "p < b * b" "\<forall>m\<in>set [2 ..< b]. \<not> m dvd p"
  shows "is_prime p"
  unfolding is_prime_def
proof (intro conjI ballI notI)
  show "1 < p" by fact
next
  fix m assume m: "m \<in> {2 ..< p}" and d: "m dvd p"
  then obtain c where c: "p = m * c" by (auto simp: dvd_def)
  have "1 < c" using m c by (cases c; cases "c - 1") auto
  have "m < b \<or> c < b"
  proof (rule ccontr)
    assume "\<not> (m < b \<or> c < b)"
    then have "b * b \<le> m * c" by (simp add: mult_le_mono)
    with assms(2) c show False by simp
  qed
  then show False
  proof
    assume "m < b"
    with m have "m \<in> set [2 ..< b]" by simp
    with assms(3) d show False by blast
  next
    assume "c < b"
    with \<open>1 < c\<close> have "c \<in> set [2 ..< b]" by simp
    moreover have "c dvd p" using c by simp
    ultimately show False using assms(3) by blast
  qed
qed

subsection \<open>The certificate\<close>

text \<open>
  By Pocklington's criterion, \<open>N\<close> is prime when a number \<open>F\<close> with \<open>N \<le> F * F\<close> is
  a product of powers \<open>q ^ e\<close> of distinct primes and for each of them some \<open>g\<close> has
  \<open>g ^ (q ^ e) mod N = 1\<close> while \<open>g ^ (q ^ (e - 1)) mod N - 1\<close> is coprime to \<open>N\<close>:
  every prime divisor of \<open>N\<close> is then 1 modulo \<open>F\<close>, hence larger than \<open>F\<close>.
  For \<open>fr_modulus\<close>, \<open>F = 2 ^ 28 * 3 * 29 * 13818364434197438864469338081\<close>; the last
  factor is prime by the same criterion with \<open>F = 65865678001877903\<close>, that one with
  \<open>F = 639533339\<close>, and that one with \<open>F = 229 * 853\<close>.  The powers are followed by
  \<open>pow_chain\<close>, a few steps in each lemma; coprimality comes with the
  coefficients of a linear combination equal to 1.
\<close>

lemmas chain_arith = arith_simps rel_simps if_True simp_thms mult_1_right mult_1_left
  numeral_plus_one one_plus_numeral one_add_one

lemma is_prime_2: "is_prime 2"
  by (rule is_prime_trial[of _ 2]) (simp_all add: upt_rec)

lemma is_prime_3: "is_prime 3"
  by (rule is_prime_trial[of _ 2]) (simp_all add: upt_rec)

lemma is_prime_29: "is_prime 29"
  by (rule is_prime_trial[of _ 6]) (simp_all add: upt_rec)

lemma is_prime_229: "is_prime 229"
  by (rule is_prime_trial[of _ 16]) (simp_all add: upt_rec)

lemma is_prime_853: "is_prime 853"
  by (rule is_prime_trial[of _ 30]) (simp_all add: upt_rec)

lemma chain_639533339_229_0:
  "pow_chain 639533339
     271298491
     (1, 271298491)
     [SqMul 115088403 568109464 240999539 431888103,
      SqMul 291661625 618522734 262385514 509743148,
      Sq 406293247 65888171,
      Sq 6788154 284459035,
      SqMul 126524979 306356344 129960408 169434592,
      Sq 44889107 481768191]
   = Some (114, 481768191)"
  by (simp only: pow_chain.simps chain_arith)

lemma chain_639533339_229_1:
  "pow_chain 639533339
     271298491
     (114, 481768191)
     [SqMul 362921798 588588959 249687212 1]
   = Some (229, 1)"
  by (simp only: pow_chain.simps chain_arith)

lemma order_639533339_229: "\<forall>p. is_prime p \<and> p dvd 639533339 \<longrightarrow> 229 dvd p - 1"
proof -
  have s0: "(271298491::nat) ^ 1 mod 639533339 = 271298491 mod 639533339"
    by (simp only: power_one_right)
  note s1 = pow_chain_sound[OF chain_639533339_229_0 s0]
  note s2 = pow_chain_sound[OF chain_639533339_229_1 s1]
  have q: "(1::nat) = 229 ^ 0" "(229::nat) = 229 * 1" "(271298491::nat) = 271298490 + 1"
    "(178689417::nat) * 271298490 = 75802411 * 639533339 + 1" "(1::nat) < 639533339"
    by (simp_all only: chain_arith power_0 power_numeral Num.pow.simps Num.sqr.simps)
  show ?thesis
    by (rule prime_power_cert[OF is_prime_229 q(1) q(2) s0 q(3) s2 q(4) q(5)])
qed

lemma chain_639533339_853_0:
  "pow_chain 639533339
     256057581
     (1, 256057581)
     [SqMul 102520823 537353564 215146647 209004351,
      Sq 68304208 526940689,
      SqMul 434170468 628562069 251664882 601994091,
      Sq 566658317 55785818,
      SqMul 4866138 6754342 2704316 232575578,
      Sq 84579483 308150347]
   = Some (106, 308150347)"
  by (simp only: pow_chain.simps chain_arith)

lemma chain_639533339_853_1:
  "pow_chain 639533339
     256057581
     (106, 308150347)
     [SqMul 148478008 131911697 52815057 286739634,
      Sq 128561894 368469890,
      SqMul 212295515 273937515 109679626 1]
   = Some (853, 1)"
  by (simp only: pow_chain.simps chain_arith)

lemma order_639533339_853: "\<forall>p. is_prime p \<and> p dvd 639533339 \<longrightarrow> 853 dvd p - 1"
proof -
  have s0: "(256057581::nat) ^ 1 mod 639533339 = 256057581 mod 639533339"
    by (simp only: power_one_right)
  note s1 = pow_chain_sound[OF chain_639533339_853_0 s0]
  note s2 = pow_chain_sound[OF chain_639533339_853_1 s1]
  have q: "(1::nat) = 853 ^ 0" "(853::nat) = 853 * 1" "(256057581::nat) = 256057580 + 1"
    "(303978671::nat) * 256057580 = 121707561 * 639533339 + 1" "(1::nat) < 639533339"
    by (simp_all only: chain_arith power_0 power_numeral Num.pow.simps Num.sqr.simps)
  show ?thesis
    by (rule prime_power_cert[OF is_prime_853 q(1) q(2) s0 q(3) s2 q(4) q(5)])
qed

lemma order_639533339_prod1: "\<forall>p. is_prime p \<and> p dvd 639533339 \<longrightarrow> 195337 dvd p - 1"
proof -
  have a: "(149::nat) * 229 = 40 * 853 + 1" "(195337::nat) = 229 * 853"
    by (simp_all only: chain_arith)
  show ?thesis by (rule coprime_cert_dvd[OF order_639533339_229 order_639533339_853 a])
qed

lemma is_prime_639533339: "is_prime 639533339"
proof -
  have a: "(1::nat) < 639533339" "(639533339::nat) \<le> 195337 * 195337"
    by (simp_all only: chain_arith)
  show ?thesis by (rule pocklington[OF a(1) order_639533339_prod1 a(2)])
qed

lemma chain_65865678001877903_639533339_0:
  "pow_chain 65865678001877903
     8595199928015311
     (1, 8595199928015311)
     [Sq 1121638219535948 19226070235069677,
      Sq 5612054531243013 56968334197042590,
      SqMul 49272871693409161 3268076130238717 426470486169982 18611656393288241,
      SqMul 5259093418759782 27479267257976935 3585931294155095 43734149829486000,
      Sq 29039037011862199 48447415136911303,
      Sq 35635434184421551 64820389105270256,
      Sq 63791688952762989 51329992322973469]
   = Some (152, 51329992322973469)"
  by (simp only: pow_chain.simps chain_arith)

lemma chain_65865678001877903_639533339_1:
  "pow_chain 65865678001877903
     8595199928015311
     (152, 51329992322973469)
     [Sq 40002140595916967 61286237417813760,
      SqMul 57025191431651969 32725522517796593 4270546016108860 58465146411114843,
      SqMul 51896123270387331 42036321954867756 5485567026732897 25160803760737125,
      SqMul 9611470876657096 40998948362715937 5350194041969359 43282835694537230,
      SqMul 28442793311971879 3118169928583163 406908343749735 17564606142202988]
   = Some (4879, 17564606142202988)"
  by (simp only: pow_chain.simps chain_arith)

lemma chain_65865678001877903_639533339_2:
  "pow_chain 65865678001877903
     8595199928015311
     (4879, 17564606142202988)
     [Sq 4684008398454788 55317398354378580,
      SqMul 46458408286782710 13529503851359270 1765544575825524 1018752242786798,
      Sq 15757161600212 12272844760177368,
      Sq 2286816488902135 60491326033384519,
      Sq 55555497738486739 51365274646233044,
      Sq 40057151456145759 35194706668242559,
      Sq 18805961086870182 41777112883480135,
      Sq 26498279738793255 38459179869673960]
   = Some (1249088, 38459179869673960)"
  by (simp only: pow_chain.simps chain_arith)

lemma chain_65865678001877903_639533339_3:
  "pow_chain 65865678001877903
     8595199928015311
     (1249088, 38459179869673960)
     [SqMul 22456438028403256 28700056142429432 3745239219771056 34048583907657784,
      Sq 17601064792557961 64143099883154873,
      Sq 62465572167997396 7159896889705541,
      Sq 778313152257439 33061215984632264,
      SqMul 16595046700215247 44006274996778655 5742637791927834 45545585862734603,
      SqMul 31494405804500891 54603917576856036 7125586537081813 60626625102889057]
   = Some (79941667, 60626625102889057)"
  by (simp only: pow_chain.simps chain_arith)

lemma chain_65865678001877903_639533339_4:
  "pow_chain 65865678001877903
     8595199928015311
     (79941667, 60626625102889057)
     [Sq 55804294176725281 57018535114983506,
      SqMul 49359749193896012 22822025749429200 2978180442825847 51349957123922359,
      SqMul 40033264313372528 16886017849676097 2203555839839122 1]
   = Some (639533339, 1)"
  by (simp only: pow_chain.simps chain_arith)

lemma order_65865678001877903_639533339: "\<forall>p. is_prime p \<and> p dvd 65865678001877903 \<longrightarrow> 639533339 dvd p - 1"
proof -
  have s0: "(8595199928015311::nat) ^ 1 mod 65865678001877903 = 8595199928015311 mod 65865678001877903"
    by (simp only: power_one_right)
  note s1 = pow_chain_sound[OF chain_65865678001877903_639533339_0 s0]
  note s2 = pow_chain_sound[OF chain_65865678001877903_639533339_1 s1]
  note s3 = pow_chain_sound[OF chain_65865678001877903_639533339_2 s2]
  note s4 = pow_chain_sound[OF chain_65865678001877903_639533339_3 s3]
  note s5 = pow_chain_sound[OF chain_65865678001877903_639533339_4 s4]
  have q: "(1::nat) = 639533339 ^ 0" "(639533339::nat) = 639533339 * 1" "(8595199928015311::nat) = 8595199928015310 + 1"
    "(39033286818209505::nat) * 8595199928015310 = 5093683299525283 * 65865678001877903 + 1" "(1::nat) < 65865678001877903"
    by (simp_all only: chain_arith power_0 power_numeral Num.pow.simps Num.sqr.simps)
  show ?thesis
    by (rule prime_power_cert[OF is_prime_639533339 q(1) q(2) s0 q(3) s5 q(4) q(5)])
qed

lemma is_prime_65865678001877903: "is_prime 65865678001877903"
proof -
  have a: "(1::nat) < 65865678001877903" "(65865678001877903::nat) \<le> 639533339 * 639533339"
    by (simp_all only: chain_arith)
  show ?thesis by (rule pocklington[OF a(1) order_65865678001877903_639533339 a(2)])
qed

lemma chain_13818364434197438864469338081_65865678001877903_0:
  "pow_chain 13818364434197438864469338081
     7935281130018080704632618576
     (1, 7935281130018080704632618576)
     [SqMul 4556884203790953644048480649 8737664600113107555932973207 5017657867678860257462704564 6024626098376368604520791548,
      SqMul 2626658154666458512022102589 10858316662900553865761844595 6235455413640637301026581811 12956526157738010221657952029,
      Sq 12148439916717187945993007246 13033178315209579486208481915,
      SqMul 12292607985911379118920501901 5621062163834556471109875244 3227929667924232023739200777 9317283377009505927246043607,
      Sq 6282347664290678482172820614 3487141057479528001213568715,
      SqMul 879999424871565427703033557 3827346866853743770505767108 2197877579159553238824627821 8970463893610592358603246707]
   = Some (117, 8970463893610592358603246707)"
  by (simp only: pow_chain.simps chain_arith)

lemma chain_13818364434197438864469338081_65865678001877903_1:
  "pow_chain 13818364434197438864469338081
     7935281130018080704632618576
     (117, 8970463893610592358603246707)
     [Sq 5823353613936214452629922993 13047074007182443388793947416,
      Sq 12318834183271586178204503029 1735893499133178782183529707,
      Sq 218066780238875881708645688 2277860932176299701036661121,
      Sq 375489476416926927519801274 10456841577218911324352461447,
      Sq 7913059196821277262825356721 11582084072275290222046741408,
      Sq 9707709772458610131767890683 4440869139873206848644823141,
      Sq 1427181835548658164227207531 8368951715619670804580817870,
      Sq 5068570390649222222447822820 9262168650417991593144528480,
      Sq 6208243277799203197439006991 10413093752592839881829586129]
   = Some (59904, 10413093752592839881829586129)"
  by (simp only: pow_chain.simps chain_arith)

lemma chain_13818364434197438864469338081_65865678001877903_2:
  "pow_chain 13818364434197438864469338081
     7935281130018080704632618576
     (59904, 10413093752592839881829586129)
     [Sq 7846986668837679889618568807 11541844625233648289585365274,
      SqMul 9640372273245219505906826722 7370261739600282849502094594 4232418328815130299746654555 4089172793395676412059969189,
      SqMul 1210080557208763680525159596 5171473324818621618623942445 2969750500085756279170655275 123795530186511610780831045,
      SqMul 1109055515733298309438705 860834511362378394843966920 494339535377795531552937444 3995911146589813549241500956,
      SqMul 1155513444986667017935628325 12938755124550705220164169611 7430160050756767463919612841 7213163208392189156475395815]
   = Some (1916943, 7213163208392189156475395815)"
  by (simp only: pow_chain.simps chain_arith)

lemma chain_13818364434197438864469338081_65865678001877903_3:
  "pow_chain 13818364434197438864469338081
     7935281130018080704632618576
     (1916943, 7213163208392189156475395815)
     [SqMul 3765259175111960399778577035 9014099797620607050401944390 5176402487340607091201894021 3274665168306567780251474939,
      Sq 776027583842131564554195909 7783209883449169180516943092,
      Sq 4383902044145152776301274455 12137052172119357729802499609,
      Sq 10660309049614580476033707195 753190004820108438227960086,
      Sq 41053714139785103145534241 9480013504884722808418395875,
      SqMul 6503711526842239666776851284 10028815540989260895362069621 5759109270696129881246703817 10310184326597100927003724519,
      SqMul 7692654319156573966798222008 7990899437904117954595094713 4588823360639311893639651885 3138503201478530464709256003]
   = Some (245368771, 3138503201478530464709256003)"
  by (simp only: pow_chain.simps chain_arith)

lemma chain_13818364434197438864469338081_65865678001877903_4:
  "pow_chain 13818364434197438864469338081
     7935281130018080704632618576
     (245368771, 3138503201478530464709256003)
     [Sq 712834170252007700279149200 12483562629543047011950850809,
      SqMul 11277697636925491626123609344 12006506795127311564669325617 6894810689246460346796757791 2281409498763660828057122321,
      Sq 376660300561203939319250238 8432267785655359550494713763,
      Sq 5145553972584220841260386703 9286782187083334098797683226,
      Sq 6241283026006494625360125555 7349931621413274043139007121,
      Sq 3909398619257669835214187983 11241010701785258861774228018,
      SqMul 9144376109008709814932628929 7175543025635722158034263075 4120599904576697068930787866 10495543114326162342869356054]
   = Some (31407202721, 10495543114326162342869356054)"
  by (simp only: pow_chain.simps chain_arith)

lemma chain_13818364434197438864469338081_65865678001877903_5:
  "pow_chain 13818364434197438864469338081
     7935281130018080704632618576
     (31407202721, 10495543114326162342869356054)
     [SqMul 7971741213603122672321489891 7872015098463333180123611745 4520553294387153840190844953 1878424754868214010089219927,
      Sq 255347119878347713289285475 7214738950431482892676211854,
      Sq 3766904424235236668690114342 8378849114816027470545259614,
      Sq 5080565997746519261641650059 12903809095485579282294832217,
      SqMul 12049782734103079186712343744 6551789205294103496359819825 3762405420424563936962765370 10620567016425678254099014230,
      Sq 8162792658097975055380754810 2552326705477704630885573290,
      Sq 471428557447292700283853517 93879213923488799007543223]
   = Some (4020121948356, 93879213923488799007543223)"
  by (simp only: pow_chain.simps chain_arith)

lemma chain_13818364434197438864469338081_65865678001877903_6:
  "pow_chain 13818364434197438864469338081
     7935281130018080704632618576
     (4020121948356, 93879213923488799007543223)
     [SqMul 637796668980676221542498 9571304684961031895341961391 5496380835655396344463637913 5861745727356882287855134263,
      SqMul 2486550643226126051195222874 7033083702272804773706088375 4038791758188599709026623487 5715998367833451257024545553,
      Sq 2364435928482029727391501744 9315829236175563345934962545,
      Sq 6280386855539157330383867780 6932638189365131593329946845,
      SqMul 3478086896138170026909664475 11671882327502556405475081550 6702650521794682898868994983 3083762274448825405925025177,
      SqMul 688184901375131755302615449 11426914785624813902969267960 6561976397748665609295550381 3124199797785987746960266099]
   = Some (257287804694835, 3124199797785987746960266099)"
  by (simp only: pow_chain.simps chain_arith)

lemma chain_13818364434197438864469338081_65865678001877903_7:
  "pow_chain 13818364434197438864469338081
     7935281130018080704632618576
     (257287804694835, 3124199797785987746960266099)
     [SqMul 706351639730284556117162526 6960506881159780353770725195 3997114070369800377347964494 3057894684126085342478126306,
      Sq 676687891952362932159807334 3859583265371772333019919582,
      Sq 1078013469197015318761326081 6246147404744190337875264163,
      Sq 2823370130928126115010642214 7624688656232388209735739235,
      SqMul 4207146032464250442699538742 11741887193342201391162951123 6742851248411215048459293869 5751857602344423908298335459,
      SqMul 2394195495074076269275954810 4650776760185159860128621071 2670737281591122951914177504 9228697715789270620358885072]
   = Some (16466419500469475, 9228697715789270620358885072)"
  by (simp only: pow_chain.simps chain_arith)

lemma chain_13818364434197438864469338081_65865678001877903_8:
  "pow_chain 13818364434197438864469338081
     7935281130018080704632618576
     (16466419500469475, 9228697715789270620358885072)
     [SqMul 6163454577781994231476112614 9529286644102868787309791450 5472251716154324542910593800 7213377970993644489293477400,
      SqMul 3765483389889942359474483577 11146709082772323365815564263 6401066542102789263873037327 1]
   = Some (65865678001877903, 1)"
  by (simp only: pow_chain.simps chain_arith)

lemma order_13818364434197438864469338081_65865678001877903: "\<forall>p. is_prime p \<and> p dvd 13818364434197438864469338081 \<longrightarrow> 65865678001877903 dvd p - 1"
proof -
  have s0: "(7935281130018080704632618576::nat) ^ 1 mod 13818364434197438864469338081 = 7935281130018080704632618576 mod 13818364434197438864469338081"
    by (simp only: power_one_right)
  note s1 = pow_chain_sound[OF chain_13818364434197438864469338081_65865678001877903_0 s0]
  note s2 = pow_chain_sound[OF chain_13818364434197438864469338081_65865678001877903_1 s1]
  note s3 = pow_chain_sound[OF chain_13818364434197438864469338081_65865678001877903_2 s2]
  note s4 = pow_chain_sound[OF chain_13818364434197438864469338081_65865678001877903_3 s3]
  note s5 = pow_chain_sound[OF chain_13818364434197438864469338081_65865678001877903_4 s4]
  note s6 = pow_chain_sound[OF chain_13818364434197438864469338081_65865678001877903_5 s5]
  note s7 = pow_chain_sound[OF chain_13818364434197438864469338081_65865678001877903_6 s6]
  note s8 = pow_chain_sound[OF chain_13818364434197438864469338081_65865678001877903_7 s7]
  note s9 = pow_chain_sound[OF chain_13818364434197438864469338081_65865678001877903_8 s8]
  have q: "(1::nat) = 65865678001877903 ^ 0" "(65865678001877903::nat) = 65865678001877903 * 1" "(7935281130018080704632618576::nat) = 7935281130018080704632618575 + 1"
    "(12281824895882260584345986666::nat) * 7935281130018080704632618575 = 7052913809197938965814028629 * 13818364434197438864469338081 + 1" "(1::nat) < 13818364434197438864469338081"
    by (simp_all only: chain_arith power_0 power_numeral Num.pow.simps Num.sqr.simps)
  show ?thesis
    by (rule prime_power_cert[OF is_prime_65865678001877903 q(1) q(2) s0 q(3) s9 q(4) q(5)])
qed

lemma is_prime_13818364434197438864469338081: "is_prime 13818364434197438864469338081"
proof -
  have a: "(1::nat) < 13818364434197438864469338081" "(13818364434197438864469338081::nat) \<le> 65865678001877903 * 65865678001877903"
    by (simp_all only: chain_arith)
  show ?thesis by (rule pocklington[OF a(1) order_13818364434197438864469338081_65865678001877903 a(2)])
qed

lemma chain_fr_modulus_2_0:
  "pow_chain 21888242871839275222246405745257275088548364400416034343698204186575808495617
     19103219067921713944291392827692070036145651957329286315305642004821462161904
     (1, 19103219067921713944291392827692070036145651957329286315305642004821462161904)
     [Sq 16672557084356874012651953139829525463057504866793717780751343799479068144828 2082940218526944230311718225077035922214683169814847712455127909555749686340,
      Sq 198217827687714114126275464786318396108164869989857940457871390719981903870 7419588552507395652481651088034484897579724952953562618697845598160172257810,
      Sq 2515062292155245027069864333963322505919293137084736079961582785656570533418 19200870435978225707111062059747084165650991997241425080699860725083300967194,
      Sq 16843445481571583430227885364460874020001252829742532869269498935021226449481 5709868443893258075976348696661355716898495876243883251619397131511003808859,
      Sq 1489502736124766463390393674700237947022058754416888917930396911647706067644 934650972362265999028062457054462628285482693704334323590406443310927365533,
      Sq 39910578718113555993165701453307131754816696752738973614033766035366198731 12143866164239048021030917283424216263377309185099704096317235600302831912062,
      Sq 6737566202935584050794569747950519725015498739685143347432835735052917569761 13536764371732269273912573961853310557438878140379554347802702086337840854307,
      Sq 8371799907774053986441269690360542829230568067858398985743985845792998361714 17220337697351015657950521176323262483320249231368149235373741788599650842711,
      Sq 13547913925622945070431920400596411406900026260347035540648758368232353317076 15549849457946371566896172786938980432421851627449396898353380550861104573629]
   = Some (512, 15549849457946371566896172786938980432421851627449396898353380550861104573629)"
  by (simp only: pow_chain.simps chain_arith)

lemma chain_fr_modulus_2_1:
  "pow_chain 21888242871839275222246405745257275088548364400416034343698204186575808495617
     19103219067921713944291392827692070036145651957329286315305642004821462161904
     (512, 15549849457946371566896172786938980432421851627449396898353380550861104573629)
     [Sq 11046926863000251731949665838047889186531977171501126998425904394322351506089 11699596668367776675346610687704220591435078791727316319397053191800576917728,
      Sq 6253611265369711584577570298389666242657110490156066321537873852415837563675 12650941915662020058015862023665998998969191525479888727406889100124684769509,
      Sq 7311977132680887666919112337312485366035861344977569222884081406616502008098 421743594562400382753388642386256516545992082196004333756405989743524594615,
      Sq 8126173516799436175753176591810588407911105611305434511656385899525726166 20402931748843538985151001264530049874871572933694634836567070693966133783803,
      Sq 19018412139584760463302058803488828214798745105558745409486914808582576230292 20619701001583904760601357484951574588621083236087856586626117568842480512645,
      Sq 19424677982796567728361873563865850263252824252129332680410457715389974494729 197302210312744933010843010704445784068657690384188106020011018676818793232,
      Sq 1778496447715242687608028032830735818407159063530376256336898723078507718 4158865282786404163413953114870269622875596290766033564087307867933865333818,
      Sq 790203240234451776713197109817938542187136886744547052794430954663220997698 1120550406532664055539694724667294622065367841900378087843176726913374367458,
      Sq 57365646979181544077046827509516816920958182236918040098956763040731604594 3161067157621608152362653341354432744960400845131437947728257924963983317266]
   = Some (262144, 3161067157621608152362653341354432744960400845131437947728257924963983317266)"
  by (simp only: pow_chain.simps chain_arith)

lemma chain_fr_modulus_2_2:
  "pow_chain 21888242871839275222246405745257275088548364400416034343698204186575808495617
     19103219067921713944291392827692070036145651957329286315305642004821462161904
     (262144, 3161067157621608152362653341354432744960400845131437947728257924963983317266)
     [Sq 456516570722531153192819861264884875902520782487157749003120722497387113846 6837567842312086091520287814181175430087169027974246751610506942214842701774,
      Sq 2135956470876446593359947062647111995017670062556736186509066251312223760206 3478517300119284901893091970156912948790432420133812234316178878452092729974,
      Sq 552811967505931911077480175926022109607232560434870357042358802337152341587 10359452186428527605436343203440067497552205259388878191021578220384701716497,
      Sq 4903008899858795211276705245240256617044142993777020929384679199057145376487 9088801421649573101014283686030284801466796108869023335878462724291607593530,
      Sq 3774003777546619915214788881498883203705823661196401766653898994770377433684 4419234939496763621076330863786513495701855246241724391626358375488475697872,
      Sq 892243272555933727136496954981132583515142470848341894421126000032742089461 14940766826517323942636479241147756311199852622225275649687664389641784935947,
      Sq 10198466577303779716174263455274497776553713679034007698197024499811553945081 19540430494807482326159819597004422086093766032135589407132600596362845576832,
      Sq 17444452995066617625487937660570427516240463878249347913698484080455254673866 21888242871839275217838484774961031246007050428528088939761107053157389710902,
      Sq 21888242871839275213430563804664787404353416997930879449828600104561791390564 21888242871839275222246405745257275088548364400416034343698204186575808495616]
   = Some (134217728, 21888242871839275222246405745257275088548364400416034343698204186575808495616)"
  by (simp only: pow_chain.simps chain_arith)

lemma chain_fr_modulus_2_3:
  "pow_chain 21888242871839275222246405745257275088548364400416034343698204186575808495617
     19103219067921713944291392827692070036145651957329286315305642004821462161904
     (134217728, 21888242871839275222246405745257275088548364400416034343698204186575808495616)
     [Sq 21888242871839275222246405745257275088548364400416034343698204186575808495615 1]
   = Some (268435456, 1)"
  by (simp only: pow_chain.simps chain_arith)

lemma order_fr_modulus_2: "\<forall>p. is_prime p \<and> p dvd 21888242871839275222246405745257275088548364400416034343698204186575808495617 \<longrightarrow> 268435456 dvd p - 1"
proof -
  have s0: "(19103219067921713944291392827692070036145651957329286315305642004821462161904::nat) ^ 1 mod 21888242871839275222246405745257275088548364400416034343698204186575808495617 = 19103219067921713944291392827692070036145651957329286315305642004821462161904 mod 21888242871839275222246405745257275088548364400416034343698204186575808495617"
    by (simp only: power_one_right)
  note s1 = pow_chain_sound[OF chain_fr_modulus_2_0 s0]
  note s2 = pow_chain_sound[OF chain_fr_modulus_2_1 s1]
  note s3 = pow_chain_sound[OF chain_fr_modulus_2_2 s2]
  note s4 = pow_chain_sound[OF chain_fr_modulus_2_3 s3]
  have q: "(134217728::nat) = 2 ^ 27" "(268435456::nat) = 2 * 134217728" "(21888242871839275222246405745257275088548364400416034343698204186575808495616::nat) = 21888242871839275222246405745257275088548364400416034343698204186575808495615 + 1"
    "(10944121435919637611123202872628637544274182200208017171849102093287904247808::nat) * 21888242871839275222246405745257275088548364400416034343698204186575808495615 = 10944121435919637611123202872628637544274182200208017171849102093287904247807 * 21888242871839275222246405745257275088548364400416034343698204186575808495617 + 1" "(1::nat) < 21888242871839275222246405745257275088548364400416034343698204186575808495617"
    by (simp_all only: chain_arith power_0 power_numeral Num.pow.simps Num.sqr.simps)
  show ?thesis
    by (rule prime_power_cert[OF is_prime_2 q(1) q(2) s3 q(3) s4 q(4) q(5)])
qed

lemma chain_fr_modulus_3_0:
  "pow_chain 21888242871839275222246405745257275088548364400416034343698204186575808495617
     4407920970296243842393367215006156084916469457145843978461
     (1, 4407920970296243842393367215006156084916469457145843978461)
     [SqMul 887680541290735913945002248416506277798 21888242871839275217838484774961031246154997185409878258781734729429964517155 4407920970296243841505686673715420170971467208729337700662 1]
   = Some (3, 1)"
  by (simp only: pow_chain.simps chain_arith)

lemma order_fr_modulus_3: "\<forall>p. is_prime p \<and> p dvd 21888242871839275222246405745257275088548364400416034343698204186575808495617 \<longrightarrow> 3 dvd p - 1"
proof -
  have s0: "(4407920970296243842393367215006156084916469457145843978461::nat) ^ 1 mod 21888242871839275222246405745257275088548364400416034343698204186575808495617 = 4407920970296243842393367215006156084916469457145843978461 mod 21888242871839275222246405745257275088548364400416034343698204186575808495617"
    by (simp only: power_one_right)
  note s1 = pow_chain_sound[OF chain_fr_modulus_3_0 s0]
  have q: "(1::nat) = 3 ^ 0" "(3::nat) = 3 * 1" "(4407920970296243842393367215006156084916469457145843978461::nat) = 4407920970296243842393367215006156084916469457145843978460 + 1"
    "(21888242871839275220777098755158527141083908662080648982059381034193860502796::nat) * 4407920970296243842393367215006156084916469457145843978460 = 4407920970296243842097473701242577446934802041007008552527 * 21888242871839275222246405745257275088548364400416034343698204186575808495617 + 1" "(1::nat) < 21888242871839275222246405745257275088548364400416034343698204186575808495617"
    by (simp_all only: chain_arith power_0 power_numeral Num.pow.simps Num.sqr.simps)
  show ?thesis
    by (rule prime_power_cert[OF is_prime_3 q(1) q(2) s0 q(3) s1 q(4) q(5)])
qed

lemma chain_fr_modulus_29_0:
  "pow_chain 21888242871839275222246405745257275088548364400416034343698204186575808495617
     2311681098533763473416896062848657696496278469729448718376354367453537275826
     (1, 2311681098533763473416896062848657696496278469729448718376354367453537275826)
     [SqMul 244143375629001351967190250228183284899094390607387194424625017714176225758 6697053768623682724825840966562332528203044295843519341234913211528258479590 707295359588211873748678973405681780245637131952905772502746282817911973203 15219464871279583790653102558308688104765138325122828787264981992081774440089,
      SqMul 10582489984434696944850215016991914048151586878465457235749598042035009000822 14876143967269748452066407396236536682424961905759823387397710725499313930747 1571112904291108197241149951769125203823979540667298005734261164374018041828 19544625139443929342213099353819109293932067034285041377287159737369540554146,
      Sq 17451943222580146184907992637300555511291166956988364156587276187310731168960 1445321314310548449450855625847692606302934491728603551734574483363311340996,
      SqMul 95437249752375203491585762385387367205445172747351284032345316256770311462 13392482854871659709907742963461621063928292497923271792982753966269038409962 1414419131737403143621941076786158816170319111816514406086233913554229807283 1]
   = Some (29, 1)"
  by (simp only: pow_chain.simps chain_arith)

lemma order_fr_modulus_29: "\<forall>p. is_prime p \<and> p dvd 21888242871839275222246405745257275088548364400416034343698204186575808495617 \<longrightarrow> 29 dvd p - 1"
proof -
  have s0: "(2311681098533763473416896062848657696496278469729448718376354367453537275826::nat) ^ 1 mod 21888242871839275222246405745257275088548364400416034343698204186575808495617 = 2311681098533763473416896062848657696496278469729448718376354367453537275826 mod 21888242871839275222246405745257275088548364400416034343698204186575808495617"
    by (simp only: power_one_right)
  note s1 = pow_chain_sound[OF chain_fr_modulus_29_0 s0]
  have q: "(1::nat) = 29 ^ 0" "(29::nat) = 29 * 1" "(2311681098533763473416896062848657696496278469729448718376354367453537275826::nat) = 2311681098533763473416896062848657696496278469729448718376354367453537275825 + 1"
    "(15964009029282740200819581168847542769910529790789654768730896341736599633483::nat) * 2311681098533763473416896062848657696496278469729448718376354367453537275825 = 1686005502858083728080911571616528080391658040413191035096969255930063189722 * 21888242871839275222246405745257275088548364400416034343698204186575808495617 + 1" "(1::nat) < 21888242871839275222246405745257275088548364400416034343698204186575808495617"
    by (simp_all only: chain_arith power_0 power_numeral Num.pow.simps Num.sqr.simps)
  show ?thesis
    by (rule prime_power_cert[OF is_prime_29 q(1) q(2) s0 q(3) s1 q(4) q(5)])
qed

lemma chain_fr_modulus_13818364434197438864469338081_0:
  "pow_chain 21888242871839275222246405745257275088548364400416034343698204186575808495617
     18810536960267738281623319138564098156538132287104634306360290224932305588168
     (1, 18810536960267738281623319138564098156538132287104634306360290224932305588168)
     [Sq 16165587288362616707920763639162090134193059927275503713066419440776747514958 9085659581505268874132837132958025132643965648321324883040022263071236657138,
      SqMul 3771395013950787002268134367743755588826109318081692324372043765197340430082 18059101437921968768332449448925068110359007611092188041252690481268774400450 15519811117607095879998092674667399375640143197388920738719532985862578126608 4466280092714551160179349833555971636873726671584238519253083836756174798464,
      SqMul 911341215618652005137420345027206622979839573017459824326505336229837275880 3742841333116782961551778034960088861952408539850274735714179586898816941336 3216560399354472255912688325387478303424380436284573302904162918481323257956 7288300720531034751599205128989304360084109032148697596779139568504645333596,
      Sq 2426842926767541311626789636639200531515174708218646150036372641114102423189 16310377356767332269622268890191016455300440121513193467241937482505740628603,
      Sq 12153940865779239510031226977251839677690878650351456811375368740009898863110 18590281345771589829705208461446723116458331097009764652595938196069863742739,
      SqMul 15789232719067613696551283370135861429302168974356987293062113843438204733063 9872141674924427083135189902537340981909746124591452201514724271246084737250 8484019797316921114000445929253229626309111235607606888771757480740919470823 3570328402263039533962078793614857179190899238207845654091689123093633975209]
   = Some (89, 3570328402263039533962078793614857179190899238207845654091689123093633975209)"
  by (simp only: pow_chain.simps chain_arith)

lemma chain_fr_modulus_13818364434197438864469338081_1:
  "pow_chain 21888242871839275222246405745257275088548364400416034343698204186575808495617
     18810536960267738281623319138564098156538132287104634306360290224932305588168
     (89, 3570328402263039533962078793614857179190899238207845654091689123093633975209)
     [Sq 582378630146065902894608831416026079250985044495071087512893244922072084841 21829522974866090339915079862768997321167101142097465178168028730712625951784,
      SqMul 21770960606586310882524703146249678386185646007908940985950994434108090694298 18084376938532863353837502814783643925737647489262910269019388516123472890790 15541532629983139364520358542681159857345098545938235434430744919055504253785 8975024199830631580403817344790028304586817291245569138346096813489152012375,
      Sq 3680106249697180029076657033249580364464634904213392239054211851518805910644 12477635325971618052354191063038058034114302262450087294479249184382785493277,
      Sq 7113014244201506168504204569478467019710498849538043398615622540046940827769 18447615490292918398641929924136432563808024318567103194638030164631623810256,
      SqMul 15547822603683422451051869491161387902086375451316154145199059268047079546375 15477125601316648876509856588515200340237686846535057098013604771787955047161 13300886912984480952761928661264914736157994234782855583182942458411965080903 18104796406065173190581331151014028290209456347151045762255637259888157688897,
      SqMul 14975329670102781472015968848271696765339112657517628025876478478584554484182 7234231395143136018962302098196327282685645453195906269239252071851394246315 6217026091781225891109006903994424820551570776715448430557966986915194196366 21666684803943752702775475012001422476902168933601203773733752216641393273098]
   = Some (5715, 21666684803943752702775475012001422476902168933601203773733752216641393273098)"
  by (simp only: pow_chain.simps chain_arith)

lemma chain_fr_modulus_13818364434197438864469338081_2:
  "pow_chain 21888242871839275222246405745257275088548364400416034343698204186575808495617
     18810536960267738281623319138564098156538132287104634306360290224932305588168
     (5715, 21666684803943752702775475012001422476902168933601203773733752216641393273098)
     [Sq 21447369400191579579991368237037903734061533038263226048078092457283566232694 12325038706389038246381761560710519680448258137532050165000737203053309415406,
      Sq 6940099303696332963636943761681770646062289649791083469354465070920694381209 13443253219486778743446513032716218517821584510808286422351206975950466483883,
      SqMul 8256535628803336664417254433324988240522602832708060024891683897762001988462 2364290201934196781262287532984773222792572069569367347522604820446287186635 2031847347851771920487702869889095631793837876092946143172544216571752371127 18921630943640514451582930610101292463930579998447765112770252449495126884321,
      Sq 16357097262839765889303433318050677465945563063911755349047410329040147195258 16045663229630279971696615233775199517783775118985254723521461749669979446855,
      Sq 11762630284496405185508292194685564354881853556668286914760706256663766070298 2547026407088552763619132692430582443971622840468111866157668238232522507159,
      SqMul 296384847170753674941240559321564754865381022830422149383608925688325747738 7758310957791008692752768378401896923455068623417135565170521727042785586935 6667414825177090833808853446819389043799720513958804015240941996717063336377 13743062694132755015284737287163746786210844211481797444674124733201070225471,
      Sq 8628914313531304047534734275065139648607415286848936412766034625815795393669 9244098531050843115431558922832011640495424303933370476466228638133601123068]
   = Some (731538, 9244098531050843115431558922832011640495424303933370476466228638133601123068)"
  by (simp only: pow_chain.simps chain_arith)

lemma chain_fr_modulus_13818364434197438864469338081_3:
  "pow_chain 21888242871839275222246405745257275088548364400416034343698204186575808495617
     18810536960267738281623319138564098156538132287104634306360290224932305588168
     (731538, 9244098531050843115431558922832011640495424303933370476466228638133601123068)
     [Sq 3904075724676737642219686105299520169828401213899959479170237814808089629553 13300055229528809341410542150878921047948950419169675759511858840419127563423,
      Sq 8081574667471349621926412993758431402780796641124328093204937921154345156027 15966198756527207259064101724824575278782181261157583397480959684222876843270,
      Sq 11646412378807362054253403256438198174365215823680990224085140686966649342621 19085664414308518687655841784555943066259154078927359148592852094240134500743,
      SqMul 16641929106344635685984984078360757688310234858492233260867896983389257761519 5751302187856208520721902333042260041149574272426851881472322018593524789826 4942611565843206230977617443761563966368812115360605552649308688557258019623 1865602758692113732805214818701321192943896161784096184444957995389216886377,
      SqMul 159011103523412245436607713173189704703000955583029507066152576612051946079 20545102553728254106907249702601785815506375394773982314417196473800336350386 17656255607278982402466520253316257351360588396545516456310675226773002496839 13229975654189419262669209642897790818845945731350156547878152497800875978185,
      SqMul 7996633481970165216751668100432495815310743233650628265404197083899690361164 16195037846082372787714725736683692840147920729587945253737217225822354876037 13917853514345097954212840714337268562077314311171321343575017109163872221297 11352974430176251988274592823686855960615703494006315686385524761056335374967]
   = Some (46818439, 11352974430176251988274592823686855960615703494006315686385524761056335374967)"
  by (simp only: pow_chain.simps chain_arith)

lemma chain_fr_modulus_13818364434197438864469338081_4:
  "pow_chain 21888242871839275222246405745257275088548364400416034343698204186575808495617
     18810536960267738281623319138564098156538132287104634306360290224932305588168
     (46818439, 11352974430176251988274592823686855960615703494006315686385524761056335374967)
     [SqMul 5888550724099541576883547767475487789513303685080660720472950489395461768094 4199077179635521734631689470769442089784730168333507498852996289427420807091 3608644921798307121767745166259491959964940598456169689437802006032601044274 13504382192337108424954703900159866062700347452420558012015396961260868152230,
      SqMul 8331794354828773150025246640423761777533608604812926713687542492227752830282 20854582224765611182420103970188462019187972565645616874441706314702112098906 17922219340621389611429480212215078534730090450171855943518715687895901667954 5235611639036356051571388123590467036095675066045520218683930058073520986590,
      Sq 1252344895627958267363493706156095119909780195743128733412896367489175899115 550906938159101855976358275668510927189310574626814122764122518665448149145,
      Sq 13865820855922064058356895157517978689816666554941036873654389120032443565 4083747225853724754498470886113141075487032758838686420768356563111061876420,
      SqMul 761915495104638361879212621355096783759787922601730437354472840174162603345 20068919682125335586970082261255635915896034997433201603232178239106609977535 17247028811022200693049494250247081033863702869119007202405151405708757179614 15671089660029164707162126909409246653683633371012789152497710362060241054042,
      SqMul 11219861391826587861077850229730342453758541559825899419718489874857590219806 7892479181398843410316363911221799453034394073245579120634826503745946947462 6782717654364702449211159429841820541495303896607658331771654756084199003999 7805783671712377205947414579185362746751821306153595115022089496570147857233]
   = Some (2996380147, 7805783671712377205947414579185362746751821306153595115022089496570147857233)"
  by (simp only: pow_chain.simps chain_arith)

lemma chain_fr_modulus_13818364434197438864469338081_5:
  "pow_chain 21888242871839275222246405745257275088548364400416034343698204186575808495617
     18810536960267738281623319138564098156538132287104634306360290224932305588168
     (2996380147, 7805783671712377205947414579185362746751821306153595115022089496570147857233)
     [SqMul 2783698037632911834472311364612918678432338371099115578114311032884418699597 12977859934344958536475144241531453968169452929287272028677967546889336249940 11153043000735863555140672373884633812489928587082465194454718112924027279864 7869451465732257446455653160922000624677206634823476245857754131876678353832,
      SqMul 2829293641071140280370524532298254256667029220277697137143992924284249520684 12742436956089890981287166757362071462036393308720345101251609844678024242196 10950722848328347169859961869485672276423657635680853552808128251154452703651 14291071267091833532622934897584375489779684593470876605643369722443630539261,
      SqMul 9330795494043962216497208833137032782738688299322656286342707702033511664274 3408282082873733255952309806364378830472016419600752372718472159771757939063 2929043526531709798649416089966502553188731459046322744781822967133374944228 5206338420481943584460466742216969652512666352702347847734674089527760357908,
      SqMul 1238379887654668451567617143593623636927584392306041531921921130960159198396 8449763576258003222283831932365532283559732838102735246094490555954858706132 7261642288391197596152455675007240970957607803723803760746218463530932349410 14160780287424993058179533925391007393737551198520438908212350126558230710206,
      Sq 9161434269660672399031902016002724177848930836628092323816924321041857221204 16758323904918100124189908074645916123283625670993575052236993155911919099568]
   = Some (95884164734, 16758323904918100124189908074645916123283625670993575052236993155911919099568)"
  by (simp only: pow_chain.simps chain_arith)

lemma chain_fr_modulus_13818364434197438864469338081_6:
  "pow_chain 21888242871839275222246405745257275088548364400416034343698204186575808495617
     18810536960267738281623319138564098156538132287104634306360290224932305588168
     (95884164734, 16758323904918100124189908074645916123283625670993575052236993155911919099568)
     [Sq 12830697363262136353817184232089687902146710326771542286018517374749058858176 21888083174864775917490206954690418891250255562899195060460029488001577172032,
      SqMul 21887923479055428325165119310323208245807268505016009575706837542570065452798 2186650580378228589415837883419981301773467744475425165304650082778219622658 1879185634143104249763634532372404838294428499272825193813080079633312474819 19150081800391577174518014002170847553675972478260497414170618736038125142221,
      SqMul 16754457409347662792587752302818273884202824045428752394230044088275573726265 13547516061603700915526902448299603397278454845084042522204431443150866532336 11642599777823248190274714291796517986528536312899535635074036100474633687445 11551868642195457728186667163980936391958467963780365631879832845526240571883,
      Sq 6096682584705130830368985332043033808394824174104281898430550164656090274937 5053970183329303734083970995299862021285121654002285241243662095329000714560,
      SqMul 1166955920744280506288609444211575475255546565829550055758509173435723670462 10043929758383899681616128244034083068187774991268069636043536714548916628546 8631652757722592570991214273479754470088418199143808204072434301043166881722 2997221858682788751599940192357292234087461306149729300991070253952314231254,
      Sq 410418457194825452280761692980795497732548183225762155842326499520578499513 1158864674556884102863072769414513629576922765871300912853430616761293277995]
   = Some (6136586543002, 1158864674556884102863072769414513629576922765871300912853430616761293277995)"
  by (simp only: pow_chain.simps chain_arith)

lemma chain_fr_modulus_13818364434197438864469338081_7:
  "pow_chain 21888242871839275222246405745257275088548364400416034343698204186575808495617
     18810536960267738281623319138564098156538132287104634306360290224932305588168
     (6136586543002, 1158864674556884102863072769414513629576922765871300912853430616761293277995)
     [SqMul 61355648409021102071083692638449745128461023957535654751450209891654285762 610795200438801586181747230234329845681076878456305294770698380304508714871 524911285034674982657748571000430660098810107963838005110002155086015494129 15566378383776961216865706945531494628949601736459385930311934560917077513735,
      SqMul 11070424309786411015739733790173224298728408343921146789174980981515355445204 13523179301040663986187241463191207341211999303407343774404201566424595979357 11621685009253443644971230658357375424064495795910483681147378491322911061153 20008596745880805082150868064678520905810601901618159276267688578597851981575,
      SqMul 18290364652995598267184074214688138541314707880616468756164614393495454261959 4345737535173050444677152725177146552570644815803453026178143492511318146922 3734683364198543138282117290146260604832430178586425496982427695251436593519 15903511685131771000602742684788932040607655047184374341105948884848526712673,
      SqMul 11555138774731153286161219469588189932515424725567212638293444793669852192819 6355386845679741621052628326114466336292185280150721429600099935790898430606 5461755877684689825601811728851465899020332063550965770516836914077906977722 15869482716685516133991480243448479096484095417313353154755341481103009025334,
      Sq 11505742291410259869167850136400207352309151629235686211718190071152185158199 520670192713106747870622642634890534021981560750617004091071789459310697773]
   = Some (196370769376094, 520670192713106747870622642634890534021981560750617004091071789459310697773)"
  by (simp only: pow_chain.simps chain_arith)

lemma chain_fr_modulus_13818364434197438864469338081_8:
  "pow_chain 21888242871839275222246405745257275088548364400416034343698204186575808495617
     18810536960267738281623319138564098156538132287104634306360290224932305588168
     (196370769376094, 520670192713106747870622642634890534021981560750617004091071789459310697773)
     [Sq 12385528211069385124017167275177156398893732455794125582117560967301842335 21169335698798681466873714656872295820719543653841725774388801410251274613834,
      SqMul 20474040632333995284581804604997899166529881873729586611353604277090575348961 17731803988972204945410472736537306309070338053376755168626383357207610175619 15238534964170777061808643166221350131054404996372756916798325319718171757951 8129968201598656851592208720796621944808002439398315183288286272752000075225,
      Sq 3019720831225005547094232470628248828234061490518361149546099927808837560013 20182925880333160333512574127383311475878456085161582900911862531795173837604,
      SqMul 18610470446447138580589612050744221915871880903869242542345963370792951581169 8428772874766083466283807510086456298103694761980554394043883683829208224543 7243603089514082583840080736260828207273696189514419833931723719818498891724 18608707035443471719479351587612093902144147197957025806185680077526416433516,
      Sq 15820547111000921634681616064056013888094066478756192614549600691753798797301 11052742353096130583380847994547880482106796542005414620605658134912518192539,
      SqMul 5581220668978239862858952676201552271443220671179692548489085738292038165585 4579933951723183961770539263764868831711968008513620013259970222396282525576 3935949421747015593148536016949531370582101947425335419603828299171793679220 11991398248557761076576074912237961339677140950692999944567175016655509006028]
   = Some (12567729240070037, 11991398248557761076576074912237961339677140950692999944567175016655509006028)"
  by (simp only: pow_chain.simps chain_arith)

lemma chain_fr_modulus_13818364434197438864469338081_9:
  "pow_chain 21888242871839275222246405745257275088548364400416034343698204186575808495617
     18810536960267738281623319138564098156538132287104634306360290224932305588168
     (12567729240070037, 11991398248557761076576074912237961339677140950692999944567175016655509006028)
     [SqMul 6569446108463759039331443088601521166249448111184382463771228040480899556349 14726777470249924496523903957100315415452200287720203824473822201616129314451 12656045235416216708841520912472818952890881739207300309235566691318999361741 2427265327903145776741942430532840298758721804892354858537663928917781026571,
      SqMul 269168110320117786234587425765623136667875639165864516494194438961322022663 3435105242571841929284998382573938880860790636510525719494841272644997849970 2952095081644961293485023851521963068924975086041687275365328802904251792577 18674051693854597106953944099734278061281140733400162433184210360638373519951,
      SqMul 15931850204084047155344343519310809226446584634842888077779395214063563482963 16039761501608908770686581238880408710467247646744097422266082037527955369230 13784410577245235549159378572637687035068958765476082158219475590596454412707 18069082182010672830531893994553695979511948101025408673123688155489840665421,
      Sq 14916306110633922502307248417966736072765872174175629081371304040891786529068 12662760479978724940456761403186740738757421394625625088634522967936944012285,
      SqMul 7325645275053417323134842811890177309846708341490866249922260266639486420311 2946068388885526223982036021691170028060629498691151655477791731936767644338 2531821701773309252851457485969339493673773135481970766027095384789234319652 5370056676400179391675205731231878538336019273886123820064678663166306027500]
   = Some (402167335682241213, 5370056676400179391675205731231878538336019273886123820064678663166306027500)"
  by (simp only: pow_chain.simps chain_arith)

lemma chain_fr_modulus_13818364434197438864469338081_10:
  "pow_chain 21888242871839275222246405745257275088548364400416034343698204186575808495617
     18810536960267738281623319138564098156538132287104634306360290224932305588168
     (402167335682241213, 5370056676400179391675205731231878538336019273886123820064678663166306027500)
     [Sq 1317488520051628841112233621611967593070996214153997133751244271251000657264 10946981634193614234692100782334946631921196237632139169335881613768693038112,
      Sq 5474921289983950448834336394183595870957566037436124138343799133193731348430 18823848328123256721503209829416631858259967179654229784785471819525529693234,
      Sq 16188474696434765338971484987368579472880186979335508564218022207255658696696 17224479003740889929597626164679110020845864689862344246795218051695496997324,
      Sq 13554430964945722527787893210104601763525937814436829012505358887084181981579 21291155865226103802629101271706834739945129555934787824546176190638066921733,
      SqMul 20710356730396599206496257084562054730393422130554858629091839835385338594914 10071983599491435122969773105556695380105943533582030903187821310227440231351 8655761948127716689790027140138236497932974430773977599066825646767708690594 1159180082875925122827335883339934335939152625220166251884665097731990128470,
      SqMul 61389051300458513013694486103888845476876140601059068147264198915079617587 18233617711263200651924384831029614609212452740872057832662314036976978924721 15669788657105111316313653966204204813604382748598666950604291464529515317093 4026651828982447365436751304644701360749446276463150729369181864273044619747,
      SqMul 740759550539710721782323044809234283053201906698356930495936538552512053301 13864125106718567377010090593279903281154760365874569878653095035275293462292 11914690423927625128654993935689581182402576383376946177922702755702709485598 20748328098757622418291772732695551281914218386325608670585682747967881737090]
   = Some (51477418967326875271, 20748328098757622418291772732695551281914218386325608670585682747967881737090)"
  by (simp only: pow_chain.simps chain_arith)

lemma chain_fr_modulus_13818364434197438864469338081_11:
  "pow_chain 21888242871839275222246405745257275088548364400416034343698204186575808495617
     18810536960267738281623319138564098156538132287104634306360290224932305588168
     (51477418967326875271, 20748328098757622418291772732695551281914218386325608670585682747967881737090)
     [Sq 19667778789477614948389879650687839790769064437748288135991768227163632969798 10580595985966062540693123397969065611390141476572025263395239792627505292734,
      Sq 5114572790229371577651991347645218832896418562480838851512501039536811240387 1362416418440406086413331222786475724659009543357076720037856262648810310977,
      SqMul 84802535685680121793939041974074006322247128113790685347690616557374614660 18195481015011625360270215244914144909264490285917749531450360383591772749309 15637014361855230429633551544874059543822966803045813727210168968950522503675 21758704310680794260592306860162168231862909685202012605867514969115556683437,
      Sq 21629932382043948849679912622636575656141409232911495145122697903810895464810 6129120106040914264701755088205265463004300204702402440068300487064967395199,
      SqMul 1716269025989581274533871752924916579857310419320606888659265758168864964528 21220012345208038144099767757686967147604665962326717061440908183657299775825 18236266330470042761915414172652783329383925645310043955212348205303402910634 20174154710870813814265407418747916173625165239618664068877462700238540747422,
      Sq 18594298349173563291024338133736443978120459572249153369470657640866191067997 748198730681821824699967142710170379147745904555839701630231878411276176935,
      Sq 25575435354571661081566239045145436101040718725026000341992420830491836011 17942202728760664196627408924523642857629682365796286306431541672575249730438]
   = Some (6589109627817840034708, 17942202728760664196627408924523642857629682365796286306431541672575249730438)"
  by (simp only: pow_chain.simps chain_arith)

lemma chain_fr_modulus_13818364434197438864469338081_12:
  "pow_chain 21888242871839275222246405745257275088548364400416034343698204186575808495617
     18810536960267738281623319138564098156538132287104634306360290224932305588168
     (6589109627817840034708, 17942202728760664196627408924523642857629682365796286306431541672575249730438)
     [SqMul 14707559699738262923285110895770166514566680483213106287543280675298318579403 11972511953283644423924361153074122276264766764352068818379222187349671695193 10289057003028625429852172612806119411159418586173208659105699148284696372279 5943997453117762920024847409610815971305710943922462566915468061023111475281,
      Sq 1614159068388552169931835828601321855843163065590648941101127513137590836308 19587178321216629342532737946168711654680913606059503705496172297469891566925,
      SqMul 17528019806502624102114683286300760130997545645739216606465126175672409688320 13655902620637970265515054314622044564802205388654477435013044552396697862185 11735746102388818172859498694968645287729795183389184574613248985201366889800 35480399837086862129637879782351874411581913777821865934806477562408620480,
      Sq 57513011892752776962328868284857583012770508564194364207145979607338296 17175509830176973298447596888286323829251817668743841726917036029623323181768,
      SqMul 13477470057957058177421965011213507988751787845236011456181322912393103369405 18626641432505603176079030815504010325359015070333587586634361680316293207939 16007549311442685490580757715774910965444354983283477742306090332490172985004 14337504746119573765144800791177244516868470958644802944561545161865381338284,
      Sq 9391527842076055093935820154573845197121055110231824512060247572633298342374 12692764321998828706809875524196793369535460966763219826109912811094099689898]
   = Some (421703016180341762221354, 12692764321998828706809875524196793369535460966763219826109912811094099689898)"
  by (simp only: pow_chain.simps chain_arith)

lemma chain_fr_modulus_13818364434197438864469338081_13:
  "pow_chain 21888242871839275222246405745257275088548364400416034343698204186575808495617
     18810536960267738281623319138564098156538132287104634306360290224932305588168
     (421703016180341762221354, 12692764321998828706809875524196793369535460966763219826109912811094099689898)
     [Sq 7360401978227345062479407227191430739038117809217953605470938385213643392913 9760920215680297146059253198399333521919235335198974561423145160153593888083,
      SqMul 4352819183099198957555369587581414792136223782067670113302348946629336429537 15212094931238375578520744286824026695267088488064372318347064723779035575560 13073122206411076468252622847766218861604958836508904199667315634396877448612 3750251973921904028226731446145283868899241553610421048991270740673261240476,
      Sq 642554541735277395697236792577142911445915097991100602623205107955250463968 7926872813574266968519796821085798303575980410316129517763023745426956278320,
      Sq 2870733524408428056177735199473157241037482568717490934753628613294960145905 10181608100256976783400575136818910847176704356209688589930474965336429024015,
      SqMul 4736110802233047067357934937341934211238535857768661318549689569749260912562 6962231578746131139051045931915838446525010351672299731220754657739649479471 5983272170578872141141474219282647242548194453356412052513881177069284667111 1775808659149033796638210575042676873349222963059477345204705082856148946641,
      SqMul 144072615256196675356280341032133157352579184578093936141344206662226748644 16394250743034833596197522856232958377501867184243543284944321178455030489533 14089055085116565984460202745967130468690255184073583032947906372017706137744 14244080746985472109071544864289643402291784897116457025653203028876510377496]
   = Some (26988993035541872782166675, 14244080746985472109071544864289643402291784897116457025653203028876510377496)"
  by (simp only: pow_chain.simps chain_arith)

lemma chain_fr_modulus_13818364434197438864469338081_14:
  "pow_chain 21888242871839275222246405745257275088548364400416034343698204186575808495617
     18810536960267738281623319138564098156538132287104634306360290224932305588168
     (26988993035541872782166675, 14244080746985472109071544864289643402291784897116457025653203028876510377496)
     [SqMul 9269535134210294826282127096542739066348060566751072589197375400620171073564 8787881118295030248181324906428872353117346075929845909488824036113744661028 7552217121585559463992630574679884701160798220029344838268624283758611723252 14974999839874456328590897189858885730068432349123283257802303814525268530220,
      SqMul 10245254565077664903228153999007247418994447751291042262059173913129255300177 6227901897037876807877405378367532322476488790531543785272066811036929424191 5352196588145240248669124543433936453901743666413166800959812748503013027654 17731497203272904982863114371271470604391014981785313892648549683893663779570,
      SqMul 14364149507596140210945774173263882572808159230806300592850812744353875397549 3532011959416212134908816162545761973028478537957379735743560074780050342167 3035375744673626321207023792307746919197098551416039638808228603612837902146 418491876119612320199549799003946826589192696758148245949586195888070785974,
      SqMul 8001348093749302557284265149018403039013618504238086914216423782174627871 12108529414429095838378680960554630942598795495980670312197596979290805587269 10405949048456815536825402638649134808531759039770239439439286703664692904139 9026562671030384065355994875961796251803161736020766309469949024793315174429,
      Sq 3722493127069020511451937664586127890516367301343543155603530534662067981773 5904975488750705822419790192543269790937947462625134358776240734420189087100]
   = Some (863647777137339929029333630, 5904975488750705822419790192543269790937947462625134358776240734420189087100)"
  by (simp only: pow_chain.simps chain_arith)

lemma chain_fr_modulus_13818364434197438864469338081_15:
  "pow_chain 21888242871839275222246405745257275088548364400416034343698204186575808495617
     18810536960267738281623319138564098156538132287104634306360290224932305588168
     (863647777137339929029333630, 5904975488750705822419790192543269790937947462625134358776240734420189087100)
     [Sq 1593034933270393094089505262047765471362562134506684932607242725009065065248 6589593602330189343484392963668212739216527920466298982792625681810559391984,
      Sq 1983838725571585187814529848561581238862665888399718445442553752470577648485 1696488863363841938624296900991001125297705731460619987529339102338474266011,
      Sq 131489516100919203375034960463920269589835809010794528461264380810026069584 17017973199593569700719181191601816059183602212458927032704359373970788838793,
      SqMul 13231368708663678652623418735523578136013185743167822885014883102895407703403 36096204967100083876413821156399256418219978344510254763311550706980212198 31020717452500581225536528621486575053039252315858113139694046186227422639 1]
   = Some (13818364434197438864469338081, 1)"
  by (simp only: pow_chain.simps chain_arith)

lemma order_fr_modulus_13818364434197438864469338081: "\<forall>p. is_prime p \<and> p dvd 21888242871839275222246405745257275088548364400416034343698204186575808495617 \<longrightarrow> 13818364434197438864469338081 dvd p - 1"
proof -
  have s0: "(18810536960267738281623319138564098156538132287104634306360290224932305588168::nat) ^ 1 mod 21888242871839275222246405745257275088548364400416034343698204186575808495617 = 18810536960267738281623319138564098156538132287104634306360290224932305588168 mod 21888242871839275222246405745257275088548364400416034343698204186575808495617"
    by (simp only: power_one_right)
  note s1 = pow_chain_sound[OF chain_fr_modulus_13818364434197438864469338081_0 s0]
  note s2 = pow_chain_sound[OF chain_fr_modulus_13818364434197438864469338081_1 s1]
  note s3 = pow_chain_sound[OF chain_fr_modulus_13818364434197438864469338081_2 s2]
  note s4 = pow_chain_sound[OF chain_fr_modulus_13818364434197438864469338081_3 s3]
  note s5 = pow_chain_sound[OF chain_fr_modulus_13818364434197438864469338081_4 s4]
  note s6 = pow_chain_sound[OF chain_fr_modulus_13818364434197438864469338081_5 s5]
  note s7 = pow_chain_sound[OF chain_fr_modulus_13818364434197438864469338081_6 s6]
  note s8 = pow_chain_sound[OF chain_fr_modulus_13818364434197438864469338081_7 s7]
  note s9 = pow_chain_sound[OF chain_fr_modulus_13818364434197438864469338081_8 s8]
  note s10 = pow_chain_sound[OF chain_fr_modulus_13818364434197438864469338081_9 s9]
  note s11 = pow_chain_sound[OF chain_fr_modulus_13818364434197438864469338081_10 s10]
  note s12 = pow_chain_sound[OF chain_fr_modulus_13818364434197438864469338081_11 s11]
  note s13 = pow_chain_sound[OF chain_fr_modulus_13818364434197438864469338081_12 s12]
  note s14 = pow_chain_sound[OF chain_fr_modulus_13818364434197438864469338081_13 s13]
  note s15 = pow_chain_sound[OF chain_fr_modulus_13818364434197438864469338081_14 s14]
  note s16 = pow_chain_sound[OF chain_fr_modulus_13818364434197438864469338081_15 s15]
  have q: "(1::nat) = 13818364434197438864469338081 ^ 0" "(13818364434197438864469338081::nat) = 13818364434197438864469338081 * 1" "(18810536960267738281623319138564098156538132287104634306360290224932305588168::nat) = 18810536960267738281623319138564098156538132287104634306360290224932305588167 + 1"
    "(18830771696733986827343121108258373716716634563029220880262390084180817631389::nat) * 18810536960267738281623319138564098156538132287104634306360290224932305588167 = 16182976818459130185777021246784971380378737693564323278560854903669132907786 * 21888242871839275222246405745257275088548364400416034343698204186575808495617 + 1" "(1::nat) < 21888242871839275222246405745257275088548364400416034343698204186575808495617"
    by (simp_all only: chain_arith power_0 power_numeral Num.pow.simps Num.sqr.simps)
  show ?thesis
    by (rule prime_power_cert[OF is_prime_13818364434197438864469338081 q(1) q(2) s0 q(3) s16 q(4) q(5)])
qed

lemma order_fr_modulus_prod1: "\<forall>p. is_prime p \<and> p dvd 21888242871839275222246405745257275088548364400416034343698204186575808495617 \<longrightarrow> 805306368 dvd p - 1"
proof -
  have a: "(1::nat) * 268435456 = 89478485 * 3 + 1" "(805306368::nat) = 268435456 * 3"
    by (simp_all only: chain_arith)
  show ?thesis by (rule coprime_cert_dvd[OF order_fr_modulus_2 order_fr_modulus_3 a])
qed

lemma order_fr_modulus_prod2: "\<forall>p. is_prime p \<and> p dvd 21888242871839275222246405745257275088548364400416034343698204186575808495617 \<longrightarrow> 23353884672 dvd p - 1"
proof -
  have a: "(10::nat) * 805306368 = 277691851 * 29 + 1" "(23353884672::nat) = 805306368 * 29"
    by (simp_all only: chain_arith)
  show ?thesis by (rule coprime_cert_dvd[OF order_fr_modulus_prod1 order_fr_modulus_29 a])
qed

lemma order_fr_modulus_prod3: "\<forall>p. is_prime p \<and> p dvd 21888242871839275222246405745257275088548364400416034343698204186575808495617 \<longrightarrow> 322712489351913520118587560023851794432 dvd p - 1"
proof -
  have a: "(11648644836385534894619628050::nat) * 23353884672 = 19686925279 * 13818364434197438864469338081 + 1" "(322712489351913520118587560023851794432::nat) = 23353884672 * 13818364434197438864469338081"
    by (simp_all only: chain_arith)
  show ?thesis by (rule coprime_cert_dvd[OF order_fr_modulus_prod2 order_fr_modulus_13818364434197438864469338081 a])
qed

lemma is_prime_fr_modulus: "is_prime 21888242871839275222246405745257275088548364400416034343698204186575808495617"
proof -
  have a: "(1::nat) < 21888242871839275222246405745257275088548364400416034343698204186575808495617" "(21888242871839275222246405745257275088548364400416034343698204186575808495617::nat) \<le> 322712489351913520118587560023851794432 * 322712489351913520118587560023851794432"
    by (simp_all only: chain_arith)
  show ?thesis by (rule pocklington[OF a(1) order_fr_modulus_prod3 a(2)])
qed


subsection \<open>The field\<close>

text \<open>
  Since \<open>fr_modulus\<close> is prime, a product of two elements of \<open>fr\<close> is zero only if one
  of them is: \<open>fr\<close> is an integral domain.  It has \<open>fr_modulus\<close> elements.
\<close>

lemma fr_modulus_prime: "is_prime (nat fr_modulus)"
  using is_prime_fr_modulus by (simp add: fr_modulus_def)

lemma fr_val_mult: "fr_val (a * b) = (fr_val a * fr_val b) mod fr_modulus"
  by transfer simp

instance fr :: idom
proof
  fix a b :: fr
  assume a: "a \<noteq> 0" and b: "b \<noteq> 0"
  show "a * b \<noteq> 0"
  proof
    assume "a * b = 0"
    then have "(fr_val a * fr_val b) mod fr_modulus = 0"
      using fr_val_mult[of a b] by simp
    then have d: "fr_modulus dvd fr_val a * fr_val b" by (simp add: dvd_eq_mod_eq_0)
    have ra: "0 \<le> fr_val a" "fr_val a < fr_modulus" and rb: "0 \<le> fr_val b" "fr_val b < fr_modulus"
      using fr_val_range by simp_all
    have "int (nat fr_modulus) dvd int (nat (fr_val a) * nat (fr_val b))"
      using d ra rb fr_modulus_gt_1 by simp
    then have "nat fr_modulus dvd nat (fr_val a) * nat (fr_val b)"
      by (simp only: int_dvd_int_iff)
    then have "nat fr_modulus dvd nat (fr_val a) \<or> nat fr_modulus dvd nat (fr_val b)"
      using fr_modulus_prime is_prime_dvd_mult by blast
    moreover have "\<not> nat fr_modulus dvd nat (fr_val x)" if "x \<noteq> 0" for x
    proof -
      have "fr_val x \<noteq> 0" using that fr_val_inject[of x 0] by simp
      then have "0 < nat (fr_val x)" "nat (fr_val x) < nat fr_modulus"
        using fr_val_range[of x] by simp_all
      then show ?thesis by (simp add: nat_dvd_not_less)
    qed
    ultimately show False using a b by blast
  qed
qed

lemma card_fr: "card (UNIV :: fr set) = nat fr_modulus"
  using type_definition.card[OF type_definition_fr] by simp

section \<open>Facts about the fingerprint, the shuffle and the products\<close>

lemma upt_small:
  "[0 ..< 2] = [0, 1]" "[0 ..< 3] = [0, 1, 2]" "[0 ..< 4] = [0, 1, 2, 3]"
  "[1 ..< 2] = [1]" "[1 ..< 3] = [1, 2]" "[Suc 0 ..< 2] = [1]" "[Suc 0 ..< 3] = [1, 2]"
  by code_simp+

lemma fold_mult_prod_list:
  "fold (\<lambda>t acc. acc * f t) xs (a::'a::comm_ring_1) = a * prod_list (map f xs)"
  by (induction xs arbitrary: a) (simp_all add: mult.assoc)

lemma fold_add_sum_list:
  "fold (\<lambda>x acc. acc + x) xs (a::'a::comm_ring_1) = a + sum_list xs"
  by (induction xs arbitrary: a) (simp_all add: add.assoc)

lemma PolyEval_eq:
  "PolyEval vec r = (if vec = [] then None else Some (prod_list (map (\<lambda>v. v + r) vec)))"
  by (cases vec) (simp_all add: fold_mult_prod_list)

lemma PolyEvalInCircuit_eq: "PolyEvalInCircuit vec r = PolyEval vec r"
  by (cases vec) simp_all

lemma prod_list_map_mset:
  fixes f :: "'b \<Rightarrow> 'a::comm_ring_1"
  assumes "mset xs = mset ys"
  shows "prod_list (map f xs) = prod_list (map f ys)"
proof -
  have "prod_list (map f xs) = prod_mset (image_mset f (mset xs))"
    by (simp flip: prod_mset_prod_list)
  also have "\<dots> = prod_mset (image_mset f (mset ys))"
    by (simp add: assms)
  also have "\<dots> = prod_list (map f ys)"
    by (simp flip: prod_mset_prod_list)
  finally show ?thesis .
qed

lemma mset_eq_Nil_iff: "mset xs = mset ys \<Longrightarrow> xs = [] \<longleftrightarrow> ys = []"
  by (metis mset_zero_iff)

lemma PolyEval_mset: "mset B = mset A \<Longrightarrow> PolyEval B r = PolyEval A r"
  using prod_list_map_mset[of B A "\<lambda>v. v + r"] mset_eq_Nil_iff[of B A]
  by (simp add: PolyEval_eq)

lemma length_swap [simp]: "length (swap i j xs) = length xs"
  by (simp add: swap_def)

lemma mset_swap': "i < length xs \<Longrightarrow> j < length xs \<Longrightarrow> mset (swap i j xs) = mset xs"
  unfolding swap_def by (rule mset_swap)

lemma pick_mod_less: "i < n \<Longrightarrow> pick i mod (i + 1) < (n::nat)"
proof -
  assume "i < n"
  have "pick i mod (i + 1) < i + 1" by simp
  with \<open>i < n\<close> show ?thesis by linarith
qed

lemma rand_Shuffle_swap_aux:
  "\<forall>i\<in>set is. i < length xs \<Longrightarrow>
   length (fold (\<lambda>i. swap i (pick i mod (i + 1))) is xs) = length xs \<and>
   mset (fold (\<lambda>i. swap i (pick i mod (i + 1))) is xs) = mset xs"
proof (induction "is" arbitrary: xs)
  case Nil
  show ?case by simp
next
  case (Cons i "is")
  have i: "i < length xs" using Cons.prems by simp
  have j: "pick i mod (i + 1) < length xs" using i by (rule pick_mod_less)
  have "\<forall>i'\<in>set is. i' < length (swap i (pick i mod (i + 1)) xs)"
    using Cons.prems by simp
  from Cons.IH[OF this] show ?case
    using mset_swap'[OF i j] by simp
qed

lemma rand_Shuffle_swap:
  "length (rand_Shuffle pick (length xs) swap xs) = length xs \<and>
   mset (rand_Shuffle pick (length xs) swap xs) = mset xs"
  unfolding rand_Shuffle_def by (rule rand_Shuffle_swap_aux) simp

lemma PolyEval_rand_Shuffle:
  "PolyEval (rand_Shuffle pick (length A) swap A) r = PolyEval A r"
  using rand_Shuffle_swap[of pick A] by (intro PolyEval_mset) simp

lemma MaskOf_eq: "MaskOf ds = prod_list ds"
  using fold_mult_prod_list[of "\<lambda>y. y" ds 1] by (simp add: MaskOf_def)

lemma ProdFromClients_eq: "ProdFromClients pps = prod_list pps"
  using fold_mult_prod_list[of "\<lambda>y. y" pps 1] by (simp add: ProdFromClients_def)

lemma ProdFromShuffler_eq:
  "ProdFromShuffler vs ms r
   = (if vs = [] then None else Some (prod_list (map (\<lambda>v. v + r) vs) * prod_list ms))"
  using fold_mult_prod_list[of "\<lambda>y. y" ms]
  by (simp add: ProdFromShuffler_def PolyEval_eq)

lemma PublicProdOf_eq:
  "PublicProdOf v r m = (if v = [] then None else Some (prod_list (map (\<lambda>x. x + r) v) * m))"
  by (simp add: PublicProdOf_def PolyEval_eq)

lemma those_map_Some: "(\<And>x. x \<in> set xs \<Longrightarrow> f x = Some (g x)) \<Longrightarrow> those (map f xs) = Some (map g xs)"
  by (induction xs) simp_all

lemma ClientPublicProds_eq:
  assumes "\<forall>v\<in>set vals. v \<noteq> []"
  shows "ClientPublicProds vals dms r
         = Some (map (\<lambda>(v, d). prod_list (map (\<lambda>x. x + r) v) * prod_list d) (zip vals dms))"
  unfolding ClientPublicProds_def
proof (rule those_map_Some)
  fix x assume "x \<in> set (zip vals dms)"
  then have "(fst x, snd x) \<in> set (zip vals dms)" by simp
  then have "fst x \<in> set vals" by (rule set_zip_leftD)
  with assms have "fst x \<noteq> []" by blast
  then show "(case x of (v, d) \<Rightarrow> PublicProdOf v r (MaskOf d))
        = Some (case x of (v, d) \<Rightarrow> prod_list (map (\<lambda>x. x + r) v) * prod_list d)"
    by (cases x) (simp add: PublicProdOf_eq MaskOf_eq)
qed

lemma prod_list_zip_split:
  fixes F :: "'b \<Rightarrow> 'a::comm_ring_1"
  assumes "length xs = length ys"
  shows "prod_list (map (\<lambda>(x, y). F x * G y) (zip xs ys))
         = prod_list (map F xs) * prod_list (map G ys)"
  using assms by (induction xs ys rule: list_induct2) (simp_all add: mult_ac)

lemma prod_list_concat_map:
  fixes f :: "'b \<Rightarrow> 'a::comm_ring_1"
  shows "prod_list (map f (concat xss)) = prod_list (map (\<lambda>xs. prod_list (map f xs)) xss)"
  by (induction xss) simp_all

lemma honest_products:
  fixes r :: "'a::comm_ring_1"
  assumes "length vals = length dms"
  shows "prod_list (map (\<lambda>(v, d). prod_list (map (\<lambda>x. x + r) v) * prod_list d) (zip vals dms))
         = prod_list (map (\<lambda>x. x + r) (concat vals)) * prod_list (concat dms)"
  using prod_list_zip_split[OF assms, of "\<lambda>v. prod_list (map (\<lambda>x. x + r) v)" prod_list]
    prod_list_concat_map[of "\<lambda>x. x + r" vals] prod_list_concat_map[of "\<lambda>x. x" dms]
  by simp

lemma ShuffleZK_check_eq:
  fixes r :: "'a::comm_ring_1"
  assumes len: "length vals = length dms"
    and ne: "\<forall>v\<in>set vals. v \<noteq> []"
    and out: "received \<noteq> []"
  shows "ShuffleZK_check vals dms received allMask r
         = Some (prod_list (map (\<lambda>x. x + r) received) * prod_list allMask
                 = prod_list (map (\<lambda>x. x + r) (concat vals)) * prod_list (concat dms))"
  using out
  by (simp add: ShuffleZK_check_def ClientPublicProds_eq[OF ne] ServerCheck_def
      ProdFromShuffler_eq ProdFromClients_eq honest_products[OF len])

lemma prod_list_map_zero:
  fixes f :: "'b \<Rightarrow> 'a::idom"
  assumes "prod_list (map f xs) = 0"
  shows "\<exists>x\<in>set xs. f x = 0"
proof -
  have "0 \<in> set (map f xs)" using assms by (simp only: prod_list_zero_iff)
  then show ?thesis by auto
qed

lemma tamper_roots:
  fixes r :: "'a::idom"
  assumes i: "i < length A" and v: "v \<noteq> A ! i" and M: "M \<noteq> 0"
    and eq: "prod_list (map (\<lambda>x. x + r) (A[i := v])) * M = prod_list (map (\<lambda>x. x + r) A) * M"
  shows "r \<in> uminus ` set (take i A @ drop (Suc i) A)"
proof -
  let ?f = "\<lambda>x. x + r"
  let ?R = "take i A @ drop (Suc i) A"
  have A: "A = take i A @ A ! i # drop (Suc i) A" using i by (rule id_take_nth_drop)
  have T: "A[i := v] = take i A @ v # drop (Suc i) A" using i by (rule upd_conv_take_nth_drop)
  have pA: "prod_list (map ?f A) = (A ! i + r) * prod_list (map ?f ?R)"
    by (subst A) (simp add: mult_ac)
  have pT: "prod_list (map ?f (A[i := v])) = (v + r) * prod_list (map ?f ?R)"
    by (subst T) (simp add: mult_ac)
  have "(v - A ! i) * (prod_list (map ?f ?R) * M) = 0"
    using eq unfolding pA pT by (simp add: algebra_simps)
  with v M have "prod_list (map ?f ?R) = 0" by simp
  then have "\<exists>x\<in>set ?R. x + r = 0" by (rule prod_list_map_zero)
  then obtain x where x: "x \<in> set ?R" "x + r = 0" by blast
  then have "r = - x" by (simp add: eq_neg_iff_add_eq_0 add.commute)
  with x(1) show ?thesis by blast
qed


section \<open>Facts about secret splitting\<close>

lemma split_step_append:
  fixes M :: "'a::comm_ring_1 list"
  assumes "length M = m"
  shows "split_step rnd (Suc m) (x # M @ 0 # R) = (x - rnd (Suc m)) # M @ rnd (Suc m) # R"
proof -
  have "(x # M @ 0 # R)[Suc m := rnd (Suc m)] = x # M @ rnd (Suc m) # R"
    using assms list_update_length[of M 0 R "rnd (Suc m)"] by simp
  moreover have "(x # M @ rnd (Suc m) # R) ! Suc m = rnd (Suc m)"
    using assms nth_append_length[of M "rnd (Suc m)" R] by simp
  ultimately show ?thesis by (simp add: split_step_def Let_def)
qed

lemma split_fold:
  assumes "Suc m \<le> k"
  shows "fold (split_step rnd) [1 ..< Suc m] ((replicate k 0)[0 := a])
         = ((a::'a::comm_ring_1) - sum_list (map rnd [1 ..< Suc m])) # map rnd [1 ..< Suc m] @ replicate (k - Suc m) 0"
  using assms
proof (induction m)
  case 0
  then show ?case by (cases k) simp_all
next
  case (Suc m)
  have up: "[1 ..< Suc (Suc m)] = [1 ..< Suc m] @ [Suc m]" by simp
  have rep: "replicate (k - Suc m) (0::'a) = 0 # replicate (k - Suc (Suc m)) 0"
    using Suc.prems by (cases "k - Suc m") (simp_all add: Suc_diff_Suc)
  have len: "length (map rnd [1 ..< Suc m]) = m" by simp
  have IH: "fold (split_step rnd) [1 ..< Suc m] ((replicate k 0)[0 := a])
         = (a - sum_list (map rnd [1 ..< Suc m])) # map rnd [1 ..< Suc m] @ 0 # replicate (k - Suc (Suc m)) 0"
    using Suc.IH Suc.prems rep by simp
  show ?case
    unfolding up fold_append comp_def IH
    using split_step_append[OF len, of rnd] by (simp add: algebra_simps)
qed

lemma SplitSecret_eq:
  assumes "0 < k"
  shows "SplitSecret k s rnd
         = Some ((NewElement s - sum_list (map rnd [1 ..< k])) # map rnd [1 ..< k])"
proof -
  obtain m where k: "k = Suc m" using assms by (cases k) auto
  show ?thesis
    unfolding SplitSecret_def k using split_fold[of m "Suc m" rnd "NewElement s"] by simp
qed

lemma ServerSum_eq: "ServerSum xs = sum_list xs"
  by (simp add: ServerSum_def fold_add_sum_list)

lemma SumInCircuit_eq: "SumInCircuit xs = (if xs = [] then None else Some (sum_list xs))"
  by (cases xs) (simp_all add: fold_add_sum_list)

section \<open>Facts about the pair loop\<close>

lemma base_sum_list: "base C m = sum_list (map (\<lambda>i. C - i - 1) [0 ..< m])"
proof -
  have "fold (\<lambda>i' b. b + (C - i' - 1)) xs a = a + sum_list (map (\<lambda>i. C - i - 1) xs)" for xs and a :: nat
    by (induction xs arbitrary: a) simp_all
  then show ?thesis by (simp add: base_def)
qed

lemma base_0 [simp]: "base C 0 = 0"
  by (simp add: base_sum_list)

lemma base_Suc: "base C (Suc m) = base C m + (C - m - 1)"
  by (simp add: base_sum_list)

lemma base_closed: "m \<le> C \<Longrightarrow> 2 * base C m + m * (m + 1) = 2 * C * m"
proof (induction m)
  case 0
  show ?case by simp
next
  case (Suc m)
  then have IH: "2 * base C m + m * (m + 1) = 2 * C * m" and m: "Suc m \<le> C" by simp_all
  from m obtain e where C: "C = Suc m + e" using le_Suc_ex by blast
  have "C - m - 1 = e" using C by simp
  then have "2 * base C (Suc m) + Suc m * (Suc m + 1)
      = (2 * base C m + m * (m + 1)) + 2 * e + 2 * (m + 1)"
    by (simp add: base_Suc algebra_simps)
  also have "\<dots> = 2 * C * m + 2 * e + 2 * (m + 1)" using IH by simp
  also have "\<dots> = 2 * C * Suc m" using C by (simp add: algebra_simps)
  finally show ?case .
qed

lemma base_total: "base C C = C * (C - 1) div 2"
proof -
  have "2 * base C C + C * (C + 1) = 2 * C * C" by (rule base_closed) simp
  then have "2 * base C C = C * (C - 1)"
    by (cases C) (simp_all add: algebra_simps)
  then show ?thesis by (metis nonzero_mult_div_cancel_left zero_neq_numeral)
qed

lemma base_mono: "m \<le> m' \<Longrightarrow> base C m \<le> base C m'"
  by (induction m' ) (auto simp: base_Suc le_Suc_eq)

lemma base_Suc_le_total: "m < C \<Longrightarrow> base C m + (C - m - 1) \<le> C * (C - 1) div 2"
  using base_mono[of "Suc m" C C] by (simp add: base_Suc base_total)


lemma pair_step_append:
  assumes "length A = length B" "i + j + 1 < length s"
  shows "pair_step s i j (Some (A @ z # R, B @ z' # R', length A))
         = Some ((A @ [s ! i]) @ R, (B @ [s ! (i + j + 1)]) @ R', length (A @ [s ! i]))"
  using assms list_update_length[of A z R "s ! i"] list_update_length[of B z' R' "s ! (i + j + 1)"]
  by (simp add: pair_step_def)

lemma pair_row:
  fixes s :: "'a::zero list"
  assumes AB: "length A = length B" and b: "b \<le> n" and r: "i + b < length s"
  shows "fold (pair_step s i) [0 ..< b] (Some (A @ replicate n 0, B @ replicate n 0, length A))
         = Some ((A @ map (\<lambda>j. s ! i) [0 ..< b]) @ replicate (n - b) 0,
                 (B @ map (\<lambda>j. s ! (i + j + 1)) [0 ..< b]) @ replicate (n - b) 0,
                 length (A @ map (\<lambda>j. s ! i) [0 ..< b]))"
  using b r
proof (induction b)
  case 0
  show ?case by simp
next
  case (Suc b)
  then have b: "b \<le> n" "i + b < length s" by simp_all
  have rep: "replicate (n - b) (0::'a) = 0 # replicate (n - Suc b) 0"
    using Suc.prems by (cases "n - b") (simp_all add: Suc_diff_Suc)
  let ?A = "A @ map (\<lambda>j. s ! i) [0 ..< b]"
  let ?B = "B @ map (\<lambda>j. s ! (i + j + 1)) [0 ..< b]"
  have len: "length ?A = length ?B" using AB by simp
  have lt: "i + b + 1 < length s" using Suc.prems by simp
  have "fold (pair_step s i) [0 ..< Suc b] (Some (A @ replicate n 0, B @ replicate n 0, length A))
        = pair_step s i b (Some (?A @ 0 # replicate (n - Suc b) 0, ?B @ 0 # replicate (n - Suc b) 0, length ?A))"
    using Suc.IH[OF b(1) b(2)] by (simp add: rep)
  also have "\<dots> = Some ((?A @ [s ! i]) @ replicate (n - Suc b) 0,
                         (?B @ [s ! (i + b + 1)]) @ replicate (n - Suc b) 0, length (?A @ [s ! i]))"
    using len lt by (rule pair_step_append)
  finally show ?case by simp
qed

lemma length_rowFirst: "length (rowFirst C s i) = C - i - 1"
  by (simp add: rowFirst_def)

lemma length_rowSecond: "length (rowSecond C s i) = C - i - 1"
  by (simp add: rowSecond_def)

lemma length_rows: "length (concat (map (rowFirst C s) [0 ..< m])) = base C m"
  "length (concat (map (rowSecond C s) [0 ..< m])) = base C m"
  by (simp_all add: length_concat base_sum_list rowFirst_def rowSecond_def comp_def)

lemma pair_rows:
  fixes s :: "'a::zero list"
  assumes C: "length s = C" and m: "m \<le> C"
  shows "fold (\<lambda>i st. fold (pair_step s i) [0 ..< C - i - 1] st) [0 ..< m]
           (Some (replicate (C * (C - 1) div 2) 0, replicate (C * (C - 1) div 2) 0, 0))
         = Some (concat (map (rowFirst C s) [0 ..< m]) @ replicate (C * (C - 1) div 2 - base C m) 0,
                 concat (map (rowSecond C s) [0 ..< m]) @ replicate (C * (C - 1) div 2 - base C m) 0,
                 base C m)"
  using m
proof (induction m)
  case 0
  show ?case by simp
next
  case (Suc m)
  let ?N = "C * (C - 1) div 2"
  let ?A = "concat (map (rowFirst C s) [0 ..< m])"
  let ?B = "concat (map (rowSecond C s) [0 ..< m])"
  have m: "m \<le> C" "m < C" using Suc.prems by simp_all
  have lenA: "length ?A = base C m" and lenB: "length ?B = base C m" by (rule length_rows)+
  have le: "C - m - 1 \<le> ?N - base C m" using base_Suc_le_total[OF m(2)] by simp
  have r: "m + (C - m - 1) < length s" using C m by simp
  have AB: "length ?A = length ?B" using lenA lenB by simp
  have "fold (\<lambda>i st. fold (pair_step s i) [0 ..< C - i - 1] st) [0 ..< Suc m]
           (Some (replicate ?N 0, replicate ?N 0, 0))
        = fold (pair_step s m) [0 ..< C - m - 1]
            (Some (?A @ replicate (?N - base C m) 0, ?B @ replicate (?N - base C m) 0, length ?A))"
    using Suc.IH[OF m(1)] by (simp add: lenA)
  also have "\<dots> = Some ((?A @ rowFirst C s m) @ replicate (?N - base C m - (C - m - 1)) 0,
                         (?B @ rowSecond C s m) @ replicate (?N - base C m - (C - m - 1)) 0,
                         length (?A @ rowFirst C s m))"
    using pair_row[OF AB le r, folded rowFirst_def rowSecond_def] .
  finally show ?case
    by (simp add: base_Suc lenA length_rowFirst)
qed

lemma InitPairs_eq:
  fixes s :: "'a::zero list"
  assumes "length s = C"
  shows "InitPairs C s = Some (concat (map (rowFirst C s) [0 ..< C]),
                               concat (map (rowSecond C s) [0 ..< C]), C * (C - 1) div 2)"
  using pair_rows[OF assms, of C] by (simp add: InitPairs_def base_total)

lemma nth_concat_rows:
  assumes "i < C" "j < length (row i)"
  shows "concat (map row [0 ..< C]) ! (length (concat (map row [0 ..< i])) + j) = row i ! j"
proof -
  have "[0 ..< C] = [0 ..< i] @ i # [Suc i ..< C]"
    using assms(1) by (metis le_add2  less_imp_add_positive upt_add_eq_append upt_conv_Cons zero_le add_0 less_or_eq_imp_le)
  then have "concat (map row [0 ..< C]) = concat (map row [0 ..< i]) @ row i @ concat (map row [Suc i ..< C])"
    by simp
  then show ?thesis using assms(2) by (simp add: nth_append)
qed


lemma InitPairs_nth:
  fixes s :: "'a::zero list"
  assumes "length s = C" "i < C" "j < C - i - 1"
  shows "concat (map (rowFirst C s) [0 ..< C]) ! (base C i + j) = s ! i"
    and "concat (map (rowSecond C s) [0 ..< C]) ! (base C i + j) = s ! (i + j + 1)"
proof -
  have "concat (map (rowFirst C s) [0 ..< C]) ! (length (concat (map (rowFirst C s) [0 ..< i])) + j)
        = rowFirst C s i ! j"
    using assms by (intro nth_concat_rows) (simp_all add: length_rowFirst)
  then show "concat (map (rowFirst C s) [0 ..< C]) ! (base C i + j) = s ! i"
    using assms by (simp add: length_rows rowFirst_def)
  have "concat (map (rowSecond C s) [0 ..< C]) ! (length (concat (map (rowSecond C s) [0 ..< i])) + j)
        = rowSecond C s i ! j"
    using assms by (intro nth_concat_rows) (simp_all add: length_rowSecond)
  then show "concat (map (rowSecond C s) [0 ..< C]) ! (base C i + j) = s ! (i + j + 1)"
    using assms by (simp add: length_rows rowSecond_def)
qed


section \<open>Facts about the tally and the sole winner\<close>


















section \<open>Facts about submissions and verification\<close>

lemma nth_MakeSubmissions:
  assumes "MakeSubmissions maxCheck GenProof clients allAssignment = Some subs" "i < length clients"
  shows "subs ! i = MakeSubmission maxCheck GenProof clients allAssignment i"
    and "length subs = length clients"
  using assms by (auto simp: MakeSubmissions_def split: if_splits)

lemma VerifyAll_fold:
  assumes subs: "\<forall>i<length subs. subs ! i = MakeSubmission maxCheck GenProof clients allAssignment i"
    and m: "m \<le> length subs"
  shows "fold (verify_step maxCheck Verify subs) [0 ..< m] (Some [])
         = Some (map (\<lambda>i. (i, Verify (fst (GenProof (allAssignment ! i))) (snd (GenProof (allAssignment ! i)))))
                   [0 ..< min maxCheck m])"
  using m
proof (induction m)
  case 0
  show ?case by simp
next
  case (Suc m)
  then have IH: "fold (verify_step maxCheck Verify subs) [0 ..< m] (Some [])
         = Some (map (\<lambda>i. (i, Verify (fst (GenProof (allAssignment ! i))) (snd (GenProof (allAssignment ! i)))))
                   [0 ..< min maxCheck m])"
    and m: "m < length subs" by simp_all
  have s: "subs ! m = MakeSubmission maxCheck GenProof clients allAssignment m"
    using subs m by blast
  have step: "fold (verify_step maxCheck Verify subs) [0 ..< Suc m] (Some [])
      = verify_step maxCheck Verify subs m
          (Some (map (\<lambda>i. (i, Verify (fst (GenProof (allAssignment ! i))) (snd (GenProof (allAssignment ! i)))))
                   [0 ..< min maxCheck m]))"
    by (simp add: IH)
  show ?case
  proof (cases "m < maxCheck")
    case True
    then have "min maxCheck (Suc m) = Suc m" "min maxCheck m = m" by simp_all
    then show ?thesis
      unfolding step using True by (simp add: verify_step_def s MakeSubmission_def)
  next
    case False
    then have "min maxCheck (Suc m) = maxCheck" "min maxCheck m = maxCheck" by simp_all
    then show ?thesis
      unfolding step using False by (simp add: verify_step_def)
  qed
qed

lemma VoteProdFromClient_eq:
  assumes "\<forall>i<length clients. publicProd (subs ! i) = PublicProd (clients ! i)"
  shows "VoteProdFromClient clients subs = prod_list (map PublicProd clients)"
proof -
  have "VoteProdFromClient clients subs = prod_list (map (\<lambda>i. publicProd (subs ! i)) [0 ..< length clients])"
    by (simp add: VoteProdFromClient_def fold_mult_prod_list)
  also have "map (\<lambda>i. publicProd (subs ! i)) [0 ..< length clients]
             = map (\<lambda>i. PublicProd (clients ! i)) [0 ..< length clients]"
    using assms by simp
  also have "\<dots> = map PublicProd (map (\<lambda>i. clients ! i) [0 ..< length clients])"
    by (simp add: comp_def)
  also have "\<dots> = map PublicProd clients"
    by (simp only: map_nth)
  finally show ?thesis .
qed

section \<open>Facts about the check of the voting round\<close>

lemma ClientState_Init_props:
  assumes "ClientState_Init C d pick rnd salt mimc = Some c"
  shows "length (PairFirst c) = C * (C - 1) div 2"
    and "length (PairSecond c) = C * (C - 1) div 2"
    and "PrivateX c = ProcessPairs C (PairFirst c) (PairSecond c)"
    and "PrivateMask c = MaskOf (PrivateY c)"
    and "PrivateY c = map rnd [0 ..< d]"
    and "mset (SortedCandidate c) = mset (map (\<lambda>i. NewElement (of_nat i)) [0 ..< C])"
proof -
  let ?s = "rand_Shuffle pick C swap (map (\<lambda>i. NewElement (of_nat i) :: fr) [0 ..< C])"
  have sh: "length ?s = C \<and> mset ?s = mset (map (\<lambda>i. NewElement (of_nat i) :: fr) [0 ..< C])"
    using rand_Shuffle_swap[of pick "map (\<lambda>i. NewElement (of_nat i) :: fr) [0 ..< C]"] by simp
  then have ip: "InitPairs C ?s = Some (concat (map (rowFirst C ?s) [0 ..< C]),
                               concat (map (rowSecond C ?s) [0 ..< C]), C * (C - 1) div 2)"
    by (intro InitPairs_eq) simp
  have c: "c = \<lparr>SortedCandidate = ?s, PairFirst = concat (map (rowFirst C ?s) [0 ..< C]),
                PairSecond = concat (map (rowSecond C ?s) [0 ..< C]),
                PrivateX = ProcessPairs C (concat (map (rowFirst C ?s) [0 ..< C]))
                             (concat (map (rowSecond C ?s) [0 ..< C])),
                PrivateY = map rnd [0 ..< d],
                PublicCom = mimc (ProcessPairs C (concat (map (rowFirst C ?s) [0 ..< C]))
                             (concat (map (rowSecond C ?s) [0 ..< C]))
                                  @ [MaskOf (map rnd [0 ..< d]), salt]),
                PrivateMask = MaskOf (map rnd [0 ..< d]), PrivateSalt = salt,
                PublicProd = 0, PublicR = 0\<rparr>"
    using assms unfolding ClientState_Init_def Let_def ip by simp
  show "length (PairFirst c) = C * (C - 1) div 2" "length (PairSecond c) = C * (C - 1) div 2"
    by (simp_all add: c length_rows base_total)
  show "PrivateX c = ProcessPairs C (PairFirst c) (PairSecond c)"
    "PrivateMask c = MaskOf (PrivateY c)" "PrivateY c = map rnd [0 ..< d]"
    by (simp_all add: c)
  show "mset (SortedCandidate c) = mset (map (\<lambda>i. NewElement (of_nat i)) [0 ..< C])"
    using sh by (simp add: c)
qed

lemma pairs_count_pos: "2 \<le> C \<Longrightarrow> 0 < C * (C - 1) div (2::nat)"
proof -
  assume "2 \<le> C"
  then obtain e where C: "C = Suc (Suc e)" by (metis add_2_eq_Suc le_Suc_ex)
  have "2 \<le> C * (C - 1)" unfolding C by simp
  then show ?thesis by simp
qed

lemma zip_concat:
  assumes "\<forall>c\<in>set cs. length (f c) = length (g c)"
  shows "zip (concat (map f cs)) (concat (map g cs)) = concat (map (\<lambda>c. zip (f c) (g c)) cs)"
  using assms by (induction cs) simp_all

lemma ProcessPairs_concat:
  assumes "\<forall>c\<in>set cs. length (f c) = length (g c)"
  shows "ProcessPairs C (concat (map f cs)) (concat (map g cs))
         = concat (map (\<lambda>c. ProcessPairs C (f c) (g c)) cs)"
  unfolding ProcessPairs_def zip_concat[OF assms] by (simp add: map_concat comp_def)

lemma ProcessPairs_mset:
  assumes "mset (zip a b) = mset (zip a' b')"
  shows "mset (ProcessPairs C a b) = mset (ProcessPairs C a' b')"
proof -
  let ?g = "\<lambda>(p, q). NewElement (of_nat C) * p + q"
  have "image_mset ?g (mset (zip a b)) = image_mset ?g (mset (zip a' b'))"
    by (simp only: assms)
  then show ?thesis by (simp add: ProcessPairs_def)
qed


lemma GenAssignment_fst:
  assumes "PrivateX c \<noteq> []"
  shows "\<exists>a. GenAssignment r c
              = Some (c\<lparr>PublicProd := prod_list (map (\<lambda>x. x + r) (PrivateX c)) * PrivateMask c\<rparr>, a)"
  using assms by (simp add: GenAssignment_def ComputePolyEval_def PolyEval_eq)

lemma GenAssignment_those:
  assumes "\<forall>c\<in>set clients. PrivateX c \<noteq> []"
  shows "\<exists>assigned. those (map (GenAssignment r) clients) = Some assigned
           \<and> length assigned = length clients
           \<and> map (PublicProd \<circ> fst) assigned
               = map (\<lambda>c. prod_list (map (\<lambda>x. x + r) (PrivateX c)) * PrivateMask c) clients"
proof -
  have "those (map (GenAssignment r) clients) = Some (map (\<lambda>c. the (GenAssignment r c)) clients)"
  proof (rule those_map_Some)
    fix c assume "c \<in> set clients"
    then have "PrivateX c \<noteq> []" using assms by blast
    from GenAssignment_fst[OF this, of r] show "GenAssignment r c = Some (the (GenAssignment r c))"
      by auto
  qed
  moreover have "map (PublicProd \<circ> fst) (map (\<lambda>c. the (GenAssignment r c)) clients)
        = map (\<lambda>c. prod_list (map (\<lambda>x. x + r) (PrivateX c)) * PrivateMask c) clients"
  proof -
    have "PublicProd (fst (the (GenAssignment r c)))
          = prod_list (map (\<lambda>x. x + r) (PrivateX c)) * PrivateMask c" if "c \<in> set clients" for c
    proof -
      have "PrivateX c \<noteq> []" using assms that by blast
      from GenAssignment_fst[OF this, of r] show ?thesis by auto
    qed
    then show ?thesis by simp
  qed
  ultimately show ?thesis by simp
qed

lemma VoteProdFromClient_MakeSubmissions:
  assumes "MakeSubmissions maxCheck GenProof clients allAssignment = Some subs"
  shows "VoteProdFromClient clients subs = prod_list (map PublicProd clients)"
proof (rule VoteProdFromClient_eq, intro allI impI)
  fix i assume "i < length clients"
  then have "subs ! i = MakeSubmission maxCheck GenProof clients allAssignment i"
    using assms by (rule nth_MakeSubmissions(1)[rotated])
  then show "publicProd (subs ! i) = PublicProd (clients ! i)"
    by (simp add: MakeSubmission_def)
qed

lemma prod_list_map_pair:
  fixes F :: "'b \<Rightarrow> 'a::comm_ring_1"
  shows "prod_list (map (\<lambda>c. F (f c) * G (g c)) cs)
         = prod_list (map F (map f cs)) * prod_list (map G (map g cs))"
  by (induction cs) (simp_all add: mult_ac)

lemma vote_honest_products:
  assumes C: "2 \<le> C" and cs: "clients \<noteq> []"
    and init: "\<forall>c\<in>set clients. \<exists>pick rnd salt. ClientState_Init C d pick rnd salt mimc = Some c"
    and ln: "length spf = length sps"
    and sp: "mset (zip spf sps)
             = mset (zip (concat (map PairFirst clients)) (concat (map PairSecond clients)))"
    and sd: "mset allDummies = mset (concat (map PrivateY clients))"
  shows "\<exists>assigned subs.
          those (map (GenAssignment r) clients) = Some assigned
          \<and> MakeSubmissions maxCheck GenProof (map fst assigned) (map snd assigned) = Some subs
          \<and> length subs = length clients
          \<and> (\<forall>i<length clients. publicProd (subs ! i)
                = prod_list (map (\<lambda>x. x + r) (PrivateX (clients ! i))) * prod_list (PrivateY (clients ! i)))
          \<and> VoteProdFromClient (map fst assigned) subs = prod_list (map publicProd subs)
          \<and> ProdFromShuffler (ProcessPairs C spf sps) allDummies r
              = Some (prod_list (map (\<lambda>x. x + r) (ProcessPairs C spf sps)) * prod_list allDummies)
          \<and> prod_list (map (\<lambda>x. x + r) (ProcessPairs C spf sps)) * prod_list allDummies
              = prod_list (map publicProd subs)
          \<and> (\<forall>p. VoteServerCheck C spf sps allDummies r p
                = Some (prod_list (map (\<lambda>x. x + r) (ProcessPairs C spf sps)) * prod_list allDummies = p))
          \<and> (\<forall>f s m. f \<noteq> [] \<and> length f \<le> length s
                \<longrightarrow> VoteGroth16_check C maxCheck GenProof clients f s m r
                    = Some (prod_list (map (\<lambda>x. x + r) (ProcessPairs C f s)) * prod_list m
                            = prod_list (map publicProd subs)))
          \<and> VoteGroth16_check C maxCheck GenProof clients spf sps allDummies r = Some True"
proof -
  let ?P = "prod_list (map (\<lambda>x. x + r) (ProcessPairs C spf sps)) * prod_list allDummies"
  have props: "length (PairFirst c) = length (PairSecond c)"
      "PrivateX c = ProcessPairs C (PairFirst c) (PairSecond c)"
      "PrivateMask c = prod_list (PrivateY c)" "PrivateX c \<noteq> []" if cin: "c \<in> set clients" for c
  proof -
    obtain pick rnd salt where i: "ClientState_Init C d pick rnd salt mimc = Some c"
      using init cin by blast
    show "length (PairFirst c) = length (PairSecond c)"
      "PrivateX c = ProcessPairs C (PairFirst c) (PairSecond c)"
      "PrivateMask c = prod_list (PrivateY c)"
      using ClientState_Init_props[OF i] by (simp_all add: MaskOf_eq)
    have "length (PrivateX c) = C * (C - 1) div 2"
      using ClientState_Init_props[OF i] by (simp add: ProcessPairs_def)
    then show "PrivateX c \<noteq> []" using pairs_count_pos[OF C] by auto
  qed
  obtain assigned where a: "those (map (GenAssignment r) clients) = Some assigned"
      "length assigned = length clients"
      "map (PublicProd \<circ> fst) assigned
         = map (\<lambda>c. prod_list (map (\<lambda>x. x + r) (PrivateX c)) * PrivateMask c) clients"
    using GenAssignment_those[of clients r] props(4) by blast
  obtain subs where s: "MakeSubmissions maxCheck GenProof (map fst assigned) (map snd assigned) = Some subs"
    by (simp add: MakeSubmissions_def)
  have ls: "length subs = length clients"
    using s a(2) by (auto simp: MakeSubmissions_def split: if_splits)
  have pp: "publicProd (subs ! i)
      = prod_list (map (\<lambda>x. x + r) (PrivateX (clients ! i))) * prod_list (PrivateY (clients ! i))"
    if i: "i < length clients" for i
  proof -
    have i': "i < length (map fst assigned)" using i a(2) by simp
    have "subs ! i = MakeSubmission maxCheck GenProof (map fst assigned) (map snd assigned) i"
      using s i' by (rule nth_MakeSubmissions(1))
    then have "publicProd (subs ! i) = (PublicProd \<circ> fst) (assigned ! i)"
      using i a(2) by (simp add: MakeSubmission_def)
    also have "\<dots> = map (PublicProd \<circ> fst) assigned ! i" using i a(2) by simp
    also have "\<dots> = prod_list (map (\<lambda>x. x + r) (PrivateX (clients ! i))) * PrivateMask (clients ! i)"
      unfolding a(3) using i by simp
    also have "PrivateMask (clients ! i) = prod_list (PrivateY (clients ! i))"
      using props(3)[of "clients ! i"] i by simp
    finally show ?thesis .
  qed
  have vp: "VoteProdFromClient (map fst assigned) subs = prod_list (map PublicProd (map fst assigned))"
    using s by (rule VoteProdFromClient_MakeSubmissions)
  have "map publicProd subs = map PublicProd (map fst assigned)"
  proof (rule nth_equalityI)
    show "length (map publicProd subs) = length (map PublicProd (map fst assigned))"
      using ls a(2) by simp
    fix i assume "i < length (map publicProd subs)"
    then have i: "i < length clients" using ls by simp
    then have i': "i < length (map fst assigned)" using a(2) by simp
    have "subs ! i = MakeSubmission maxCheck GenProof (map fst assigned) (map snd assigned) i"
      using s i' by (rule nth_MakeSubmissions(1))
    then show "map publicProd subs ! i = map PublicProd (map fst assigned) ! i"
      using i ls a(2) by (simp add: MakeSubmission_def)
  qed
  then have vq: "VoteProdFromClient (map fst assigned) subs = prod_list (map publicProd subs)"
    using vp by simp
  have "prod_list (map PublicProd (map fst assigned))
      = prod_list (map (\<lambda>c. prod_list (map (\<lambda>x. x + r) (PrivateX c)) * PrivateMask c) clients)"
    using a(3) by simp
  also have "\<dots> = prod_list (map (\<lambda>c. prod_list (map (\<lambda>x. x + r) (PrivateX c)) * prod_list (PrivateY c)) clients)"
    using props(3) by (intro arg_cong[where f = prod_list] map_cong) simp_all
  also have "\<dots> = prod_list (map (\<lambda>x. x + r) (concat (map PrivateX clients)))
                    * prod_list (concat (map PrivateY clients))"
    using prod_list_map_pair[of "\<lambda>v. prod_list (map (\<lambda>x. x + r) v)" PrivateX prod_list PrivateY clients]
      prod_list_concat_map[of "\<lambda>x. x + r" "map PrivateX clients"]
      prod_list_concat_map[of "\<lambda>x. x" "map PrivateY clients"]
    by (simp add: comp_def)
  finally have client: "VoteProdFromClient (map fst assigned) subs
      = prod_list (map (\<lambda>x. x + r) (concat (map PrivateX clients)))
        * prod_list (concat (map PrivateY clients))"
    using vp by simp
  have "concat (map PrivateX clients) = concat (map (\<lambda>c. ProcessPairs C (PairFirst c) (PairSecond c)) clients)"
    using props(2) by (intro arg_cong[where f = concat] map_cong) simp_all
  also have "\<dots> = ProcessPairs C (concat (map PairFirst clients)) (concat (map PairSecond clients))"
    using props(1) by (intro ProcessPairs_concat[symmetric]) blast
  finally have X: "mset (ProcessPairs C spf sps) = mset (concat (map PrivateX clients))"
    using ProcessPairs_mset[OF sp, of C] by simp
  have "concat (map PrivateX clients) \<noteq> []"
    using cs props(4) by (cases clients) auto
  then have ne: "ProcessPairs C spf sps \<noteq> []" using X by (metis mset_zero_iff)
  have p1: "prod_list (map (\<lambda>x. x + r) (ProcessPairs C spf sps))
            = prod_list (map (\<lambda>x. x + r) (concat (map PrivateX clients)))"
    using X by (rule prod_list_map_mset)
  have p2: "prod_list allDummies = prod_list (concat (map PrivateY clients))"
    using prod_list_map_mset[OF sd, of "\<lambda>x. x"] by simp
  have sh: "ProdFromShuffler (ProcessPairs C spf sps) allDummies r = Some ?P"
    using ne by (simp add: ProdFromShuffler_eq)
  have eq: "?P = prod_list (map publicProd subs)"
    using client vq p1 p2 by simp
  have sc: "VoteServerCheck C spf sps allDummies r p = Some (?P = p)" for p
    using ln by (simp add: VoteServerCheck_def sh)
  have "VoteGroth16_check C maxCheck GenProof clients spf sps allDummies r
        = Some (?P = VoteProdFromClient (map fst assigned) subs)"
    by (simp add: VoteGroth16_check_def a(1) s sc)
  then have ck: "VoteGroth16_check C maxCheck GenProof clients spf sps allDummies r = Some True"
    using eq vq by simp
  have gen: "VoteGroth16_check C maxCheck GenProof clients f s' m r
        = Some (prod_list (map (\<lambda>x. x + r) (ProcessPairs C f s')) * prod_list m
                = prod_list (map publicProd subs))"
    if fs: "f \<noteq> [] \<and> length f \<le> length s'" for f s' :: "fr list" and m
  proof -
    have "zip f s' \<noteq> []" using fs by (cases f; cases s') auto
    then have "ProcessPairs C f s' \<noteq> []" by (simp add: ProcessPairs_def)
    then show ?thesis
      using fs by (simp add: VoteGroth16_check_def a(1) s VoteServerCheck_def ProdFromShuffler_eq vq)
  qed
  then have gen': "\<forall>f s m. f \<noteq> [] \<and> length f \<le> length s
                \<longrightarrow> VoteGroth16_check C maxCheck GenProof clients f s m r
                    = Some (prod_list (map (\<lambda>x. x + r) (ProcessPairs C f s)) * prod_list m
                            = prod_list (map publicProd subs))"
    by blast
  show ?thesis
    using a(1) s ls pp vq sh eq sc gen' ck by blast
qed

lemma sum_honest_products:
  fixes r :: "'a::comm_ring_1"
  assumes len: "length vals = length dms"
    and ne: "vals \<noteq> []" and nev: "\<forall>v\<in>set vals. v \<noteq> []"
    and sv: "mset allSecretVal = mset (concat vals)"
    and sm: "mset allMask = mset (concat dms)"
  shows "\<exists>publicProds.
          ClientPublicProds vals dms r = Some publicProds
          \<and> length publicProds = length vals
          \<and> (\<forall>i<length vals. publicProds ! i
                = prod_list (map (\<lambda>x. x + r) (vals ! i)) * prod_list (dms ! i))
          \<and> ProdFromClients publicProds = prod_list publicProds
          \<and> ProdFromShuffler allSecretVal allMask r
              = Some (prod_list (map (\<lambda>x. x + r) allSecretVal) * prod_list allMask)
          \<and> prod_list (map (\<lambda>x. x + r) allSecretVal) * prod_list allMask = prod_list publicProds
          \<and> (\<forall>pp. ServerCheck allSecretVal allMask r pp
                = Some (prod_list (map (\<lambda>x. x + r) allSecretVal) * prod_list allMask = prod_list pp))
          \<and> (\<forall>s m. s \<noteq> []
                \<longrightarrow> ShuffleZK_check vals dms s m r
                    = Some (prod_list (map (\<lambda>x. x + r) s) * prod_list m = prod_list publicProds))
          \<and> ShuffleZK_check vals dms allSecretVal allMask r = Some True"
proof -
  let ?pp = "map (\<lambda>(v, d). prod_list (map (\<lambda>x. x + r) v) * prod_list d) (zip vals dms)"
  let ?P = "prod_list (map (\<lambda>x. x + r) allSecretVal) * prod_list allMask"
  have "concat vals \<noteq> []" using ne nev by (cases vals) auto
  then have out: "allSecretVal \<noteq> []" using sv by (metis mset_zero_iff)
  have 1: "ClientPublicProds vals dms r = Some ?pp" using nev by (rule ClientPublicProds_eq)
  have 2: "length ?pp = length vals" using len by simp
  have 3: "\<forall>i<length vals. ?pp ! i = prod_list (map (\<lambda>x. x + r) (vals ! i)) * prod_list (dms ! i)"
    using len by simp
  have 4: "ProdFromClients ?pp = prod_list ?pp" by (rule ProdFromClients_eq)
  have 5: "ProdFromShuffler allSecretVal allMask r = Some ?P"
    using out by (simp add: ProdFromShuffler_eq)
  have p1: "prod_list (map (\<lambda>x. x + r) allSecretVal) = prod_list (map (\<lambda>x. x + r) (concat vals))"
    using sv by (rule prod_list_map_mset)
  have p2: "prod_list allMask = prod_list (concat dms)"
    using prod_list_map_mset[OF sm, of "\<lambda>x. x"] by simp
  have 6: "?P = prod_list ?pp"
    unfolding p1 p2 by (rule honest_products[OF len, symmetric])
  have 7: "\<forall>pp. ServerCheck allSecretVal allMask r pp = Some (?P = prod_list pp)"
    by (simp add: ServerCheck_def 5 ProdFromClients_eq)
  have 8: "ShuffleZK_check vals dms allSecretVal allMask r = Some True"
    using 6 by (simp add: ShuffleZK_check_def 1 7)
  have 9: "\<forall>s m. s \<noteq> []
                \<longrightarrow> ShuffleZK_check vals dms s m r
                    = Some (prod_list (map (\<lambda>x. x + r) s) * prod_list m = prod_list ?pp)"
    by (simp add: ShuffleZK_check_def 1 ServerCheck_def ProdFromShuffler_eq ProdFromClients_eq)
  show ?thesis
    using 1 2 3 4 5 6 7 9 8 by blast
qed


lemma zip_swap:
  assumes "i < length a" "j < length a" "length a = length b"
  shows "zip (swap i j a) (swap i j b) = swap i j (zip a b)"
  using assms by (simp add: swap_def zip_update[symmetric])

lemma rand_Shuffle_swap2_aux:
  assumes "\<forall>i\<in>set is. i < length a" "length a = length b"
  shows "fold (\<lambda>i. swap2 i (pick i mod (i + 1))) is (a, b)
         = (fold (\<lambda>i. swap i (pick i mod (i + 1))) is a, fold (\<lambda>i. swap i (pick i mod (i + 1))) is b)
       \<and> zip (fold (\<lambda>i. swap i (pick i mod (i + 1))) is a) (fold (\<lambda>i. swap i (pick i mod (i + 1))) is b)
         = fold (\<lambda>i. swap i (pick i mod (i + 1))) is (zip a b)"
  using assms
proof (induction "is" arbitrary: a b)
  case Nil
  show ?case by simp
next
  case (Cons i "is")
  have i: "i < length a" using Cons.prems by simp
  have j: "pick i mod (i + 1) < length a" using i by (rule pick_mod_less)
  have 1: "\<forall>i'\<in>set is. i' < length (swap i (pick i mod (i + 1)) a)"
    using Cons.prems by simp
  have 2: "length (swap i (pick i mod (i + 1)) a) = length (swap i (pick i mod (i + 1)) b)"
    using Cons.prems by simp
  show ?case
    using Cons.IH[OF 1 2] zip_swap[OF i j Cons.prems(2)] by (simp add: swap2_def)
qed

lemma rand_Shuffle_swap2:
  assumes "length a = length b"
  shows "rand_Shuffle pick (length a) swap2 (a, b)
         = (rand_Shuffle pick (length a) swap a, rand_Shuffle pick (length a) swap b)"
    and "mset (zip (rand_Shuffle pick (length a) swap a) (rand_Shuffle pick (length a) swap b))
         = mset (zip a b)"
proof -
  have r: "\<forall>i\<in>set (rev [1 ..< length a]). i < length a" by simp
  show "rand_Shuffle pick (length a) swap2 (a, b)
         = (rand_Shuffle pick (length a) swap a, rand_Shuffle pick (length a) swap b)"
    unfolding rand_Shuffle_def using rand_Shuffle_swap2_aux[OF r assms] by blast
  have "zip (rand_Shuffle pick (length a) swap a) (rand_Shuffle pick (length a) swap b)
        = rand_Shuffle pick (length (zip a b)) swap (zip a b)"
    unfolding rand_Shuffle_def using rand_Shuffle_swap2_aux[OF r assms] assms by simp
  then show "mset (zip (rand_Shuffle pick (length a) swap a) (rand_Shuffle pick (length a) swap b))
         = mset (zip a b)"
    using rand_Shuffle_swap[of pick "zip a b"] by simp
qed

lemma Init_ex1: "ClientState_Init 2 1 (\<lambda>i. 0) (\<lambda>j. 3) 9 (\<lambda>xs. 0)
   = Some \<lparr>SortedCandidate = [1, 0], PairFirst = [1], PairSecond = [0], PrivateX = [2],
           PrivateY = [3], PublicCom = 0, PrivateMask = 3, PrivateSalt = 9, PublicProd = 0,
           PublicR = 0\<rparr>"
proof -
  have s: "rand_Shuffle (\<lambda>i. 0) 2 swap (map (\<lambda>i. NewElement (of_nat i)) [0 ..< 2]) = [1, 0 :: fr]"
    by (simp add: rand_Shuffle_def swap_def upt_small NewElement_def)
  have "InitPairs 2 [1, 0 :: fr]
        = Some (concat (map (rowFirst 2 [1, 0]) [0 ..< 2]),
                concat (map (rowSecond 2 [1, 0]) [0 ..< 2]), 2 * (2 - 1) div 2)"
    by (rule InitPairs_eq) simp
  then have p: "InitPairs 2 [1, 0 :: fr] = Some ([1], [0], 1)"
    by (simp add: rowFirst_def rowSecond_def upt_small)
  show ?thesis
    unfolding ClientState_Init_def s Let_def p
    by (simp add: ProcessPairs_def MaskOf_def NewElement_def)
qed


lemma Init_ex2: "ClientState_Init 2 1 (\<lambda>i. 1) (\<lambda>j. 5) 8 (\<lambda>xs. 0)
   = Some \<lparr>SortedCandidate = [0, 1], PairFirst = [0], PairSecond = [1], PrivateX = [1],
           PrivateY = [5], PublicCom = 0, PrivateMask = 5, PrivateSalt = 8, PublicProd = 0,
           PublicR = 0\<rparr>"
proof -
  have s: "rand_Shuffle (\<lambda>i. 1) 2 swap (map (\<lambda>i. NewElement (of_nat i)) [0 ..< 2]) = [0, 1 :: fr]"
    by (simp add: rand_Shuffle_def swap_def upt_small NewElement_def)
  have "InitPairs 2 [0, 1 :: fr]
        = Some (concat (map (rowFirst 2 [0, 1]) [0 ..< 2]),
                concat (map (rowSecond 2 [0, 1]) [0 ..< 2]), 2 * (2 - 1) div 2)"
    by (rule InitPairs_eq) simp
  then have p: "InitPairs 2 [0, 1 :: fr] = Some ([0], [1], 1)"
    by (simp add: rowFirst_def rowSecond_def upt_small)
  show ?thesis
    unfolding ClientState_Init_def s Let_def p
    by (simp add: ProcessPairs_def MaskOf_def NewElement_def)
qed

section \<open>Facts about the circuit of the vote\<close>

text \<open>
  The loop of \<^verbatim>\<open>VoteCircuit.Define\<close> over the pairs, and the outcome of the circuit on
  the assignment of a client that \<^verbatim>\<open>ClientState.Init\<close> produced: all four groups of
  assertions hold.
\<close>

lemma define_row:
  assumes V: "length V = N" and pf: "length (PairFirstVar a) = N" and ps: "length (PairSecondVar a) = N"
    and b: "b0 + w \<le> N" and i: "i + w < length (VoteCircuit.SortedCandidate a)"
  shows "\<exists>V'. fold (define_step C a b0 i) [0 ..< w] (Some (V, ok))
           = Some (V', ok \<and> (\<forall>j<w. PairFirstVar a ! (b0 + j) = VoteCircuit.SortedCandidate a ! i
                              \<and> PairSecondVar a ! (b0 + j) = VoteCircuit.SortedCandidate a ! (i + j + 1)))
         \<and> length V' = N
         \<and> (\<forall>k<N. V' ! k = (if b0 \<le> k \<and> k < b0 + w
                             then Some (PairFirstVar a ! k * of_nat C + PairSecondVar a ! k)
                             else V ! k))"
  using b i
proof (induction w)
  case 0
  show ?case using V by auto
next
  case (Suc w)
  then obtain V' where IH: "fold (define_step C a b0 i) [0 ..< w] (Some (V, ok))
           = Some (V', ok \<and> (\<forall>j<w. PairFirstVar a ! (b0 + j) = VoteCircuit.SortedCandidate a ! i
                              \<and> PairSecondVar a ! (b0 + j) = VoteCircuit.SortedCandidate a ! (i + j + 1)))"
      "length V' = N"
      "\<forall>k<N. V' ! k = (if b0 \<le> k \<and> k < b0 + w
                             then Some (PairFirstVar a ! k * of_nat C + PairSecondVar a ! k)
                             else V ! k)"
    by force
  let ?V = "V'[b0 + w := Some (PairFirstVar a ! (b0 + w) * of_nat C + PairSecondVar a ! (b0 + w))]"
  have r: "b0 + w < N" "i + w + 1 < length (VoteCircuit.SortedCandidate a)"
    "i < length (VoteCircuit.SortedCandidate a)"
    using Suc.prems by simp_all
  have "fold (define_step C a b0 i) [0 ..< Suc w] (Some (V, ok))
        = define_step C a b0 i w (Some (V', ok \<and> (\<forall>j<w. PairFirstVar a ! (b0 + j) = VoteCircuit.SortedCandidate a ! i
                              \<and> PairSecondVar a ! (b0 + j) = VoteCircuit.SortedCandidate a ! (i + j + 1))))"
    by (simp add: IH(1))
  also have "\<dots> = Some (?V, (ok \<and> (\<forall>j<w. PairFirstVar a ! (b0 + j) = VoteCircuit.SortedCandidate a ! i
                              \<and> PairSecondVar a ! (b0 + j) = VoteCircuit.SortedCandidate a ! (i + j + 1)))
                   \<and> PairFirstVar a ! (b0 + w) = VoteCircuit.SortedCandidate a ! i
                   \<and> PairSecondVar a ! (b0 + w) = VoteCircuit.SortedCandidate a ! (i + w + 1))"
    using r pf ps IH(2) by (simp add: define_step_def)
  also have "((ok \<and> (\<forall>j<w. PairFirstVar a ! (b0 + j) = VoteCircuit.SortedCandidate a ! i
                              \<and> PairSecondVar a ! (b0 + j) = VoteCircuit.SortedCandidate a ! (i + j + 1)))
                   \<and> PairFirstVar a ! (b0 + w) = VoteCircuit.SortedCandidate a ! i
                   \<and> PairSecondVar a ! (b0 + w) = VoteCircuit.SortedCandidate a ! (i + w + 1))
        = (ok \<and> (\<forall>j<Suc w. PairFirstVar a ! (b0 + j) = VoteCircuit.SortedCandidate a ! i
                              \<and> PairSecondVar a ! (b0 + j) = VoteCircuit.SortedCandidate a ! (i + j + 1)))"
    by (auto simp: less_Suc_eq)
  finally have 1: "fold (define_step C a b0 i) [0 ..< Suc w] (Some (V, ok))
        = Some (?V, ok \<and> (\<forall>j<Suc w. PairFirstVar a ! (b0 + j) = VoteCircuit.SortedCandidate a ! i
                              \<and> PairSecondVar a ! (b0 + j) = VoteCircuit.SortedCandidate a ! (i + j + 1)))" .
  have 2: "length ?V = N" using IH(2) by simp
  have 3: "\<forall>k<N. ?V ! k = (if b0 \<le> k \<and> k < b0 + Suc w
                             then Some (PairFirstVar a ! k * of_nat C + PairSecondVar a ! k)
                             else V ! k)"
  proof (intro allI impI)
    fix k assume k: "k < N"
    show "?V ! k = (if b0 \<le> k \<and> k < b0 + Suc w
                             then Some (PairFirstVar a ! k * of_nat C + PairSecondVar a ! k)
                             else V ! k)"
    proof (cases "k = b0 + w")
      case True
      then show ?thesis using IH(2) r by simp
    next
      case False
      then have "?V ! k = V' ! k" by simp
      then show ?thesis using IH(3) k False by auto
    qed
  qed
  from 1 2 3 show ?case by blast
qed


lemma define_rows:
  assumes pf: "length (PairFirstVar a) = C * (C - 1) div 2"
    and ps: "length (PairSecondVar a) = C * (C - 1) div 2"
    and sc: "length (VoteCircuit.SortedCandidate a) = C" and m: "m \<le> C"
  shows "\<exists>V. fold (\<lambda>i (b, st). (b + (C - i - 1), fold (define_step C a b i) [0 ..< C - i - 1] st))
               [0 ..< m] (0, Some (replicate (C * (C - 1) div 2) None, True))
             = (base C m, Some (V, \<forall>i<m. \<forall>j<C - i - 1.
                   PairFirstVar a ! (base C i + j) = VoteCircuit.SortedCandidate a ! i
                   \<and> PairSecondVar a ! (base C i + j) = VoteCircuit.SortedCandidate a ! (i + j + 1)))
           \<and> length V = C * (C - 1) div 2
           \<and> (\<forall>k<C * (C - 1) div 2. V ! k = (if k < base C m
                  then Some (PairFirstVar a ! k * of_nat C + PairSecondVar a ! k) else None))"
  using m
proof (induction m)
  case 0
  show ?case by simp
next
  case (Suc m)
  let ?N = "C * (C - 1) div 2"
  let ?ok = "\<lambda>m. \<forall>i<m. \<forall>j<C - i - 1.
                   PairFirstVar a ! (base C i + j) = VoteCircuit.SortedCandidate a ! i
                   \<and> PairSecondVar a ! (base C i + j) = VoteCircuit.SortedCandidate a ! (i + j + 1)"
  have m: "m \<le> C" "m < C" using Suc.prems by simp_all
  from Suc.IH[OF m(1)] obtain V where IH:
    "fold (\<lambda>i (b, st). (b + (C - i - 1), fold (define_step C a b i) [0 ..< C - i - 1] st))
               [0 ..< m] (0, Some (replicate ?N None, True)) = (base C m, Some (V, ?ok m))"
    "length V = ?N"
    "\<forall>k<?N. V ! k = (if k < base C m
                  then Some (PairFirstVar a ! k * of_nat C + PairSecondVar a ! k) else None)"
    by blast
  have b: "base C m + (C - m - 1) \<le> ?N" using m(2) by (rule base_Suc_le_total)
  have i: "m + (C - m - 1) < length (VoteCircuit.SortedCandidate a)" using sc m by simp
  from define_row[OF IH(2) pf ps b i, of C "?ok m"] obtain V' where V':
    "fold (define_step C a (base C m) m) [0 ..< C - m - 1] (Some (V, ?ok m))
       = Some (V', ?ok m \<and> (\<forall>j<C - m - 1.
                   PairFirstVar a ! (base C m + j) = VoteCircuit.SortedCandidate a ! m
                   \<and> PairSecondVar a ! (base C m + j) = VoteCircuit.SortedCandidate a ! (m + j + 1)))"
    "length V' = ?N"
    "\<forall>k<?N. V' ! k = (if base C m \<le> k \<and> k < base C m + (C - m - 1)
                             then Some (PairFirstVar a ! k * of_nat C + PairSecondVar a ! k)
                             else V ! k)"
    by blast
  have okS: "(?ok m \<and> (\<forall>j<C - m - 1.
                   PairFirstVar a ! (base C m + j) = VoteCircuit.SortedCandidate a ! m
                   \<and> PairSecondVar a ! (base C m + j) = VoteCircuit.SortedCandidate a ! (m + j + 1)))
             = ?ok (Suc m)"
    by (auto simp: less_Suc_eq)
  define F where "F = (\<lambda>i (b, st). (b + (C - i - 1), fold (define_step C a b i) [0 ..< C - i - 1] st))"
  have "fold F [0 ..< Suc m] (0, Some (replicate ?N None, True))
        = F m (fold F [0 ..< m] (0, Some (replicate ?N None, True)))"
    by simp
  also have "\<dots> = F m (base C m, Some (V, ?ok m))"
    using IH(1) by (simp only: F_def)
  also have "\<dots> = (base C m + (C - m - 1),
                     fold (define_step C a (base C m) m) [0 ..< C - m - 1] (Some (V, ?ok m)))"
    by (simp only: F_def prod.case)
  also have "\<dots> = (base C (Suc m), Some (V', ?ok (Suc m)))"
    by (simp only: V'(1) okS base_Suc)
  finally have 1: "fold (\<lambda>i (b, st). (b + (C - i - 1), fold (define_step C a b i) [0 ..< C - i - 1] st))
               [0 ..< Suc m] (0, Some (replicate ?N None, True)) = (base C (Suc m), Some (V', ?ok (Suc m)))"
    by (simp only: F_def)
  have 3: "\<forall>k<?N. V' ! k = (if k < base C (Suc m)
                  then Some (PairFirstVar a ! k * of_nat C + PairSecondVar a ! k) else None)"
    using V'(3) IH(3) by (auto simp: base_Suc)
  from 1 V'(2) 3 show ?case by blast
qed

lemma define_pairs_eq:
  assumes pf: "length (PairFirstVar a) = C * (C - 1) div 2"
    and ps: "length (PairSecondVar a) = C * (C - 1) div 2"
    and sc: "length (VoteCircuit.SortedCandidate a) = C"
  shows "define_pairs C a
         = Some (map (\<lambda>k. Some (PairFirstVar a ! k * of_nat C + PairSecondVar a ! k))
                   [0 ..< C * (C - 1) div 2],
                 \<forall>i<C. \<forall>j<C - i - 1.
                   PairFirstVar a ! (base C i + j) = VoteCircuit.SortedCandidate a ! i
                   \<and> PairSecondVar a ! (base C i + j) = VoteCircuit.SortedCandidate a ! (i + j + 1))"
proof -
  let ?N = "C * (C - 1) div 2"
  from define_rows[OF pf ps sc, of C] obtain V where V:
    "fold (\<lambda>i (b, st). (b + (C - i - 1), fold (define_step C a b i) [0 ..< C - i - 1] st))
               [0 ..< C] (0, Some (replicate ?N None, True))
             = (base C C, Some (V, \<forall>i<C. \<forall>j<C - i - 1.
                   PairFirstVar a ! (base C i + j) = VoteCircuit.SortedCandidate a ! i
                   \<and> PairSecondVar a ! (base C i + j) = VoteCircuit.SortedCandidate a ! (i + j + 1)))"
    "length V = ?N"
    "\<forall>k<?N. V ! k = (if k < base C C
                  then Some (PairFirstVar a ! k * of_nat C + PairSecondVar a ! k) else None)"
    by auto
  have "V = map (\<lambda>k. Some (PairFirstVar a ! k * of_nat C + PairSecondVar a ! k)) [0 ..< ?N]"
    using V(2,3) by (intro nth_equalityI) (simp_all add: base_total)
  then show ?thesis using V(1) by (simp add: define_pairs_def pf)
qed


lemma ClientState_Init_pairs:
  assumes "ClientState_Init C d pick rnd salt mimc = Some c"
  shows "InitPairs C (SortedCandidate c) = Some (PairFirst c, PairSecond c, C * (C - 1) div 2)"
    and "length (SortedCandidate c) = C"
    and "PublicCom c = mimc (PrivateX c @ [PrivateMask c, PrivateSalt c])"
proof -
  let ?s = "rand_Shuffle pick C swap (map (\<lambda>i. NewElement (of_nat i) :: fr) [0 ..< C])"
  have sh: "length ?s = C"
    using rand_Shuffle_swap[of pick "map (\<lambda>i. NewElement (of_nat i) :: fr) [0 ..< C]"] by simp
  then have ip: "InitPairs C ?s = Some (concat (map (rowFirst C ?s) [0 ..< C]),
                               concat (map (rowSecond C ?s) [0 ..< C]), C * (C - 1) div 2)"
    by (rule InitPairs_eq)
  have c: "SortedCandidate c = ?s" "PairFirst c = concat (map (rowFirst C ?s) [0 ..< C])"
    "PairSecond c = concat (map (rowSecond C ?s) [0 ..< C])"
    "PublicCom c = mimc (PrivateX c @ [PrivateMask c, PrivateSalt c])"
    using assms unfolding ClientState_Init_def Let_def ip by auto
  show "InitPairs C (SortedCandidate c) = Some (PairFirst c, PairSecond c, C * (C - 1) div 2)"
    unfolding c(1,2,3) by (rule ip)
  show "length (SortedCandidate c) = C" unfolding c(1) by (rule sh)
  show "PublicCom c = mimc (PrivateX c @ [PrivateMask c, PrivateSalt c])" by (rule c(4))
qed

lemma NewElement_of_nat: "n < 2 ^ 64 \<Longrightarrow> NewElement (of_nat n) = of_nat n"
proof -
  assume "n < 2 ^ 64"
  then have "unat (of_nat n :: 64 word) = n" by (simp only: unat_of_nat) simp
  then show ?thesis by (simp only: NewElement_def)
qed

lemma those_Some: "those (map Some xs) = Some xs"
  by (induction xs) simp_all

lemma honest_Vote_Define:
  assumes init: "ClientState_Init C d pick rnd salt mimc = Some c"
    and C: "2 \<le> C" "C < 2 ^ 64"
    and ga: "GenAssignment r c = Some (c', a)"
  shows "Vote_Define C mimc a = Some (True, True, True, True)"
proof -
  let ?N = "C * (C - 1) div 2"
  note P = ClientState_Init_props[OF init] ClientState_Init_pairs[OF init]
  have N: "0 < ?N" using C(1) by (rule pairs_count_pos)
  have X: "PrivateX c \<noteq> []" using P(1,2,3) N by (auto simp: ProcessPairs_def)
  have a: "a = \<lparr>VoteCircuit.SortedCandidate = SortedCandidate c,
                PairFirstVar = PairFirst c, PairSecondVar = PairSecond c,
                PrivateMask = PrivateMask c, PublicR = r,
                PublicProd = prod_list (map (\<lambda>x. x + r) (PrivateX c)) * PrivateMask c,
                PublicCommitment = PublicCom c, PrivateSalt = PrivateSalt c\<rparr>"
    using ga X by (auto simp: GenAssignment_def ComputePolyEval_def PolyEval_eq)
  have lens: "length (PairFirstVar a) = ?N" "length (PairSecondVar a) = ?N"
    "length (VoteCircuit.SortedCandidate a) = C"
    using P by (simp_all add: a)
  \<comment> \<open>the permutation clause\<close>
  have "map (\<lambda>i. NewElement (of_nat i) :: fr) [0 ..< C] = map of_nat [0 ..< C]"
    using C(2) by (intro map_cong) (simp_all add: NewElement_of_nat)
  then have ms: "mset (SortedCandidate c) = mset (map of_nat [0 ..< C] :: fr list)"
    using P(6) by (simp only:)
  have perm: "PolyEval (SortedCandidate c) r = PolyEval (map of_nat [0 ..< C]) r"
    using ms by (rule PolyEval_mset)
  have ne0: "map of_nat [0 ..< C] \<noteq> ([] :: fr list)" using C(1) by simp
  \<comment> \<open>the pair clause\<close>
  have lenS: "length (SortedCandidate c) = C" by (rule P(8))
  have pairs: "PairFirst c = concat (map (rowFirst C (SortedCandidate c)) [0 ..< C])"
      "PairSecond c = concat (map (rowSecond C (SortedCandidate c)) [0 ..< C])"
    using P(7) InitPairs_eq[OF lenS] by simp_all
  have ok: "\<forall>i<C. \<forall>j<C - i - 1.
              PairFirstVar a ! (base C i + j) = VoteCircuit.SortedCandidate a ! i
              \<and> PairSecondVar a ! (base C i + j) = VoteCircuit.SortedCandidate a ! (i + j + 1)"
    using InitPairs_nth[OF lenS] unfolding a pairs[symmetric] by simp
  \<comment> \<open>the packed pairs\<close>
  have cn: "NewElement (of_nat C) = (of_nat C :: fr)" using C(2) by (rule NewElement_of_nat)
  have proc: "map (\<lambda>k. PairFirstVar a ! k * of_nat C + PairSecondVar a ! k) [0 ..< ?N] = PrivateX c"
    using P(1,2) unfolding P(3) ProcessPairs_def cn
    by (intro nth_equalityI) (simp_all add: a mult.commute)
  have dp: "define_pairs C a
         = Some (map Some (map (\<lambda>k. PairFirstVar a ! k * of_nat C + PairSecondVar a ! k) [0 ..< ?N]), True)"
    using define_pairs_eq[OF lens] ok by (simp add: comp_def)
  show ?thesis
    unfolding Vote_Define_def dp proc
    using ne0 X perm
    by (simp add: those_Some PolyEvalInCircuit_eq PolyEval_eq a P(9))
qed

section \<open>Facts about the circuit of the sum variant\<close>

lemma sum_list_SplitSecret:
  assumes "SplitSecret k s rnd = Some sh"
  shows "sh \<noteq> [] \<and> sum_list sh = NewElement s"
proof -
  have k: "0 < k" using assms by (auto simp: SplitSecret_def split: if_splits)
  then show ?thesis using assms by (auto simp: SplitSecret_eq)
qed

lemma AssertIsLessOrEqual_NewElement:
  "AssertIsLessOrEqual (NewElement a) (NewElement b) \<longleftrightarrow> a \<le> b"
  by (simp add: AssertIsLessOrEqual_def fr_val_NewElement word_le_def)

lemma ClientRun_eq:
  assumes "0 < k"
  shows "ClientRun mimc threshold k secretVal rnd dummies salt publicRFr
         = Some (secretVal \<le> threshold, True, True)"
proof -
  obtain sh where sh: "SplitSecret k secretVal rnd = Some sh"
    using assms by (simp add: SplitSecret_eq)
  then have ne: "sh \<noteq> []" and sum: "sum_list sh = NewElement secretVal"
    using sum_list_SplitSecret by blast+
  show ?thesis
    using ne sum
    by (simp add: ClientRun_def sh Let_def GenAssignment_sum_def PublicProdOf_eq
        sumAndCmp_Define_def SumInCircuit_eq PolyEvalInCircuit_eq PolyEval_eq
        AssertIsLessOrEqual_NewElement)
qed

lemma sum_list_concat_const:
  fixes c :: "'a::comm_ring_1"
  assumes "\<forall>v\<in>set vals. sum_list v = c"
  shows "sum_list (concat vals) = of_nat (length vals) * c"
  using assms by (induction vals) (simp_all add: algebra_simps)

lemma sum_list_mset_eq:
  fixes xs :: "'a::comm_ring_1 list"
  shows "mset xs = mset ys \<Longrightarrow> sum_list xs = sum_list ys"
  by (metis sum_mset_sum_list)

text \<open>
  The vectors of \<^verbatim>\<open>TestSumAndCmpCircuit\<close> (example/sum\_cmp\_test.go): the shares
  \<open>1, 2, 3, 4, 5\<close> violate the first assertion under the threshold 10 and satisfy it
  under the threshold 15.
\<close>

lemma sumAndCmp_test_vectors:
  "map_option fst (sumAndCmp_Define mimc
      \<lparr>PrivateVec = [1, 2, 3, 4, 5], PublicThreshold = 10, PrivateMask = m, PublicR = r,
        PublicProd = p, PublicCommitment = c, PrivateSalt = s\<rparr>) = Some False"
  "map_option fst (sumAndCmp_Define mimc
      \<lparr>PrivateVec = [1, 2, 3, 4, 5], PublicThreshold = 15, PrivateMask = m, PublicR = r,
        PublicProd = p, PublicCommitment = c, PrivateSalt = s\<rparr>) = Some True"
  by (simp_all add: sumAndCmp_Define_def AssertIsLessOrEqual_def fr_val_numeral fr_modulus_def)

section \<open>The claims\<close>

subsection \<open>C1: an honest round passes the consistency check\<close>

text \<open>
  C1.  In an honest round the two products the server compares are equal, and its check
  succeeds, for every choice of the clients' values, the dummies and the challenge.

  Threshold sum: the clients hold the share vectors \<open>vals\<close> and the dummy vectors
  \<open>dummies\<close> (one of each per client, at least one client, no share vector empty, as
  the source's constants give them); the shuffler delivers \<open>allSecretVal\<close> and
  \<open>allMask\<close>, the concatenated shares and the concatenated dummies in any order.
  Then no step panics; the public product of client \<open>i\<close> is the fingerprint of its
  shares at the challenge times the product of its dummies; \<^verbatim>\<open>prodFromClients\<close> is the
  product of the public products; \<^verbatim>\<open>prodFromShuffler\<close> is the fingerprint of the
  delivered values at the challenge times the product of the delivered dummies; the two
  are equal; and the server's comparison, which on any list of public products returns
  whether \<^verbatim>\<open>prodFromShuffler\<close> equals their product, returns true.  On any other
  non-empty delivery the round's check returns whether the product over that delivery
  equals the product of the public products.

  Vote: at least two candidates, the clients are results of \<^verbatim>\<open>ClientState.Init\<close>
  (whatever they draw), the shuffler delivers the clients' pairs in any order (both
  slices of the same length, both components moved together) and the dummies in any
  order.  Then no step panics; the public product in the submission of client \<open>i\<close> is
  the fingerprint of its packed pairs times the product of its dummies;
  \<^verbatim>\<open>prodFromClient\<close> is the product of the submitted public products;
  \<^verbatim>\<open>prodFromShuffler\<close> is the fingerprint of the packed delivered pairs times the
  product of the delivered dummies; the two are equal; and the server's comparison,
  which on any value returns whether \<^verbatim>\<open>prodFromShuffler\<close> equals it, returns true.
  On any other non-empty delivery (the second slice not shorter than the first) the
  round's check returns whether the product over that delivery equals the product of
  the submitted public products.

  The shuffles of the source deliver such arrangements: \<^verbatim>\<open>rand.Shuffle\<close> with a swap of
  one slice keeps the multiset of its elements, and with a swap of two slices at once
  it keeps their lengths and the multiset of the pairs.
\<close>

theorem honest_round_check:
  "(length vals = length dummies \<and> vals \<noteq> [] \<and> (\<forall>v\<in>set vals. v \<noteq> [])
      \<and> mset allSecretVal = mset (concat vals) \<and> mset allMask = mset (concat dummies)
    \<longrightarrow> (\<exists>publicProds.
          ClientPublicProds vals dummies publicRFr = Some publicProds
          \<and> length publicProds = length vals
          \<and> (\<forall>i<length vals. publicProds ! i
                = prod_list (map (\<lambda>x. x + publicRFr) (vals ! i)) * prod_list (dummies ! i))
          \<and> ProdFromClients publicProds = prod_list publicProds
          \<and> ProdFromShuffler allSecretVal allMask publicRFr
              = Some (prod_list (map (\<lambda>x. x + publicRFr) allSecretVal) * prod_list allMask)
          \<and> prod_list (map (\<lambda>x. x + publicRFr) allSecretVal) * prod_list allMask
              = prod_list publicProds
          \<and> (\<forall>pp. ServerCheck allSecretVal allMask publicRFr pp
                = Some (prod_list (map (\<lambda>x. x + publicRFr) allSecretVal) * prod_list allMask
                        = prod_list pp))
          \<and> (\<forall>s m. s \<noteq> []
                \<longrightarrow> ShuffleZK_check vals dummies s m publicRFr
                    = Some (prod_list (map (\<lambda>x. x + publicRFr) s) * prod_list m
                            = prod_list publicProds))
          \<and> ShuffleZK_check vals dummies allSecretVal allMask publicRFr = Some True))
   \<and> (2 \<le> C \<and> clients \<noteq> []
      \<and> (\<forall>c\<in>set clients. \<exists>pick rnd salt. ClientState_Init C d pick rnd salt mimc = Some c)
      \<and> length shuffledPairFirst = length shuffledPairSecond
      \<and> mset (zip shuffledPairFirst shuffledPairSecond)
          = mset (zip (concat (map PairFirst clients)) (concat (map PairSecond clients)))
      \<and> mset allDummies = mset (concat (map PrivateY clients))
    \<longrightarrow> (\<exists>assigned allSubmission.
          those (map (GenAssignment publicR) clients) = Some assigned
          \<and> MakeSubmissions maxCheck GenProof (map fst assigned) (map snd assigned)
              = Some allSubmission
          \<and> length allSubmission = length clients
          \<and> (\<forall>i<length clients. publicProd (allSubmission ! i)
                = prod_list (map (\<lambda>x. x + publicR) (PrivateX (clients ! i)))
                  * prod_list (PrivateY (clients ! i)))
          \<and> VoteProdFromClient (map fst assigned) allSubmission
              = prod_list (map publicProd allSubmission)
          \<and> ProdFromShuffler (ProcessPairs C shuffledPairFirst shuffledPairSecond) allDummies publicR
              = Some (prod_list (map (\<lambda>x. x + publicR)
                                  (ProcessPairs C shuffledPairFirst shuffledPairSecond))
                      * prod_list allDummies)
          \<and> prod_list (map (\<lambda>x. x + publicR) (ProcessPairs C shuffledPairFirst shuffledPairSecond))
                * prod_list allDummies
              = prod_list (map publicProd allSubmission)
          \<and> (\<forall>p. VoteServerCheck C shuffledPairFirst shuffledPairSecond allDummies publicR p
                = Some (prod_list (map (\<lambda>x. x + publicR)
                                    (ProcessPairs C shuffledPairFirst shuffledPairSecond))
                        * prod_list allDummies = p))
          \<and> (\<forall>f s m. f \<noteq> [] \<and> length f \<le> length s
                \<longrightarrow> VoteGroth16_check C maxCheck GenProof clients f s m publicR
                    = Some (prod_list (map (\<lambda>x. x + publicR) (ProcessPairs C f s)) * prod_list m
                            = prod_list (map publicProd allSubmission)))
          \<and> VoteGroth16_check C maxCheck GenProof clients shuffledPairFirst shuffledPairSecond
               allDummies publicR = Some True))
   \<and> mset (rand_Shuffle pk (length xs) swap xs) = mset xs
   \<and> (length ys = length zs
    \<longrightarrow> (\<exists>ys' zs'. rand_Shuffle pk' (length ys) swap2 (ys, zs) = (ys', zs')
          \<and> length ys' = length zs' \<and> length ys' = length ys
          \<and> mset (zip ys' zs') = mset (zip ys zs)))"
proof (intro conjI impI)
  assume a: "length vals = length dummies \<and> vals \<noteq> [] \<and> (\<forall>v\<in>set vals. v \<noteq> [])
      \<and> mset allSecretVal = mset (concat vals) \<and> mset allMask = mset (concat dummies)"
  then have "length vals = length dummies" "vals \<noteq> []" "\<forall>v\<in>set vals. v \<noteq> []"
    "mset allSecretVal = mset (concat vals)" "mset allMask = mset (concat dummies)"
    by simp_all
  then show "\<exists>publicProds.
          ClientPublicProds vals dummies publicRFr = Some publicProds
          \<and> length publicProds = length vals
          \<and> (\<forall>i<length vals. publicProds ! i
                = prod_list (map (\<lambda>x. x + publicRFr) (vals ! i)) * prod_list (dummies ! i))
          \<and> ProdFromClients publicProds = prod_list publicProds
          \<and> ProdFromShuffler allSecretVal allMask publicRFr
              = Some (prod_list (map (\<lambda>x. x + publicRFr) allSecretVal) * prod_list allMask)
          \<and> prod_list (map (\<lambda>x. x + publicRFr) allSecretVal) * prod_list allMask
              = prod_list publicProds
          \<and> (\<forall>pp. ServerCheck allSecretVal allMask publicRFr pp
                = Some (prod_list (map (\<lambda>x. x + publicRFr) allSecretVal) * prod_list allMask
                        = prod_list pp))
          \<and> (\<forall>s m. s \<noteq> []
                \<longrightarrow> ShuffleZK_check vals dummies s m publicRFr
                    = Some (prod_list (map (\<lambda>x. x + publicRFr) s) * prod_list m
                            = prod_list publicProds))
          \<and> ShuffleZK_check vals dummies allSecretVal allMask publicRFr = Some True"
    by (rule sum_honest_products)
next
  assume "2 \<le> C \<and> clients \<noteq> []
      \<and> (\<forall>c\<in>set clients. \<exists>pick rnd salt. ClientState_Init C d pick rnd salt mimc = Some c)
      \<and> length shuffledPairFirst = length shuffledPairSecond
      \<and> mset (zip shuffledPairFirst shuffledPairSecond)
          = mset (zip (concat (map PairFirst clients)) (concat (map PairSecond clients)))
      \<and> mset allDummies = mset (concat (map PrivateY clients))"
  then have "2 \<le> C" "clients \<noteq> []"
    "\<forall>c\<in>set clients. \<exists>pick rnd salt. ClientState_Init C d pick rnd salt mimc = Some c"
    "length shuffledPairFirst = length shuffledPairSecond"
    "mset (zip shuffledPairFirst shuffledPairSecond)
          = mset (zip (concat (map PairFirst clients)) (concat (map PairSecond clients)))"
    "mset allDummies = mset (concat (map PrivateY clients))"
    by blast+
  then show "\<exists>assigned allSubmission.
          those (map (GenAssignment publicR) clients) = Some assigned
          \<and> MakeSubmissions maxCheck GenProof (map fst assigned) (map snd assigned)
              = Some allSubmission
          \<and> length allSubmission = length clients
          \<and> (\<forall>i<length clients. publicProd (allSubmission ! i)
                = prod_list (map (\<lambda>x. x + publicR) (PrivateX (clients ! i)))
                  * prod_list (PrivateY (clients ! i)))
          \<and> VoteProdFromClient (map fst assigned) allSubmission
              = prod_list (map publicProd allSubmission)
          \<and> ProdFromShuffler (ProcessPairs C shuffledPairFirst shuffledPairSecond) allDummies publicR
              = Some (prod_list (map (\<lambda>x. x + publicR)
                                  (ProcessPairs C shuffledPairFirst shuffledPairSecond))
                      * prod_list allDummies)
          \<and> prod_list (map (\<lambda>x. x + publicR) (ProcessPairs C shuffledPairFirst shuffledPairSecond))
                * prod_list allDummies
              = prod_list (map publicProd allSubmission)
          \<and> (\<forall>p. VoteServerCheck C shuffledPairFirst shuffledPairSecond allDummies publicR p
                = Some (prod_list (map (\<lambda>x. x + publicR)
                                    (ProcessPairs C shuffledPairFirst shuffledPairSecond))
                        * prod_list allDummies = p))
          \<and> (\<forall>f s m. f \<noteq> [] \<and> length f \<le> length s
                \<longrightarrow> VoteGroth16_check C maxCheck GenProof clients f s m publicR
                    = Some (prod_list (map (\<lambda>x. x + publicR) (ProcessPairs C f s)) * prod_list m
                            = prod_list (map publicProd allSubmission)))
          \<and> VoteGroth16_check C maxCheck GenProof clients shuffledPairFirst shuffledPairSecond
               allDummies publicR = Some True"
    by (rule vote_honest_products)
next
  show "mset (rand_Shuffle pk (length xs) swap xs) = mset xs"
    using rand_Shuffle_swap[of pk xs] by simp
next
  assume l: "length ys = length zs"
  have "rand_Shuffle pk' (length ys) swap2 (ys, zs)
        = (rand_Shuffle pk' (length ys) swap ys, rand_Shuffle pk' (length ys) swap zs)"
    using l by (rule rand_Shuffle_swap2(1))
  moreover have "length (rand_Shuffle pk' (length ys) swap ys) = length ys"
    using rand_Shuffle_swap[of pk' ys] by simp
  moreover have "length (rand_Shuffle pk' (length ys) swap zs) = length zs"
    using rand_Shuffle_swap[of pk' zs] l by simp
  moreover have "mset (zip (rand_Shuffle pk' (length ys) swap ys) (rand_Shuffle pk' (length ys) swap zs))
        = mset (zip ys zs)"
    using l by (rule rand_Shuffle_swap2(2))
  ultimately show "\<exists>ys' zs'. rand_Shuffle pk' (length ys) swap2 (ys, zs) = (ys', zs')
          \<and> length ys' = length zs' \<and> length ys' = length ys
          \<and> mset (zip ys' zs') = mset (zip ys zs)"
    using l by simp
qed


text \<open>
  A sum round of two clients with share vectors \<open>[1, 2]\<close> and \<open>[3]\<close>, dummies
  \<open>[4]\<close> and \<open>[5, 6]\<close>, both sequences shuffled by \<open>rand_Shuffle\<close>, challenge 7: the
  public products are \<open>288\<close> and \<open>300\<close>.  A vote of two clients over two candidates,
  one dummy each, the pairs and the dummies delivered in reverse order.
\<close>

theorem honest_round_check_witness:
  "rand_Shuffle (\<lambda>i. 0) 3 swap (concat [[1, 2], [3 :: fr]]) = [2, 3, 1]
   \<and> rand_Shuffle (\<lambda>i. 1) 3 swap (concat [[4], [5, 6 :: fr]]) = [4, 6, 5]
   \<and> ClientPublicProds [[1, 2], [3 :: fr]] [[4], [5, 6]] 7 = Some [288, 300]
   \<and> ProdFromShuffler [2, 3, 1] [4, 6, 5] (7 :: fr) = Some (ProdFromClients [288, 300])
   \<and> ServerCheck [2, 3, 1] [4, 6, 5] (7 :: fr) [288, 300] = Some True
   \<and> ShuffleZK_check [[1, 2], [3 :: fr]] [[4], [5, 6]] [2, 3, 1] [4, 6, 5] 7 = Some True
   \<and> ClientState_Init 2 1 (\<lambda>i. 0) (\<lambda>j. 3) 9 (\<lambda>xs. 0)
       = Some \<lparr>SortedCandidate = [1, 0], PairFirst = [1], PairSecond = [0], PrivateX = [2],
           PrivateY = [3], PublicCom = 0, PrivateMask = 3, PrivateSalt = 9, PublicProd = 0,
           PublicR = 0\<rparr>
   \<and> ClientState_Init 2 1 (\<lambda>i. 1) (\<lambda>j. 5) 8 (\<lambda>xs. 0)
       = Some \<lparr>SortedCandidate = [0, 1], PairFirst = [0], PairSecond = [1], PrivateX = [1],
           PrivateY = [5], PublicCom = 0, PrivateMask = 5, PrivateSalt = 8, PublicProd = 0,
           PublicR = 0\<rparr>
   \<and> VoteGroth16_check 2 1 (\<lambda>a. (True, False))
        [\<lparr>SortedCandidate = [1, 0], PairFirst = [1], PairSecond = [0], PrivateX = [2],
           PrivateY = [3], PublicCom = 0, PrivateMask = 3, PrivateSalt = 9, PublicProd = 0,
           PublicR = 0\<rparr>,
         \<lparr>SortedCandidate = [0, 1], PairFirst = [0], PairSecond = [1], PrivateX = [1],
           PrivateY = [5], PublicCom = 0, PrivateMask = 5, PrivateSalt = 8, PublicProd = 0,
           PublicR = 0\<rparr>]
        [0, 1] [1, 0] [5, 3] 7 = Some True"
proof -
  let ?c1 = "\<lparr>SortedCandidate = [1, 0], PairFirst = [1], PairSecond = [0], PrivateX = [2],
           PrivateY = [3], PublicCom = 0, PrivateMask = 3, PrivateSalt = 9, PublicProd = 0,
           PublicR = 0\<rparr>"
  let ?c2 = "\<lparr>SortedCandidate = [0, 1], PairFirst = [0], PairSecond = [1], PrivateX = [1],
           PrivateY = [5], PublicCom = 0, PrivateMask = 5, PrivateSalt = 8, PublicProd = 0,
           PublicR = 0\<rparr>"
  note T = honest_round_check[where vals = "[[1, 2], [3 :: fr]]" and dummies = "[[4], [5, 6]]"
      and allSecretVal = "[2, 3, 1]" and allMask = "[4, 6, 5]" and publicRFr = 7
      and C = 2 and clients = "[?c1, ?c2]" and d = 1 and mimc = "\<lambda>xs. 0"
      and shuffledPairFirst = "[0, 1]" and shuffledPairSecond = "[1, 0]"
      and allDummies = "[5, 3]" and maxCheck = 1 and GenProof = "\<lambda>a. (True, False)"
      and publicR = 7]
  have 1: "rand_Shuffle (\<lambda>i. 0) 3 swap (concat [[1, 2], [3 :: fr]]) = [2, 3, 1]"
    by (simp add: rand_Shuffle_def swap_def numeral_3_eq_3)
  have 2: "rand_Shuffle (\<lambda>i. 1) 3 swap (concat [[4], [5, 6 :: fr]]) = [4, 6, 5]"
    by (simp add: rand_Shuffle_def swap_def numeral_3_eq_3)
  have h1: "length [[1, 2], [3 :: fr]] = length [[4], [5, 6 :: fr]] \<and> [[1, 2], [3 :: fr]] \<noteq> []
      \<and> (\<forall>v\<in>set [[1, 2], [3 :: fr]]. v \<noteq> [])
      \<and> mset [2, 3, 1 :: fr] = mset (concat [[1, 2], [3]])
      \<and> mset [4, 6, 5 :: fr] = mset (concat [[4], [5, 6]])"
    by (simp add: add_mset_commute)
  have cp: "ClientPublicProds [[1, 2], [3 :: fr]] [[4], [5, 6]] 7 = Some [288, 300]"
    by (simp add: ClientPublicProds_def PublicProdOf_def MaskOf_def)
  from T[THEN conjunct1] h1
  obtain publicProds where pp: "ClientPublicProds [[1, 2], [3 :: fr]] [[4], [5, 6]] 7 = Some publicProds"
    and pc: "ProdFromClients publicProds = prod_list publicProds"
    and ps: "ProdFromShuffler [2, 3, 1] [4, 6, 5] (7 :: fr)
              = Some (prod_list (map (\<lambda>x. x + 7) [2, 3, 1]) * prod_list [4, 6, 5])"
    and pe: "prod_list (map (\<lambda>x. x + 7) [2, 3, 1 :: fr]) * prod_list [4, 6, 5] = prod_list publicProds"
    and sc: "\<forall>pp. ServerCheck [2, 3, 1] [4, 6, 5] (7 :: fr) pp
                = Some (prod_list (map (\<lambda>x. x + 7) [2, 3, 1]) * prod_list [4, 6, 5] = prod_list pp)"
    and ck: "ShuffleZK_check [[1, 2], [3 :: fr]] [[4], [5, 6]] [2, 3, 1] [4, 6, 5] 7 = Some True"
    by blast
  have e: "publicProds = [288, 300]" using pp cp by simp
  have 3: "ProdFromShuffler [2, 3, 1] [4, 6, 5] (7 :: fr) = Some (ProdFromClients [288, 300])"
    using ps pe pc unfolding e by (simp only:)
  have 4: "ServerCheck [2, 3, 1] [4, 6, 5] (7 :: fr) [288, 300] = Some True"
    using sc[rule_format, of "[288, 300]"] pe unfolding e by (simp only: refl)
  have i1: "ClientState_Init 2 1 (\<lambda>i. 0) (\<lambda>j. 3) 9 (\<lambda>xs. 0) = Some ?c1" by (rule Init_ex1)
  have i2: "ClientState_Init 2 1 (\<lambda>i. 1) (\<lambda>j. 5) 8 (\<lambda>xs. 0) = Some ?c2" by (rule Init_ex2)
  have e1: "\<exists>pick rnd salt. ClientState_Init 2 1 pick rnd salt (\<lambda>xs. 0) = Some ?c1"
    by (intro exI) (rule i1)
  have e2: "\<exists>pick rnd salt. ClientState_Init 2 1 pick rnd salt (\<lambda>xs. 0) = Some ?c2"
    by (intro exI) (rule i2)
  have e12: "\<forall>c\<in>set [?c1, ?c2]. \<exists>pick rnd salt. ClientState_Init 2 1 pick rnd salt (\<lambda>xs. 0) = Some c"
    using e1 e2 by simp
  have m1: "mset (zip [0, 1 :: fr] [1, 0 :: fr])
          = mset (zip (concat (map PairFirst [?c1, ?c2])) (concat (map PairSecond [?c1, ?c2])))"
    by (simp add: add_mset_commute)
  have m2: "mset [5, 3 :: fr] = mset (concat (map PrivateY [?c1, ?c2]))"
    by (simp add: add_mset_commute)
  have h2: "(2::nat) \<le> 2 \<and> [?c1, ?c2] \<noteq> []
      \<and> (\<forall>c\<in>set [?c1, ?c2]. \<exists>pick rnd salt. ClientState_Init 2 1 pick rnd salt (\<lambda>xs. 0) = Some c)
      \<and> length [0, 1 :: fr] = length [1, 0 :: fr]
      \<and> mset (zip [0, 1 :: fr] [1, 0 :: fr])
          = mset (zip (concat (map PairFirst [?c1, ?c2])) (concat (map PairSecond [?c1, ?c2])))
      \<and> mset [5, 3 :: fr] = mset (concat (map PrivateY [?c1, ?c2]))"
    using e12 m1 m2 by (intro conjI) simp_all
  have 5: "VoteGroth16_check 2 1 (\<lambda>a. (True, False)) [?c1, ?c2] [0, 1] [1, 0] [5, 3] 7 = Some True"
    using mp[OF T[THEN conjunct2, THEN conjunct1] h2] by (elim exE conjE)
  from 1 2 cp 3 4 ck i1 i2 5 show ?thesis by (intro conjI)
qed

subsection \<open>C2: the shares sum to the secret\<close>

text \<open>
  C2.  For every secret, every share count \<open>k \<ge> 2\<close> and every choice of the random
  shares, splitting returns \<open>k\<close> shares, shares \<open>1 .. k - 1\<close> are the drawn values, and
  the field sum of all shares is the secret, both as the server adds them up and as the
  circuit does.
\<close>

theorem SplitSecret_sum:
  assumes "2 \<le> k"
  shows "\<exists>sh. SplitSecret k s rnd = Some sh \<and> length sh = k
           \<and> (\<forall>j. 1 \<le> j \<and> j < k \<longrightarrow> sh ! j = rnd j)
           \<and> ServerSum sh = NewElement s
           \<and> SumInCircuit sh = Some (NewElement s)"
proof -
  let ?sh = "(NewElement s - sum_list (map rnd [1 ..< k])) # map rnd [1 ..< k]"
  have "SplitSecret k s rnd = Some ?sh" using assms by (intro SplitSecret_eq) simp
  moreover have "length ?sh = k" using assms by simp
  moreover have "\<forall>j. 1 \<le> j \<and> j < k \<longrightarrow> ?sh ! j = rnd j"
    by (auto simp: nth_Cons')
  moreover have "ServerSum ?sh = NewElement s" by (simp add: ServerSum_eq)
  moreover have "SumInCircuit ?sh = Some (NewElement s)" by (simp add: SumInCircuit_eq)
  ultimately show ?thesis by blast
qed


theorem SplitSecret_sum_witness:
  "(2::nat) \<le> 3 \<and> SplitSecret 3 999 (\<lambda>j. of_nat (j + 4) :: fr) = Some [988, 5, 6]
   \<and> ServerSum [988, 5, 6 :: fr] = NewElement 999"
proof -
  have h: "(2::nat) \<le> 3" by simp
  obtain sh where sh: "SplitSecret 3 999 (\<lambda>j. of_nat (j + 4) :: fr) = Some sh"
      "ServerSum sh = NewElement 999"
    using SplitSecret_sum[OF h, of 999 "\<lambda>j. of_nat (j + 4) :: fr"] by blast
  have "SplitSecret 3 999 (\<lambda>j. of_nat (j + 4) :: fr) = Some [988, 5, 6]"
    by (simp add: SplitSecret_def split_step_def NewElement_def upt_small numeral_3_eq_3)
  with sh h show ?thesis by simp
qed

subsection \<open>C3: the fingerprint does not depend on the order\<close>

text \<open>
  C3.  For every sequence \<open>A\<close>, every permutation \<open>B\<close> of it (a sequence with the same
  elements and multiplicities) and every challenge \<open>r\<close>, \<open>PolyEval\<close> gives the same
  result on both; in particular on the output of \<open>rand_Shuffle\<close>, whatever it draws.
\<close>

theorem PolyEval_permutation:
  "(mset B = mset A \<longrightarrow> PolyEval B r = PolyEval A r)
   \<and> PolyEval (rand_Shuffle pick (length A) swap A) r = PolyEval A r"
  using PolyEval_mset[of B A r] PolyEval_rand_Shuffle[of pick A r] by blast

theorem PolyEval_permutation_witness:
  "mset [3, 1, 2 :: fr] = mset [1, 2, 3]
   \<and> PolyEval [3, 1, 2 :: fr] 5 = Some 336 \<and> PolyEval [1, 2, 3 :: fr] 5 = Some 336"
  using PolyEval_permutation[of "[3, 1, 2 :: fr]" "[1, 2, 3]" 5] by (simp add: add_mset_commute)

subsection \<open>C4: a replaced value is detected at all but few challenges\<close>

text \<open>
  C4, as stated, fails when a dummy value is zero: both products are then zero at every
  challenge and the check passes whatever was replaced.  With one client holding the
  share \<open>1\<close> and the dummy \<open>0\<close>, and the share replaced by \<open>2\<close>, the check passes at
  the challenges \<open>0\<close> and \<open>1\<close>, more than the length \<open>1\<close> of the sequence.
\<close>

theorem tamper_counterexample:
  "\<not> (finite {r::fr. ShuffleZK_check [[1]] [[0]] ([1][0 := 2]) [0] r \<noteq> Some False}
       \<and> card {r::fr. ShuffleZK_check [[1]] [[0]] ([1][0 := 2]) [0] r \<noteq> Some False} \<le> length [1::fr])"
proof
  let ?B = "{r::fr. ShuffleZK_check [[1]] [[0]] ([1][0 := 2]) [0] r \<noteq> Some False}"
  assume a: "finite ?B \<and> card ?B \<le> length [1::fr]"
  have all: "ShuffleZK_check [[1]] [[0]] ([1][0 := 2]) [0] r = Some True" for r :: fr
    by (simp add: ShuffleZK_check_def ClientPublicProds_def PublicProdOf_def MaskOf_def
        ServerCheck_def ProdFromShuffler_def ProdFromClients_def)
  then have in01: "(0::fr) \<in> ?B" "(1::fr) \<in> ?B" by simp_all
  have "finite ?B" "card ?B \<le> Suc 0" using a by simp_all
  then have "\<forall>x\<in>?B. \<forall>y\<in>?B. x = y" by (simp only: card_le_Suc0_iff_eq)
  with in01 have "(0::fr) = 1" by blast
  then show False by simp
qed


text \<open>
  C4, amended.  Let the shuffler's honest output be \<open>allSecretVal\<close> and \<open>allMask\<close>, and
  let one element of \<open>allSecretVal\<close> be replaced by a different value.  At every
  challenge the check returns whether the fingerprint of the delivered values times
  the delivered dummies equals the product of the clients' public products.  If no
  dummy is zero, it returns false at every challenge outside a set of at most
  \<open>length allSecretVal\<close> challenges, out of the \<open>fr_modulus\<close> elements of the field.
  If some dummy is zero, both products are zero and it returns true at every challenge.
  The bound rests on the field having no zero divisors, that is, on \<open>fr_modulus\<close> being
  prime.
\<close>

theorem tamper_detection:
  fixes allSecretVal :: "fr list"
  assumes len: "length vals = length dms"
    and ne: "\<forall>v\<in>set vals. v \<noteq> []"
    and sv: "mset allSecretVal = mset (concat vals)"
    and sm: "mset allMask = mset (concat dms)"
    and i: "i < length allSecretVal" and v: "v \<noteq> allSecretVal ! i"
  shows "(\<forall>r. ShuffleZK_check vals dms (allSecretVal[i := v]) allMask r
              = Some (prod_list (map (\<lambda>x. x + r) (allSecretVal[i := v])) * prod_list allMask
                      = prod_list (map (\<lambda>(v, d). prod_list (map (\<lambda>x. x + r) v) * prod_list d)
                                     (zip vals dms))))
       \<and> (0 \<notin> set allMask \<longrightarrow>
            finite {r. ShuffleZK_check vals dms (allSecretVal[i := v]) allMask r \<noteq> Some False}
            \<and> card {r. ShuffleZK_check vals dms (allSecretVal[i := v]) allMask r \<noteq> Some False}
                \<le> length allSecretVal)
       \<and> (0 \<in> set allMask \<longrightarrow>
            (\<forall>r. ShuffleZK_check vals dms (allSecretVal[i := v]) allMask r = Some True))
       \<and> card (UNIV :: fr set) = nat fr_modulus"
proof (intro conjI impI allI)
  let ?A = allSecretVal
  have ne': "?A[i := v] \<noteq> []" using i by auto
  have ck: "ShuffleZK_check vals dms (?A[i := v]) allMask r
      = Some (prod_list (map (\<lambda>x. x + r) (?A[i := v])) * prod_list allMask
              = prod_list (map (\<lambda>x. x + r) (concat vals)) * prod_list (concat dms))" for r
    by (rule ShuffleZK_check_eq[OF len ne ne'])
  have pm: "prod_list (concat dms) = prod_list allMask"
    using prod_list_map_mset[OF sm, of "\<lambda>x. x"] by simp
  show "ShuffleZK_check vals dms (?A[i := v]) allMask r
      = Some (prod_list (map (\<lambda>x. x + r) (?A[i := v])) * prod_list allMask
              = prod_list (map (\<lambda>(v, d). prod_list (map (\<lambda>x. x + r) v) * prod_list d)
                             (zip vals dms)))" for r
    unfolding ck honest_products[OF len] ..
  show "card (UNIV :: fr set) = nat fr_modulus" by (rule card_fr)
  {
    assume nz: "0 \<notin> set allMask"
    let ?S = "uminus ` set (take i ?A @ drop (Suc i) ?A)"
    let ?B = "{r. ShuffleZK_check vals dms (?A[i := v]) allMask r \<noteq> Some False}"
    have M: "prod_list allMask \<noteq> 0" using nz by (simp add: prod_list_zero_iff)
    have sub: "?B \<subseteq> ?S"
    proof
      fix r assume "r \<in> ?B"
      then have "prod_list (map (\<lambda>x. x + r) (?A[i := v])) * prod_list allMask
                 = prod_list (map (\<lambda>x. x + r) (concat vals)) * prod_list (concat dms)"
        by (simp add: ck)
      also have "prod_list (map (\<lambda>x. x + r) (concat vals)) = prod_list (map (\<lambda>x. x + r) ?A)"
        using sv by (intro prod_list_map_mset) simp
      finally show "r \<in> ?S" using tamper_roots[OF i v M] pm by simp
    qed
    have fin: "finite ?S" by simp
    have "card ?S \<le> card (set (take i ?A @ drop (Suc i) ?A))" by (rule card_image_le) simp
    also have "\<dots> \<le> length (take i ?A @ drop (Suc i) ?A)" by (rule card_length)
    also have "\<dots> \<le> length ?A" by simp
    finally have "card ?S \<le> length ?A" .
    moreover have "card ?B \<le> card ?S" using sub fin by (rule card_mono[rotated])
    ultimately show "card ?B \<le> length ?A" by simp
    show "finite ?B" using sub fin by (rule finite_subset)
  }
  {
    fix r
    assume z: "0 \<in> set allMask"
    then have "prod_list allMask = 0" by (simp add: prod_list_zero_iff)
    then show "ShuffleZK_check vals dms (?A[i := v]) allMask r = Some True"
      by (simp add: ck pm)
  }
qed


text \<open>
  Shares \<open>[1, 2]\<close>, shuffled to \<open>[2, 1]\<close>, the first delivered value replaced by \<open>5\<close>:
  with the dummy \<open>3\<close> the check passes at two challenges at most, with the dummy \<open>0\<close>
  it passes at every challenge.
\<close>

theorem tamper_witness:
  "finite {r :: fr. ShuffleZK_check [[1, 2]] [[3]] ([2, 1][0 := 5]) [3] r \<noteq> Some False}
   \<and> card {r :: fr. ShuffleZK_check [[1, 2]] [[3]] ([2, 1][0 := 5]) [3] r \<noteq> Some False}
       \<le> length [2, 1 :: fr]
   \<and> (\<forall>r :: fr. ShuffleZK_check [[1, 2]] [[0]] ([2, 1][0 := 5]) [0] r = Some True)"
proof -
  have n52: "(5 :: fr) \<noteq> [2, 1] ! 0"
    by (simp add: fr_numeral_eq_iff fr_modulus_def)
  have n03: "(0 :: fr) \<notin> set [3]"
    using fr_val_numeral[of "num.Bit1 num.One"] fr_val_inject[of 0 3]
    by (auto simp: fr_modulus_def)
  have z00: "(0 :: fr) \<in> set [0]" by simp
  have h: "length [[1, 2 :: fr]] = length [[3 :: fr]]" "\<forall>v\<in>set [[1, 2 :: fr]]. v \<noteq> []"
    "mset [2, 1 :: fr] = mset (concat [[1, 2]])" "mset [3 :: fr] = mset (concat [[3]])"
    "0 < length [2, 1 :: fr]"
    "length [[1, 2 :: fr]] = length [[0 :: fr]]" "mset [0 :: fr] = mset (concat [[0]])"
    by (simp_all add: add_mset_commute)
  note T1 = tamper_detection[OF h(1) h(2) h(3) h(4) h(5) n52]
  note T2 = tamper_detection[OF h(6) h(2) h(3) h(7) h(5) n52]
  have a: "finite {r :: fr. ShuffleZK_check [[1, 2]] [[3]] ([2, 1][0 := 5]) [3] r \<noteq> Some False}
      \<and> card {r :: fr. ShuffleZK_check [[1, 2]] [[3]] ([2, 1][0 := 5]) [3] r \<noteq> Some False}
          \<le> length [2, 1 :: fr]"
    by (rule mp[OF T1[THEN conjunct2, THEN conjunct1] n03])
  have b: "\<forall>r :: fr. ShuffleZK_check [[1, 2]] [[0]] ([2, 1][0 := 5]) [0] r = Some True"
    by (rule mp[OF T2[THEN conjunct2, THEN conjunct2, THEN conjunct1] z00])
  from a b show ?thesis by (intro conjI) (elim conjE, assumption)+
qed


subsection \<open>C5: the sole winner\<close>






subsection \<open>C6: the pair list of a ranking\<close>

text \<open>
  C6.  For every ranking that is a permutation of the candidates \<open>0 .. C - 1\<close>, the
  pair loop of the client does not panic and fills exactly \<open>C * (C - 1) / 2\<close> entries;
  the entry at position \<open>base C i + j\<close> is \<open>(ranking[i], ranking[i+j+1])\<close>.  For
  \<open>C = 4\<close> and the ranking \<open>[1, 0, 2, 3]\<close> the pairs are
  \<open>(1,0), (1,2), (1,3), (0,2), (0,3), (2,3)\<close>.
\<close>

theorem InitPairs_pair_list:
  fixes ranking :: "fr list"
  shows "(mset ranking = mset (map (\<lambda>i. NewElement (of_nat i)) [0 ..< C]) \<longrightarrow>
          (\<exists>pairFirst pairSecond.
             InitPairs C ranking = Some (pairFirst, pairSecond, C * (C - 1) div 2)
             \<and> length pairFirst = C * (C - 1) div 2 \<and> length pairSecond = C * (C - 1) div 2
             \<and> (\<forall>i j. i < C \<and> j < C - i - 1 \<longrightarrow>
                    pairFirst ! (base C i + j) = ranking ! i
                    \<and> pairSecond ! (base C i + j) = ranking ! (i + j + 1))))
       \<and> InitPairs 4 [1, 0, 2, 3 :: fr] = Some ([1, 1, 1, 0, 0, 2], [0, 2, 3, 2, 3, 3], 6)"
proof (intro conjI impI)
  assume "mset ranking = mset (map (\<lambda>i. NewElement (of_nat i)) [0 ..< C])"
  then have "length ranking = length (map (\<lambda>i. NewElement (of_nat i) :: fr) [0 ..< C])"
    by (rule mset_eq_length)
  then have len: "length ranking = C" by simp
  let ?pf = "concat (map (rowFirst C ranking) [0 ..< C])"
  let ?ps = "concat (map (rowSecond C ranking) [0 ..< C])"
  have "InitPairs C ranking = Some (?pf, ?ps, C * (C - 1) div 2)"
    using len by (rule InitPairs_eq)
  moreover have "length ?pf = C * (C - 1) div 2" "length ?ps = C * (C - 1) div 2"
    by (simp_all add: length_rows base_total)
  moreover have "\<forall>i j. i < C \<and> j < C - i - 1 \<longrightarrow>
                    ?pf ! (base C i + j) = ranking ! i \<and> ?ps ! (base C i + j) = ranking ! (i + j + 1)"
    using InitPairs_nth[OF len] by blast
  ultimately show "\<exists>pairFirst pairSecond.
             InitPairs C ranking = Some (pairFirst, pairSecond, C * (C - 1) div 2)
             \<and> length pairFirst = C * (C - 1) div 2 \<and> length pairSecond = C * (C - 1) div 2
             \<and> (\<forall>i j. i < C \<and> j < C - i - 1 \<longrightarrow>
                    pairFirst ! (base C i + j) = ranking ! i
                    \<and> pairSecond ! (base C i + j) = ranking ! (i + j + 1))"
    by blast
next
  have "InitPairs 4 [1, 0, 2, 3 :: fr]
        = Some (concat (map (rowFirst 4 [1, 0, 2, 3]) [0 ..< 4]),
                concat (map (rowSecond 4 [1, 0, 2, 3]) [0 ..< 4]), 4 * (4 - 1) div 2)"
    by (rule InitPairs_eq) simp
  then show "InitPairs 4 [1, 0, 2, 3 :: fr] = Some ([1, 1, 1, 0, 0, 2], [0, 2, 3, 2, 3, 3], 6)"
    by (simp add: rowFirst_def rowSecond_def upt_small)
qed


text \<open>The ranking \<open>[2, 0, 1]\<close> of three candidates: the first components are \<open>2, 2, 0\<close>.\<close>

theorem InitPairs_pair_list_witness:
  "mset [2, 0, 1 :: fr] = mset (map (\<lambda>i. NewElement (of_nat i)) [0 ..< 3])
   \<and> (\<exists>pairSecond. InitPairs 3 [2, 0, 1 :: fr] = Some ([2, 2, 0], pairSecond, 3))"
proof -
  have h: "mset [2, 0, 1 :: fr] = mset (map (\<lambda>i. NewElement (of_nat i)) [0 ..< 3])"
    by (simp add: NewElement_def upt_small add_mset_commute)
  with InitPairs_pair_list[of "[2, 0, 1]" 3] obtain pf ps where
    p: "InitPairs 3 [2, 0, 1 :: fr] = Some (pf, ps, 3 * (3 - 1) div 2)"
      "length pf = 3 * (3 - 1) div 2"
      "\<forall>i j. i < 3 \<and> j < 3 - i - 1 \<longrightarrow> pf ! (base 3 i + j) = [2, 0, 1 :: fr] ! i" by blast
  have b: "base 3 0 = 0" "base 3 1 = 2" by (simp_all add: base_def)
  have "pf ! 0 = 2" using p(3)[rule_format, of 0 0] b by simp
  moreover have "pf ! 1 = 2" using p(3)[rule_format, of 0 1] b by simp
  moreover have "pf ! 2 = 0" using p(3)[rule_format, of 1 0] b by simp
  moreover have "length pf = 3" using p(2) by simp
  ultimately have "pf = [2, 2, 0]"
    by (intro nth_equalityI) (auto simp: less_Suc_eq numeral_3_eq_3 numeral_2_eq_2)
  with p(1) h show ?thesis by simp
qed


subsection \<open>C7: the fingerprint of the empty sequence\<close>

text \<open>
  C7, as stated, fails on the empty sequence: \<open>PolyEval\<close> reads \<open>vec[0]\<close> first and
  panics; it does not return 1.  With a single candidate the pair list of a client is
  empty, and so is the sequence of packed pairs whose fingerprint the client asks for.
\<close>

theorem PolyEval_empty_counterexample:
  "PolyEval ([] :: fr list) 7 = None \<and> PolyEval ([] :: fr list) 7 \<noteq> Some 1
   \<and> InitPairs 1 [0 :: fr] = Some ([], [], 0)
   \<and> PolyEval (ProcessPairs 1 [] ([] :: fr list)) 7 = None"
  by (simp add: InitPairs_def ProcessPairs_def)

text \<open>
  C7, amended.  \<open>PolyEval\<close> returns on every non-empty sequence, and its result is the
  product of \<open>v + r\<close> over all elements \<open>v\<close>; on the empty sequence it panics.
\<close>

theorem PolyEval_product:
  "PolyEval vec r = (if vec = [] then None else Some (prod_list (map (\<lambda>v. v + r) vec)))"
  by (rule PolyEval_eq)

subsection \<open>C8: the dummy count\<close>

text \<open>
  C8 is about \<^verbatim>\<open>ComputeDummyNum\<close>.  What it returns for \<open>n \<le> t\<close> is decided by
  \<^verbatim>\<open>float64\<close> arithmetic: the logarithm of 0, a division by an infinity, the rounding
  up and the conversion to \<^verbatim>\<open>uint64\<close>.  These have no counterpart in this theory, and
  the claim has no statement here.
\<close>

subsection \<open>C9: the threshold clause of a client\<close>

text \<open>
  C9, as stated, fails: the clause compares the sum of one client's shares, which is
  that client's secret 999, with the threshold.  With the threshold 2996 the clause holds
  (and so do the other two assertions of the circuit).
\<close>

theorem threshold_2996_counterexample:
  "ClientRun (\<lambda>xs. 0) 2996 3 999 (\<lambda>j. of_nat (j + 4)) [4] 9 7 = Some (True, True, True)"
  using ClientRun_eq[of 3 "\<lambda>xs. 0" 2996 999 "\<lambda>j. of_nat (j + 4)" "[4]" 9 7] by simp


text \<open>
  C9, amended.  For a client holding the secret 999 the clause ``sum of the shares at
  most the threshold'' holds if and only if the threshold is at least 999, whatever the
  random shares, the dummies, the salt and the challenge; so it holds for the threshold
  2996 and for the source's 2000 and fails for 998.  The sum the server computes from
  the shuffled shares does not depend on the threshold: it is 999 times the number of
  clients.
\<close>

theorem threshold_clause_per_client:
  "(0 < k \<longrightarrow> ClientRun mimc threshold k 999 rnd dummies salt publicRFr
                 = Some (999 \<le> threshold, True, True))
   \<and> ((\<forall>v\<in>set vals. \<exists>rnd. SplitSecret k 999 rnd = Some v)
        \<and> mset allSecretVal = mset (concat vals)
        \<longrightarrow> ServerSum allSecretVal = (of_nat (length vals) * NewElement 999 :: fr))"
proof (intro conjI impI)
  assume "0 < k"
  then show "ClientRun mimc threshold k 999 rnd dummies salt publicRFr
                 = Some (999 \<le> threshold, True, True)"
    by (rule ClientRun_eq)
next
  assume a: "(\<forall>v\<in>set vals. \<exists>rnd. SplitSecret k 999 rnd = Some v)
        \<and> mset allSecretVal = mset (concat vals)"
  then have "\<forall>v\<in>set vals. sum_list v = (NewElement 999 :: fr)"
    using sum_list_SplitSecret by blast
  then have "sum_list (concat vals) = (of_nat (length vals) * NewElement 999 :: fr)"
    by (rule sum_list_concat_const)
  moreover have "sum_list allSecretVal = sum_list (concat vals)"
    using a by (intro sum_list_mset_eq) simp
  ultimately show "ServerSum allSecretVal = (of_nat (length vals) * NewElement 999 :: fr)"
    by (simp add: ServerSum_eq)
qed


text \<open>Two clients, three shares each: the thresholds 2996 and 998, and the sum 1998.\<close>

theorem threshold_clause_per_client_witness:
  "(0::nat) < 3
   \<and> ClientRun (\<lambda>xs. 0) 2996 3 999 (\<lambda>j. of_nat (j + 4)) [4] 9 7 = Some (True, True, True)
   \<and> ClientRun (\<lambda>xs. 0) 998 3 999 (\<lambda>j. of_nat (j + 4)) [4] 9 7 = Some (False, True, True)
   \<and> SplitSecret 3 999 (\<lambda>j. of_nat (j + 4) :: fr) = Some [988, 5, 6]
   \<and> SplitSecret 3 999 (\<lambda>j. of_nat (j + 1) :: fr) = Some [994, 2, 3]
   \<and> mset [5, 988, 3, 994, 6, 2 :: fr] = mset (concat [[988, 5, 6], [994, 2, 3]])
   \<and> Uint64 (ServerSum [5, 988, 3, 994, 6, 2 :: fr]) = 1998"
proof -
  have k: "(0::nat) < 3" by simp
  have 1: "ClientRun (\<lambda>xs. 0) 2996 3 999 (\<lambda>j. of_nat (j + 4)) [4] 9 7 = Some (True, True, True)"
    using threshold_clause_per_client[of 3 "\<lambda>xs. 0" 2996 "\<lambda>j. of_nat (j + 4)" "[4]" 9 7] k by simp
  have 2: "ClientRun (\<lambda>xs. 0) 998 3 999 (\<lambda>j. of_nat (j + 4)) [4] 9 7 = Some (False, True, True)"
    using threshold_clause_per_client[of 3 "\<lambda>xs. 0" 998 "\<lambda>j. of_nat (j + 4)" "[4]" 9 7] k by simp
  have s1: "SplitSecret 3 999 (\<lambda>j. of_nat (j + 4) :: fr) = Some [988, 5, 6]"
    by (simp add: SplitSecret_def split_step_def NewElement_def upt_small numeral_3_eq_3)
  have s2: "SplitSecret 3 999 (\<lambda>j. of_nat (j + 1) :: fr) = Some [994, 2, 3]"
    by (simp add: SplitSecret_def split_step_def NewElement_def upt_small numeral_3_eq_3)
  have m: "mset [5, 988, 3, 994, 6, 2 :: fr] = mset (concat [[988, 5, 6], [994, 2, 3]])"
    by (simp add: add_mset_commute)
  have "\<forall>v\<in>set [[988, 5, 6], [994, 2, 3 :: fr]]. \<exists>rnd. SplitSecret 3 999 rnd = Some v"
    using s1 s2 by auto
  with m have "ServerSum [5, 988, 3, 994, 6, 2 :: fr]
        = of_nat (length [[988, 5, 6], [994, 2, 3 :: fr]]) * NewElement 999"
    using threshold_clause_per_client[of 3 _ _ _ _ _ _ "[[988, 5, 6], [994, 2, 3]]" "[5, 988, 3, 994, 6, 2]"]
    by blast
  then have "Uint64 (ServerSum [5, 988, 3, 994, 6, 2 :: fr]) = 1998"
    by (simp add: NewElement_def Uint64_def fr_val_numeral fr_modulus_def)
  with k 1 2 s1 s2 m show ?thesis by simp
qed


subsection \<open>C10: proofs for a fixed prefix of the clients\<close>

text \<open>
  C10.  In the voting round the clients with a proof and a public witness are exactly
  those with index below \<^verbatim>\<open>MaxNumOfCheckProof\<close>: the submission of such a client \<open>i\<close>
  carries the proof and the public witness that \<^verbatim>\<open>GenProofGroth16\<close> returns for its
  own assignment \<^verbatim>\<open>allAssignment[i]\<close>, every other submission carries \<^verbatim>\<open>nil\<close> for
  both.  The server calls \<^verbatim>\<open>groth16.Verify\<close> on exactly the indices
  \<open>0 .. min(MaxNumOfCheckProof, n) - 1\<close>, in this order, each time on the proof and
  the public witness of that client, whatever was drawn at random.  The public product
  of every client is in its submission, and the product the server compares is the
  product over all clients.
\<close>

theorem proofs_for_prefix_only:
  "length allAssignment = length clients \<longrightarrow>
   (\<exists>subs. MakeSubmissions maxCheck GenProof clients allAssignment = Some subs
      \<and> length subs = length clients
      \<and> (\<forall>i<length clients.
            (i < maxCheck \<longrightarrow>
               zkproof (subs ! i) = Some (fst (GenProof (allAssignment ! i)))
               \<and> publicWitness (subs ! i) = Some (snd (GenProof (allAssignment ! i))))
            \<and> (\<not> i < maxCheck \<longrightarrow> zkproof (subs ! i) = None \<and> publicWitness (subs ! i) = None)
            \<and> publicProd (subs ! i) = PublicProd (clients ! i))
      \<and> VerifyAll maxCheck Verify subs
          = Some (map (\<lambda>i. (i, Verify (fst (GenProof (allAssignment ! i)))
                                      (snd (GenProof (allAssignment ! i)))))
                    [0 ..< min maxCheck (length clients)])
      \<and> VoteProdFromClient clients subs = prod_list (map PublicProd clients))"
proof
  assume len: "length allAssignment = length clients"
  let ?subs = "map (MakeSubmission maxCheck GenProof clients allAssignment) [0 ..< length clients]"
  have 1: "MakeSubmissions maxCheck GenProof clients allAssignment = Some ?subs"
    using len by (simp add: MakeSubmissions_def)
  have 2: "length ?subs = length clients" by simp
  have nth: "\<forall>i<length ?subs. ?subs ! i = MakeSubmission maxCheck GenProof clients allAssignment i"
    by simp
  have 3: "\<forall>i<length clients.
            (i < maxCheck \<longrightarrow>
               zkproof (?subs ! i) = Some (fst (GenProof (allAssignment ! i)))
               \<and> publicWitness (?subs ! i) = Some (snd (GenProof (allAssignment ! i))))
            \<and> (\<not> i < maxCheck \<longrightarrow> zkproof (?subs ! i) = None \<and> publicWitness (?subs ! i) = None)
            \<and> publicProd (?subs ! i) = PublicProd (clients ! i)"
    by (simp add: MakeSubmission_def)
  have "VerifyAll maxCheck Verify ?subs
        = Some (map (\<lambda>i. (i, Verify (fst (GenProof (allAssignment ! i))) (snd (GenProof (allAssignment ! i)))))
                   [0 ..< min maxCheck (length ?subs)])"
    unfolding VerifyAll_def using nth by (rule VerifyAll_fold) simp
  then have 4: "VerifyAll maxCheck Verify ?subs
        = Some (map (\<lambda>i. (i, Verify (fst (GenProof (allAssignment ! i))) (snd (GenProof (allAssignment ! i)))))
                   [0 ..< min maxCheck (length clients)])"
    by simp
  have 5: "VoteProdFromClient clients ?subs = prod_list (map PublicProd clients)"
    using 3 by (intro VoteProdFromClient_eq) blast
  show "\<exists>subs. MakeSubmissions maxCheck GenProof clients allAssignment = Some subs
      \<and> length subs = length clients
      \<and> (\<forall>i<length clients.
            (i < maxCheck \<longrightarrow>
               zkproof (subs ! i) = Some (fst (GenProof (allAssignment ! i)))
               \<and> publicWitness (subs ! i) = Some (snd (GenProof (allAssignment ! i))))
            \<and> (\<not> i < maxCheck \<longrightarrow> zkproof (subs ! i) = None \<and> publicWitness (subs ! i) = None)
            \<and> publicProd (subs ! i) = PublicProd (clients ! i))
      \<and> VerifyAll maxCheck Verify subs
          = Some (map (\<lambda>i. (i, Verify (fst (GenProof (allAssignment ! i)))
                                      (snd (GenProof (allAssignment ! i)))))
                    [0 ..< min maxCheck (length clients)])
      \<and> VoteProdFromClient clients subs = prod_list (map PublicProd clients)"
    using 1 2 3 4 5 by (intro exI[of _ ?subs] conjI)
qed


text \<open>
  Two clients with public products 27 and 40, one proof to check; the proof of an
  assignment is here the length of its pair list and its public witness is its public
  product, and a proof passes when it is 1 and comes with the public witness 27.  The
  first submission carries the proof of the first assignment, the second carries none,
  the first proof alone is verified and passes, and the product is 1080.
\<close>

theorem proofs_for_prefix_only_witness:
  "(\<exists>subs. MakeSubmissions 1 (\<lambda>a. (length (PairFirstVar a), VoteCircuit.PublicProd a))
        [\<lparr>SortedCandidate = [1, 0], PairFirst = [1], PairSecond = [0], PrivateX = [2],
           PrivateY = [3], PublicCom = 0, PrivateMask = 3, PrivateSalt = 9, PublicProd = 27,
           PublicR = 0\<rparr>,
         \<lparr>SortedCandidate = [0, 1], PairFirst = [0], PairSecond = [1], PrivateX = [1],
           PrivateY = [5], PublicCom = 0, PrivateMask = 5, PrivateSalt = 8, PublicProd = 40,
           PublicR = 0\<rparr>]
        [\<lparr>VoteCircuit.SortedCandidate = [1, 0], PairFirstVar = [1], PairSecondVar = [0],
           PrivateMask = 3, PublicR = 7, PublicProd = 27, PublicCommitment = 0, PrivateSalt = 9\<rparr>,
         \<lparr>VoteCircuit.SortedCandidate = [0, 1], PairFirstVar = [0], PairSecondVar = [1],
           PrivateMask = 5, PublicR = 7, PublicProd = 40, PublicCommitment = 0, PrivateSalt = 8\<rparr>]
       = Some subs
     \<and> zkproof (subs ! 0) = Some 1 \<and> publicWitness (subs ! 0) = Some 27
     \<and> zkproof (subs ! 1) = None \<and> publicWitness (subs ! 1) = None
     \<and> publicProd (subs ! 1) = 40
     \<and> VerifyAll 1 (\<lambda>p w. p = 1 \<and> w = 27) subs = Some [(0, True)]
     \<and> VoteProdFromClient
          [\<lparr>SortedCandidate = [1, 0], PairFirst = [1], PairSecond = [0], PrivateX = [2],
             PrivateY = [3], PublicCom = 0, PrivateMask = 3, PrivateSalt = 9, PublicProd = 27,
             PublicR = 0\<rparr>,
           \<lparr>SortedCandidate = [0, 1], PairFirst = [0], PairSecond = [1], PrivateX = [1],
             PrivateY = [5], PublicCom = 0, PrivateMask = 5, PrivateSalt = 8, PublicProd = 40,
             PublicR = 0\<rparr>] subs = 1080)"
proof -
  let ?c1 = "\<lparr>SortedCandidate = [1, 0], PairFirst = [1], PairSecond = [0], PrivateX = [2],
           PrivateY = [3], PublicCom = 0, PrivateMask = 3, PrivateSalt = 9, PublicProd = 27,
           PublicR = 0\<rparr>"
  let ?c2 = "\<lparr>SortedCandidate = [0, 1], PairFirst = [0], PairSecond = [1], PrivateX = [1],
           PrivateY = [5], PublicCom = 0, PrivateMask = 5, PrivateSalt = 8, PublicProd = 40,
           PublicR = 0\<rparr>"
  let ?a1 = "\<lparr>VoteCircuit.SortedCandidate = [1, 0], PairFirstVar = [1], PairSecondVar = [0],
           PrivateMask = 3, PublicR = 7, PublicProd = 27, PublicCommitment = 0, PrivateSalt = 9\<rparr>"
  let ?a2 = "\<lparr>VoteCircuit.SortedCandidate = [0, 1], PairFirstVar = [0], PairSecondVar = [1],
           PrivateMask = 5, PublicR = 7, PublicProd = 40, PublicCommitment = 0, PrivateSalt = 8\<rparr>"
  let ?G = "\<lambda>a. (length (PairFirstVar a), VoteCircuit.PublicProd a)"
  let ?V = "\<lambda>p w. p = (1::nat) \<and> w = (27::fr)"
  have len: "length [?a1, ?a2] = length [?c1, ?c2]" by simp
  from proofs_for_prefix_only[of "[?a1, ?a2]" "[?c1, ?c2]" 1 ?G ?V] len
  obtain subs where s: "MakeSubmissions 1 ?G [?c1, ?c2] [?a1, ?a2] = Some subs"
    "\<forall>i<length [?c1, ?c2].
        (i < 1 \<longrightarrow> zkproof (subs ! i) = Some (fst (?G ([?a1, ?a2] ! i)))
                   \<and> publicWitness (subs ! i) = Some (snd (?G ([?a1, ?a2] ! i))))
        \<and> (\<not> i < 1 \<longrightarrow> zkproof (subs ! i) = None \<and> publicWitness (subs ! i) = None)
        \<and> publicProd (subs ! i) = PublicProd ([?c1, ?c2] ! i)"
    "VerifyAll 1 ?V subs
       = Some (map (\<lambda>i. (i, ?V (fst (?G ([?a1, ?a2] ! i))) (snd (?G ([?a1, ?a2] ! i)))))
                 [0 ..< min 1 (length [?c1, ?c2])])"
    "VoteProdFromClient [?c1, ?c2] subs = prod_list (map PublicProd [?c1, ?c2])"
    by blast
  have z0: "zkproof (subs ! 0) = Some 1" and w0: "publicWitness (subs ! 0) = Some 27"
    using s(2)[rule_format, of 0] by simp_all
  have z1: "zkproof (subs ! 1) = None" and w1: "publicWitness (subs ! 1) = None"
    and p1: "publicProd (subs ! 1) = 40"
    using s(2)[rule_format, of 1] by simp_all
  have v: "VerifyAll 1 ?V subs = Some [(0, True)]"
    unfolding s(3) by simp
  have "VoteProdFromClient [?c1, ?c2] subs = 1080" using s(4) by simp
  with s(1) z0 w0 z1 w1 p1 v show ?thesis by blast
qed

end
